theory Spec2Isabelle
  imports Main
begin

section \<open>Strings and character classes\<close>

text \<open>
  JavaScript strings are modelled as \<open>string\<close> (lists of 8-bit characters); the
  character classes of the regular expressions in the source are written out below.
  \<open>\d\<close> is \<open>[0-9]\<close>; \<open>\s\<close> (and what \<open>trim\<close> removes) is, among the code units
  below 256, tab, line feed, vertical tab, form feed, carriage return, space and the
  no-break space.
\<close>

definition isDigit :: "char \<Rightarrow> bool" where
  "isDigit c = (c \<in> set ''0123456789'')"

definition isSpace :: "char \<Rightarrow> bool" where
  "isSpace c = (c \<in> set [CHR 0x09, CHR 0x0A, CHR 0x0B, CHR 0x0C, CHR 0x0D, CHR 0x20, CHR 0xA0])"

definition trim :: "string \<Rightarrow> string" where
  "trim s = rev (dropWhile isSpace (rev (dropWhile isSpace s)))"

section \<open>Numbers in template literals\<close>

fun showNat :: "nat \<Rightarrow> string" where
  "showNat n = (if n < 10 then [''0123456789'' ! n]
                else showNat (n div 10) @ [''0123456789'' ! (n mod 10)])"

definition showInt :: "int \<Rightarrow> string" where
  "showInt i = (if i < 0 then CHR ''-'' # showNat (nat (- i)) else showNat (nat i))"

section \<open>convert.js: replacePlaceholders\<close>

text \<open>
  \<^verbatim>\<open>messageBody.replace(/{}/g, () => { const replacement = parameters[index]; index++;
     return replacement !== undefined ? replacement : "{}"; })\<close>
  The scan goes left to right over the original body; the text put in is not scanned
  again. \<open>parameters[index]\<close> is \<open>undefined\<close> exactly when the index is out of range
  (the extractors filter \<open>undefined\<close> out of every parameter list).
\<close>

fun replaceFrom :: "nat \<Rightarrow> string \<Rightarrow> string list \<Rightarrow> string" where
  "replaceFrom index [] parameters = []"
| "replaceFrom index [c] parameters = [c]"
| "replaceFrom index (c # d # cs) parameters =
     (if c = CHR ''{'' \<and> d = CHR ''}''
      then (if index < length parameters then parameters ! index else ''{}'')
             @ replaceFrom (Suc index) cs parameters
      else c # replaceFrom index (d # cs) parameters)"

definition replacePlaceholders :: "string \<Rightarrow> string list \<Rightarrow> string" where
  "replacePlaceholders messageBody parameters = replaceFrom 0 messageBody parameters"

text \<open>
  The number of matches of \<^verbatim>\<open>/\{\}/g\<close> in a string (\<^verbatim>\<open>paragraph.match(/\{\}/g)\<close>
  in validate.js): matches are found left to right and do not overlap.
\<close>

fun countPlaceholders :: "string \<Rightarrow> nat" where
  "countPlaceholders [] = 0"
| "countPlaceholders [c] = 0"
| "countPlaceholders (c # d # cs) =
     (if c = CHR ''{'' \<and> d = CHR ''}''
      then Suc (countPlaceholders cs)
      else countPlaceholders (d # cs))"

subsection \<open>The substitution as the specification words it\<close>

text \<open>
  Specification side of the refinement: \<open>splitPlaceholders\<close> cuts a body at every
  occurrence of \<open>{}\<close> into the pieces of text around the occurrences, and
  \<open>substituted\<close> lists what the i-th occurrence becomes: the i-th parameter, or the
  literal \<open>{}\<close> once the parameters have run out. \<open>concat (splice pieces fills)\<close>
  puts the fills back between the pieces.
\<close>

fun splitPlaceholders :: "string \<Rightarrow> string list" where
  "splitPlaceholders [] = [[]]"
| "splitPlaceholders [c] = [[c]]"
| "splitPlaceholders (c # d # cs) =
     (if c = CHR ''{'' \<and> d = CHR ''}''
      then [] # splitPlaceholders cs
      else (c # hd (splitPlaceholders (d # cs))) # tl (splitPlaceholders (d # cs)))"

definition substituted :: "string list \<Rightarrow> nat \<Rightarrow> nat \<Rightarrow> string list" where
  "substituted parameters i n =
     map (\<lambda>j. if j < length parameters then parameters ! j else ''{}'') [i..<i + n]"


section \<open>validate.js: address formats\<close>

text \<open>
  \<^verbatim>\<open>/^[^\s@]+@[^\s@]+\.[^\s@]+$/.test(emailAddress)\<close>. The class \<open>[^\s@]\<close> excludes
  \<open>@\<close>, so the local part is the longest prefix of such characters and must be followed
  by \<open>@\<close>; what follows has to consist of such characters again with a dot that is
  neither its first nor its last character.
\<close>

definition emailChar :: "char \<Rightarrow> bool" where
  "emailChar c = (\<not> isSpace c \<and> c \<noteq> CHR ''@'')"

definition isValidEmail :: "string \<Rightarrow> bool" where
  "isValidEmail emailAddress =
     (takeWhile emailChar emailAddress \<noteq> [] \<and>
      (case dropWhile emailChar emailAddress of
         [] \<Rightarrow> False
       | a # domain \<Rightarrow>
           a = CHR ''@'' \<and> list_all emailChar domain \<and> CHR ''.'' \<in> set (butlast (tl domain))))"

text \<open>
  \<^verbatim>\<open>/^\+\d{1,3}(\s?\d){4,14}$/.test(mobileNumber.trim())\<close>. \<open>digitGroups\<close> reads
  \<open>(\s?\d)*\<close> up to the end of the string and counts the groups (each group is read in
  one way only, a digit not being a space); the regex matches when, after the plus
  sign, one, two or three leading digits can be set apart so that between 4 and 14
  groups remain.
\<close>

fun digitGroups :: "string \<Rightarrow> nat option" where
  "digitGroups [] = Some 0"
| "digitGroups [c] = (if isDigit c then Some 1 else None)"
| "digitGroups (c # d # cs) =
     (if isDigit c then map_option Suc (digitGroups (d # cs))
      else if isSpace c \<and> isDigit d then map_option Suc (digitGroups cs)
      else None)"

definition mobileRegex :: "string \<Rightarrow> bool" where
  "mobileRegex s =
     (case s of
        [] \<Rightarrow> False
      | p # r \<Rightarrow>
          p = CHR ''+'' \<and>
          list_ex (\<lambda>k. k \<le> length r \<and> list_all isDigit (take k r) \<and>
                       (case digitGroups (drop k r) of
                          None \<Rightarrow> False
                        | Some g \<Rightarrow> 4 \<le> g \<and> g \<le> 14))
                  [1, 2, 3])"

definition isValidMobile :: "string \<Rightarrow> bool" where
  "isValidMobile mobileNumber = mobileRegex (trim mobileNumber)"

section \<open>validate.js: sheet fields and placeholders\<close>

text \<open>
  A cell of the sheet is \<open>None\<close> where \<open>sheet_to_json\<close> leaves it \<open>undefined\<close>. Otherwise
  it holds a text, or a value that is no text: \<open>sheet_to_json\<close> hands a cell typed as a
  number or a boolean to the program as a number or a boolean. Such a value is kept
  with the text \<open>String\<close> gives it, which is what a template literal, a regex test and
  \<open>String.replace\<close> with a replacement function make of it (\<open>cellText\<close>); a method of
  texts such as \<open>trim\<close>, \<open>replace\<close>, \<open>match\<close> or \<open>split\<close> called on it throws a TypeError.
  \<open>cellString\<close> is \<open>String\<close> of a cell, \<open>undefined\<close> included.

  The objects \<open>{ email, parameters }\<close> and \<open>{ mobile, parameters }\<close> built by the
  extractors are one record; \<open>address\<close> is the \<open>email\<close> or \<open>mobile\<close> field.
\<close>

datatype cellValue = Text string | NonText string

type_synonym cell = "cellValue option"

fun cellText :: "cellValue \<Rightarrow> string" where
  "cellText (Text s) = s"
| "cellText (NonText s) = s"

fun cellString :: "cell \<Rightarrow> string" where
  "cellString None = ''undefined''"
| "cellString (Some v) = cellText v"

fun notText :: "cell \<Rightarrow> bool" where
  "notText (Some (NonText s)) = True"
| "notText row = False"

record parameterMap =
  address :: string
  parameters :: "string list"

datatype validationError =
    ClientNameMissing
  | ClientEmailMissing
  | ClientMobileMissing
  | CompanyNameMissing
  | CompanyAddressMissing
  | EmailSubjectMissing
  | SmsBodyMissing
  | ParagraphRequired
  | EmailAddressRequired
  | MobileNumberRequired
  | WhatsappAccessTokenMissing
  | WhatsappPhoneNumberIdMissing
  | WhatsappTemplateNameMissing
  | ParameterMismatch nat nat nat
  | ParagraphNotText

text \<open>The message of each error thrown by the validation functions.\<close>

fun validationMessage :: "validationError \<Rightarrow> string" where
  "validationMessage ClientNameMissing = ''Client name missing in speadsheet!''"
| "validationMessage ClientEmailMissing = ''Client email address missing in speadsheet!''"
| "validationMessage ClientMobileMissing = ''Client mobile number missing in speadsheet!''"
| "validationMessage CompanyNameMissing = ''Company name missing in speadsheet!''"
| "validationMessage CompanyAddressMissing = ''Company address missing in speadsheet!''"
| "validationMessage EmailSubjectMissing = ''Email subject missing in speadsheet!''"
| "validationMessage SmsBodyMissing = ''SMS body missing in speadsheet!''"
| "validationMessage ParagraphRequired = ''Atleast one paragraph required in spreadsheet!''"
| "validationMessage EmailAddressRequired = ''At least one email address required to send to!''"
| "validationMessage MobileNumberRequired = ''At least one mobile number required to send to!''"
| "validationMessage WhatsappAccessTokenMissing =
     ''Client WhatsApp Access Token missing in speadsheet!''"
| "validationMessage WhatsappPhoneNumberIdMissing =
     ''Client WhatsApp Phone Number ID missing in speadsheet!''"
| "validationMessage WhatsappTemplateNameMissing =
     ''Client WhatsApp Template Name missing in speadsheet!''"
| "validationMessage (ParameterMismatch row placeholderCount parameterCount) =
     ''Failed to validate message placeholders: Parameter mismatch detected in row[''
       @ showNat row @ '']: Found '' @ showNat placeholderCount
       @ '' '' @ [CHR 0x27] @ ''{}'' @ [CHR 0x27] @ '' placeholders but ''
       @ showNat parameterCount @ '' parameter values!''"
| "validationMessage ParagraphNotText =
     ''Failed to validate message placeholders: paragraph.match is not a function''"

text \<open>
  \<open>validateMessagePlaceholders\<close>: the \<open>reduce\<close> adds up the matches of every paragraph;
  the \<open>forEach\<close> throws at the first map whose parameter count differs, naming
  \<open>row[index + 1]\<close>, the placeholder count and the parameter count.
\<close>

fun checkParameterCounts :: "nat \<Rightarrow> nat \<Rightarrow> parameterMap list \<Rightarrow> validationError + unit" where
  "checkParameterCounts placeholderCount index [] = Inr ()"
| "checkParameterCounts placeholderCount index (m # ms) =
     (if placeholderCount \<noteq> length (parameters m)
      then Inl (ParameterMismatch (index + 1) placeholderCount (length (parameters m)))
      else checkParameterCounts placeholderCount (Suc index) ms)"

definition validateMessagePlaceholders ::
  "string list \<Rightarrow> parameterMap list \<Rightarrow> validationError + unit" where
  "validateMessagePlaceholders messageParagraphs parameterMaps =
     checkParameterCounts
       (foldl (\<lambda>count paragraph. count + countPlaceholders paragraph) 0 messageParagraphs)
       0 parameterMaps"

definition validateEmailSheetFields ::
  "cell \<Rightarrow> cell \<Rightarrow> cell \<Rightarrow> cell \<Rightarrow> cell \<Rightarrow> string list \<Rightarrow> parameterMap list
     \<Rightarrow> validationError + unit" where
  "validateEmailSheetFields clientName clientEmail companyName companyAddress emailSubject
       emailParagraphs emailParameterMaps =
     (if clientName = None then Inl ClientNameMissing
      else if clientEmail = None then Inl ClientEmailMissing
      else if companyName = None then Inl CompanyNameMissing
      else if companyAddress = None then Inl CompanyAddressMissing
      else if emailSubject = None then Inl EmailSubjectMissing
      else if list_all (\<lambda>row. trim row = []) emailParagraphs then Inl ParagraphRequired
      else if \<not> list_ex (\<lambda>item. address item \<noteq> []) emailParameterMaps then Inl EmailAddressRequired
      else validateMessagePlaceholders emailParagraphs emailParameterMaps)"

text \<open>
  The paragraphs of an email are texts when they reach the validation (the filter of
  \<open>extractEmail\<close> has called \<open>trim\<close> on each). The body of an SMS is the cell as read:
  for a body that is no text, \<open>paragraph.match\<close> throws inside
  \<open>validateMessagePlaceholders\<close>, before any map is looked at, and the \<open>catch\<close> around the
  call wraps that TypeError as it wraps a mismatch.
\<close>

definition validateSmsSheetFields ::
  "cell \<Rightarrow> cell \<Rightarrow> cell \<Rightarrow> cell \<Rightarrow> parameterMap list \<Rightarrow> validationError + unit" where
  "validateSmsSheetFields clientName clientEmail clientMobile smsBody mobileParameterMaps =
     (if clientName = None then Inl ClientNameMissing
      else if clientEmail = None then Inl ClientEmailMissing
      else if clientMobile = None then Inl ClientMobileMissing
      else if smsBody = None then Inl SmsBodyMissing
      else if \<not> list_ex (\<lambda>item. address item \<noteq> []) mobileParameterMaps then Inl MobileNumberRequired
      else (case the smsBody of
              Text body \<Rightarrow> validateMessagePlaceholders [body] mobileParameterMaps
            | NonText body \<Rightarrow> Inl ParagraphNotText))"

definition validateWhatsappSheetFields ::
  "cell \<Rightarrow> cell \<Rightarrow> cell \<Rightarrow> cell \<Rightarrow> cell \<Rightarrow> cell \<Rightarrow> validationError + unit" where
  "validateWhatsappSheetFields clientName clientEmail clientMobile whatsappAccessToken
       whatsappPhoneNumberId whatsappTemplateName =
     (if clientName = None then Inl ClientNameMissing
      else if clientEmail = None then Inl ClientEmailMissing
      else if clientMobile = None then Inl ClientMobileMissing
      else if whatsappAccessToken = None then Inl WhatsappAccessTokenMissing
      else if whatsappPhoneNumberId = None then Inl WhatsappPhoneNumberIdMissing
      else if whatsappTemplateName = None then Inl WhatsappTemplateNameMissing
      else Inr ())"

section \<open>excel.js: extraction\<close>

text \<open>
  \<open>formatMobileNumbers\<close>: \<^verbatim>\<open>number.replace(/\s+/g, "").replace(/(?!^\+)[^\d]/g, "")\<close>.
  The second replacement deletes every non-digit except a plus sign in first position
  of the string it is applied to.
\<close>

definition formatNumber :: "string \<Rightarrow> string" where
  "formatNumber number =
     (case filter (\<lambda>c. \<not> isSpace c) number of
        [] \<Rightarrow> []
      | c # cs \<Rightarrow> (if c = CHR ''+'' \<or> isDigit c then [c] else []) @ filter isDigit cs)"

definition formatMobileNumbers :: "string list \<Rightarrow> string list" where
  "formatMobileNumbers mobileNumbers = map formatNumber mobileNumbers"

text \<open>
  \<open>sheetData\<close> is the array of rows of \<open>sheet_to_json(sheet, { header: 1 })\<close>; reading a
  column beyond the end of a row gives \<open>undefined\<close>. Reading \<open>sheetData[i][1]\<close> for a row
  that does not exist throws a TypeError (\<open>SheetTypeError\<close>), and so does a method of
  texts called on a cell that is no text (\<open>CellTypeError\<close>, with the method named as in
  the message: \<open>row.trim\<close>, \<open>number.replace\<close>). Neither is caught inside the extractor.
\<close>

type_synonym sheet = "cell list list"

definition cellAt :: "cell list \<Rightarrow> nat \<Rightarrow> cell" where
  "cellAt row j = (if j < length row then row ! j else None)"

datatype extractError = SheetTypeError | CellTypeError string | SheetInvalid validationError

text \<open>
  The message of the error an extractor throws; \<open>sheetKind\<close> is \<open>email\<close>, \<open>SMS\<close> or
  \<open>WhatsApp\<close>.
\<close>

fun extractErrorMessage :: "string \<Rightarrow> extractError \<Rightarrow> string" where
  "extractErrorMessage sheetKind SheetTypeError =
     ''Cannot read properties of undefined (reading '' @ [CHR 0x27] @ ''1'' @ [CHR 0x27] @ '')''"
| "extractErrorMessage sheetKind (CellTypeError method) = method @ '' is not a function''"
| "extractErrorMessage sheetKind (SheetInvalid error) =
     ''Failed to validate '' @ sheetKind @ '' sheet: '' @ validationMessage error"

text \<open>
  The \<open>Map\<close> used for deduplication, as an association list in insertion order:
  \<open>has\<close>, \<open>set\<close> of a new key, \<open>values()\<close>.
\<close>

definition uniqueValues :: "parameterMap list \<Rightarrow> parameterMap list" where
  "uniqueValues items =
     map snd
       (foldl (\<lambda>uniqueMap item.
                 if map_of uniqueMap (address item) = None
                 then uniqueMap @ [(address item, item)]
                 else uniqueMap)
              [] items)"

text \<open>
  The \<open>map\<close> callback of \<open>extractEmail\<close> over the address column (column 3 of every row
  after the header), with its \<open>push\<close> onto \<open>invalidEmailAddresses\<close>: the result is the
  list of maps (the \<open>null\<close>s filtered out) and the invalid addresses. The regex test of
  \<open>isValidEmail\<close> reads the cell as \<open>String\<close> makes it (the text \<open>undefined\<close>, which has no
  \<open>@\<close>, for an empty cell). A cell that fails the test and is not \<open>undefined\<close> gets
  \<open>row.trim()\<close>, which throws for a cell that is no text; the rows are gone through in
  order, so the callback throws at the first such row. A parameter that is no text
  becomes its text when \<open>replacePlaceholders\<close> puts it into the message, and so does an
  address that is no text and passes the test (the text of a number or a boolean has
  no \<open>@\<close>, so there is none) when the mail is addressed.
\<close>

fun scanEmailColumn ::
  "sheet \<Rightarrow> nat \<Rightarrow> cell list \<Rightarrow> extractError + parameterMap list \<times> string list" where
  "scanEmailColumn sheetData rowIndex [] = Inr ([], [])"
| "scanEmailColumn sheetData rowIndex (row # rows) =
     (if isValidEmail (cellString row)
      then (case scanEmailColumn sheetData (Suc rowIndex) rows of
              Inl error \<Rightarrow> Inl error
            | Inr (maps, invalid) \<Rightarrow>
                Inr (\<lparr>address = cellString row,
                      parameters =
                        map cellText (List.map_filter id (drop 4 (sheetData ! (rowIndex + 1))))\<rparr>
                       # maps,
                     invalid))
      else (case row of
              None \<Rightarrow> scanEmailColumn sheetData (Suc rowIndex) rows
            | Some (NonText value) \<Rightarrow> Inl (CellTypeError ''row.trim'')
            | Some (Text value) \<Rightarrow>
                (case scanEmailColumn sheetData (Suc rowIndex) rows of
                   Inl error \<Rightarrow> Inl error
                 | Inr (maps, invalid) \<Rightarrow>
                     if trim value \<noteq> [] then Inr (maps, value # invalid)
                     else Inr (maps, invalid))))"

text \<open>
  The fields \<open>clientEmail\<close> and \<open>emailSubject\<close> of a result are the cells as read, since
  the log writers call \<open>split\<close> and \<open>replace\<close> on them; every other use of a client field
  puts it into a template literal or hands it to a service, so the other fields are
  kept as their text.
\<close>

record extractBase =
  clientName :: string
  clientEmail :: cellValue

record emailExtract = extractBase +
  companyName :: string
  companyAddress :: string
  emailSubject :: cellValue
  emailParagraphs :: "string list"
  emailParameterMaps :: "parameterMap list"
  invalidEmailAddresses :: "string list"

text \<open>
  \<open>extractEmail\<close>: the filter of the paragraph column calls \<open>trim\<close> on every cell that
  is not \<open>undefined\<close>, and throws at a cell that is no text, before the address column
  is gone through.
\<close>

definition extractEmail :: "sheet \<Rightarrow> extractError + emailExtract" where
  "extractEmail sheetData =
     (if length sheetData < 6 then Inl SheetTypeError
      else
        let emailColumnData = map (\<lambda>row. cellAt row 3) (drop 1 sheetData);
            paragraphColumnData = map (\<lambda>row. cellAt row 2) (drop 1 sheetData);
            clientName = cellAt (sheetData ! 1) 1;
            clientEmail = cellAt (sheetData ! 2) 1;
            companyName = cellAt (sheetData ! 3) 1;
            companyAddress = cellAt (sheetData ! 4) 1;
            emailSubject = cellAt (sheetData ! 5) 1
        in if list_ex notText paragraphColumnData then Inl (CellTypeError ''row.trim'')
           else
             let emailParagraphs =
                   map cellString
                     (filter (\<lambda>row. row \<noteq> None \<and> trim (cellString row) \<noteq> [])
                        paragraphColumnData)
             in case scanEmailColumn sheetData 0 emailColumnData of
                  Inl error \<Rightarrow> Inl error
                | Inr scanned \<Rightarrow>
                    let (emailParameterMaps, invalidEmailAddresses) = scanned
                    in
                    (case validateEmailSheetFields clientName clientEmail companyName
                            companyAddress emailSubject emailParagraphs emailParameterMaps of
                       Inl error \<Rightarrow> Inl (SheetInvalid error)
                     | Inr _ \<Rightarrow>
                         Inr \<lparr>clientName = cellString clientName,
                              clientEmail = the clientEmail,
                              companyName = cellString companyName,
                              companyAddress = cellString companyAddress,
                              emailSubject = the emailSubject,
                              emailParagraphs = emailParagraphs,
                              emailParameterMaps = uniqueValues emailParameterMaps,
                              invalidEmailAddresses = invalidEmailAddresses\<rparr>))"

text \<open>
  The \<open>map\<close> callback shared by \<open>extractMobile\<close> and \<open>extractWhatsapp\<close> over the mobile
  column (column 2): the formatted number is validated, the cell as written is stored.
  \<open>formatMobileNumbers([row])\<close> is called on every cell that is not \<open>undefined\<close>, and its
  \<open>number.replace\<close> throws for a cell that is no text.
\<close>

fun scanMobileColumn ::
  "sheet \<Rightarrow> nat \<Rightarrow> cell list \<Rightarrow> extractError + parameterMap list \<times> string list" where
  "scanMobileColumn sheetData rowIndex [] = Inr ([], [])"
| "scanMobileColumn sheetData rowIndex (row # rows) =
     (case row of
        None \<Rightarrow> scanMobileColumn sheetData (Suc rowIndex) rows
      | Some (NonText value) \<Rightarrow> Inl (CellTypeError ''number.replace'')
      | Some (Text value) \<Rightarrow>
          (case scanMobileColumn sheetData (Suc rowIndex) rows of
             Inl error \<Rightarrow> Inl error
           | Inr (maps, invalid) \<Rightarrow>
               if isValidMobile (hd (formatMobileNumbers [value]))
               then Inr (\<lparr>address = value,
                           parameters =
                             map cellText
                               (List.map_filter id (drop 3 (sheetData ! (rowIndex + 1))))\<rparr>
                            # maps,
                         invalid)
               else if trim value \<noteq> [] then Inr (maps, value # invalid)
               else Inr (maps, invalid)))"

record mobileExtract = extractBase +
  clientMobile :: "string list"
  invalidMobileNumbers :: "string list"

record smsExtract = mobileExtract +
  smsBody :: string
  mobileParameterMaps :: "parameterMap list"

record whatsappExtract = mobileExtract +
  whatsappAccessToken :: string
  whatsappPhoneNumberId :: string
  whatsappTemplateName :: string
  whatsappParameterMaps :: "parameterMap list"

text \<open>
  \<open>extractMobile\<close> and \<open>extractWhatsapp\<close> format the client's mobile number after the
  validation: \<open>formatMobileNumbers([clientMobile])\<close> throws for a cell that is no text.
\<close>

definition extractMobile :: "sheet \<Rightarrow> extractError + smsExtract" where
  "extractMobile sheetData =
     (if length sheetData < 5 then Inl SheetTypeError
      else
        let mobileColumnData = map (\<lambda>row. cellAt row 2) (drop 1 sheetData);
            clientName = cellAt (sheetData ! 1) 1;
            clientEmail = cellAt (sheetData ! 2) 1;
            clientMobile = cellAt (sheetData ! 3) 1;
            smsBody = cellAt (sheetData ! 4) 1
        in case scanMobileColumn sheetData 0 mobileColumnData of
             Inl error \<Rightarrow> Inl error
           | Inr scanned \<Rightarrow>
               let (mobileParameterMaps, invalidMobileNumbers) = scanned
               in
               (case validateSmsSheetFields clientName clientEmail clientMobile smsBody
                       mobileParameterMaps of
                  Inl error \<Rightarrow> Inl (SheetInvalid error)
                | Inr _ \<Rightarrow>
                    if notText clientMobile then Inl (CellTypeError ''number.replace'')
                    else
                      Inr \<lparr>clientName = cellString clientName,
                           clientEmail = the clientEmail,
                           clientMobile = formatMobileNumbers [cellString clientMobile],
                           invalidMobileNumbers = invalidMobileNumbers,
                           smsBody = cellString smsBody,
                           mobileParameterMaps = uniqueValues mobileParameterMaps\<rparr>))"

definition extractWhatsapp :: "sheet \<Rightarrow> extractError + whatsappExtract" where
  "extractWhatsapp sheetData =
     (if length sheetData < 7 then Inl SheetTypeError
      else
        let whatsappColumnData = map (\<lambda>row. cellAt row 2) (drop 1 sheetData);
            clientName = cellAt (sheetData ! 1) 1;
            clientEmail = cellAt (sheetData ! 2) 1;
            clientMobile = cellAt (sheetData ! 3) 1;
            whatsappAccessToken = cellAt (sheetData ! 4) 1;
            whatsappPhoneNumberId = cellAt (sheetData ! 5) 1;
            whatsappTemplateName = cellAt (sheetData ! 6) 1
        in case scanMobileColumn sheetData 0 whatsappColumnData of
             Inl error \<Rightarrow> Inl error
           | Inr scanned \<Rightarrow>
               let (whatsappParameterMaps, invalidMobileNumbers) = scanned
               in
               (case validateWhatsappSheetFields clientName clientEmail clientMobile
                       whatsappAccessToken whatsappPhoneNumberId whatsappTemplateName of
                  Inl error \<Rightarrow> Inl (SheetInvalid error)
                | Inr _ \<Rightarrow>
                    if notText clientMobile then Inl (CellTypeError ''number.replace'')
                    else
                      Inr \<lparr>clientName = cellString clientName,
                           clientEmail = the clientEmail,
                           clientMobile = formatMobileNumbers [cellString clientMobile],
                           invalidMobileNumbers = invalidMobileNumbers,
                           whatsappAccessToken = cellString whatsappAccessToken,
                           whatsappPhoneNumberId = cellString whatsappPhoneNumberId,
                           whatsappTemplateName = cellString whatsappTemplateName,
                           whatsappParameterMaps = uniqueValues whatsappParameterMaps\<rparr>))"


section \<open>response.js and the collaborators\<close>

text \<open>
  \<open>ResponseHandler\<close>: \<open>success\<close> gives status 200 with a message and data; \<open>error\<close>
  gives a status (500 when \<open>undefined\<close> is passed), a message and details.
\<close>

datatype 'a response = Success string 'a | Failure nat string "string option"

fun statusCode :: "'a response \<Rightarrow> nat" where
  "statusCode (Success message data) = 200"
| "statusCode (Failure code message details) = code"

fun message :: "'a response \<Rightarrow> string" where
  "message (Success text data) = text"
| "message (Failure code text details) = text"

definition ResponseHandler_error :: "nat option \<Rightarrow> string \<Rightarrow> string option \<Rightarrow> 'a response" where
  "ResponseHandler_error code text details =
     Failure (case code of None \<Rightarrow> 500 | Some c \<Rightarrow> c) text details"

definition ResponseHandler_notFound :: "string \<Rightarrow> string option \<Rightarrow> 'a response" where
  "ResponseHandler_notFound text details = ResponseHandler_error (Some 404) text details"

definition ResponseHandler_badRequest :: "string \<Rightarrow> string option \<Rightarrow> 'a response" where
  "ResponseHandler_badRequest text details = ResponseHandler_error (Some 400) text details"

text \<open>
  What a call to a collaborator does: the promise resolves, the promise rejects, or the
  call throws before any promise exists. An error is the text that concatenation
  with a string gives.
\<close>

datatype 'a outcome = Resolved 'a | Rejected string | Thrown string

text \<open>
  \<open>Promise.all\<close> over the array a \<open>map\<close> callback produced: a slot whose callback
  caught a throw and returned nothing holds \<open>undefined\<close>; one rejected promise rejects
  the whole (with the reason of the rejection that settles first; the model takes the
  first in submission order).
\<close>

fun promiseAll :: "'a outcome list \<Rightarrow> string + 'a option list" where
  "promiseAll [] = Inr []"
| "promiseAll (Rejected error # ps) = Inl error"
| "promiseAll (Resolved x # ps) =
     (case promiseAll ps of Inl error \<Rightarrow> Inl error | Inr rs \<Rightarrow> Inr (Some x # rs))"
| "promiseAll (Thrown error # ps) =
     (case promiseAll ps of Inl error \<Rightarrow> Inl error | Inr rs \<Rightarrow> Inr (None # rs))"

text \<open>An account of the identity provider, with the metadata the program reads and writes.\<close>

record user =
  user_id :: string
  email :: string
  name :: string
  nickname :: string
  email_verified :: bool
  is_active :: bool
  tokens :: int
  wa_access_token :: string
  wa_phone_number_id :: string

record sendEmailInput =
  Source :: string
  ToAddresses :: "string list"
  Subject :: string
  Html :: string

text \<open>
  The \<open>to\<close> of a WhatsApp payload: a mobile number of the sheet, or the array that
  \<open>formatMobileNumbers([clientMobile])\<close> returned.
\<close>

datatype phone = PhoneText string | PhoneList "string list"

text \<open>Every request the program sends out, in the order of sending.\<close>

datatype call =
    SendEmail sendEmailInput
  | PublishSms string string
  | LogSmsEvent string string string
  | PostWhatsapp phone string
  | PatchTokens string int
  | PatchWhatsappCredentials string string string
  | PutLogFile string string
  | SendRawEmail string string string
  | MonthlyReport string

record world =
  users :: "user list"
  calls :: "call list"

text \<open>
  The environment: the flags and token costs of \<open>process.env\<close> (a flag is true when the
  variable is the text \<open>true\<close>; the cost variables hold numerals), the clock texts of
  date.js, what each transport and store answers, the profanity filter of the
  \<open>obscenity\<close> package and the HTML template of template.js, which are not part of the
  sources at hand.
\<close>

record env =
  ENABLE_SEND_EMAIL :: bool
  ENABLE_SEND_SMS :: bool
  ENABLE_SEND_WHATSAPP :: bool
  ENABLE_UPLOAD_LOG_FILE_TO_S3 :: bool
  ENABLE_SEND_LOG_FILE_TO_CLIENT :: bool
  ENABLE_SEND_AUTH0_EMAIL :: bool
  ENABLE_SEND_MONTHLY_REPORT :: bool
  TOKENS_PER_EMAIL :: int
  TOKENS_PER_SMS :: int
  TOKENS_PER_WHATSAPP :: int
  WA_API_URL :: string
  fileNameDate :: string
  formattedDate :: string
  auth0GetError :: "string option"
  auth0PatchError :: "string option"
  sesSend :: "sendEmailInput \<Rightarrow> string outcome"
  snsPublish :: "string \<Rightarrow> string \<Rightarrow> string outcome"
  whatsappPost :: "string \<Rightarrow> phone \<Rightarrow> string \<Rightarrow> string outcome"
  s3Put :: "string \<Rightarrow> string \<Rightarrow> string option"
  sesSendRaw :: "string \<Rightarrow> string \<Rightarrow> string \<Rightarrow> string option"
  buildReport :: "user \<Rightarrow> (string \<times> string) outcome"
  sesSendReport :: "user \<Rightarrow> string \<Rightarrow> bool outcome"
  censorMessageBody :: "string \<Rightarrow> string"
  buildBatchRequestEmailBody :: "string list \<Rightarrow> string \<Rightarrow> string \<Rightarrow> string \<Rightarrow> string"

definition record_call :: "call list \<Rightarrow> world \<Rightarrow> world" where
  "record_call cs w = w\<lparr>calls := calls w @ cs\<rparr>"

section \<open>auth0.js: the token ledger\<close>

definition getAllUsers :: "env \<Rightarrow> world \<Rightarrow> user list response" where
  "getAllUsers env w =
     (case auth0GetError env of
        Some error \<Rightarrow> ResponseHandler_error None ''Failed to fetch all users'' (Some error)
      | None \<Rightarrow> Success ''Successfully fetched all users'' (users w))"

definition getUserByEmail :: "env \<Rightarrow> world \<Rightarrow> string \<Rightarrow> user list response" where
  "getUserByEmail env w emailAddress =
     (case auth0GetError env of
        Some error \<Rightarrow> ResponseHandler_error None ''Failed to fetch user by email'' (Some error)
      | None \<Rightarrow>
          (case filter (\<lambda>u. email u = emailAddress) (users w) of
             [] \<Rightarrow> ResponseHandler_notFound ''User not found'' (Some emailAddress)
           | u # us \<Rightarrow> Success ''Successfully fetched user by email'' (u # us)))"

text \<open>
  \<open>emailUserTokensUpdated\<close> (email.js): throws when the flag is off or the send fails.
\<close>

definition emailUserTokensUpdated :: "env \<Rightarrow> world \<Rightarrow> string \<Rightarrow> string + unit" where
  "emailUserTokensUpdated = (\<lambda>env w clientEmail.
     if ENABLE_SEND_AUTH0_EMAIL env
     then (case sesSendRaw env clientEmail [] [] of
             Some error \<Rightarrow> Inl (''Error sending user tokens updated email: '' @ error)
           | None \<Rightarrow> Inr ())
     else Inl ''Send Auth0 emails disabled'')"

text \<open>
  \<open>updateUserTokens\<close>: read the account, compute the new amount, PATCH it. The amount
  is \<open>None\<close> where \<open>Number(tokenAmount)\<close> is \<open>NaN\<close>; the batch operations pass the product
  computed by \<open>calculateBatchCost\<close>, so the amount refused is the number \<open>NaN\<close>, which
  the bad-request response carries as its details. The PATCH changes the metadata of
  the account with the \<open>user_id\<close> read, and answers with the stored amount. Balances
  and costs are integers here; the code computes them with JavaScript numbers, which
  are exact on the integers of magnitude below \<open>2\<^sup>5\<^sup>3\<close>.
\<close>

definition updateUserTokens ::
  "env \<Rightarrow> world \<Rightarrow> string \<Rightarrow> int option \<Rightarrow> string \<Rightarrow> bool \<Rightarrow> int response \<times> world" where
  "updateUserTokens env w emailAddress tokenAmount mathOperator isBatch =
     (case auth0GetError env of
        Some error \<Rightarrow> (ResponseHandler_error None ''Failed to update user tokens'' (Some error), w)
      | None \<Rightarrow>
          (case filter (\<lambda>u. email u = emailAddress) (users w) of
             [] \<Rightarrow> (ResponseHandler_notFound ''User not found'' (Some emailAddress), w)
           | u # us \<Rightarrow>
               (case tokenAmount of
                  None \<Rightarrow> (ResponseHandler_badRequest ''Invalid token amount'' (Some ''NaN''), w)
                | Some tokenAmountNumber \<Rightarrow>
                    if mathOperator \<noteq> ''+'' \<and> mathOperator \<noteq> ''-''
                    then (ResponseHandler_error None
                            ''A subtraction or addition mathematical operator is required'' None, w)
                    else
                      let updatedTokenAmount =
                            (if mathOperator = ''+'' then tokens u + tokenAmountNumber
                             else tokens u - tokenAmountNumber);
                          w1 = record_call [PatchTokens (user_id u) updatedTokenAmount] w
                      in (case auth0PatchError env of
                            Some error \<Rightarrow>
                              (ResponseHandler_error None ''Failed to update user tokens''
                                 (Some error), w1)
                          | None \<Rightarrow>
                              let w2 = w1\<lparr>users :=
                                         map (\<lambda>v. if user_id v = user_id u
                                                   then v\<lparr>tokens := updatedTokenAmount\<rparr> else v)
                                             (users w1)\<rparr>
                              in if \<not> isBatch
                                 then (case emailUserTokensUpdated env w2 emailAddress of
                                         Inl error \<Rightarrow>
                                           (ResponseHandler_error None
                                              ''Failed to send user tokens updated email''
                                              (Some error), w2)
                                       | Inr _ \<Rightarrow>
                                           (Success ''Successfully updated user tokens''
                                              updatedTokenAmount, w2))
                                 else (Success ''Successfully updated user tokens''
                                         updatedTokenAmount, w2)))))"

definition updateUserWhatsAppCredentials ::
  "env \<Rightarrow> world \<Rightarrow> string \<Rightarrow> string \<Rightarrow> string \<Rightarrow> unit response \<times> world" where
  "updateUserWhatsAppCredentials env w emailAddress accessToken phoneNumberId =
     (case auth0GetError env of
        Some error \<Rightarrow>
          (ResponseHandler_error None ''Failed to update user WhatsApp credentials'' (Some error), w)
      | None \<Rightarrow>
          (case filter (\<lambda>u. email u = emailAddress) (users w) of
             [] \<Rightarrow> (ResponseHandler_notFound ''User not found'' (Some emailAddress), w)
           | u # us \<Rightarrow>
               let w1 = record_call [PatchWhatsappCredentials (user_id u) accessToken phoneNumberId] w
               in (case auth0PatchError env of
                     Some error \<Rightarrow>
                       (ResponseHandler_error None ''Failed to update user WhatsApp credentials''
                          (Some error), w1)
                   | None \<Rightarrow>
                       (Success ''Successfully updated user WhatsApp credentials'' (),
                        w1\<lparr>users :=
                             map (\<lambda>v. if user_id v = user_id u
                                       then v\<lparr>wa_access_token := accessToken,
                                              wa_phone_number_id := phoneNumberId\<rparr>
                                       else v)
                                 (users w1)\<rparr>))))"

section \<open>validate.js: the quota check\<close>

text \<open>
  \<open>calculateBatchCost\<close>: the \<open>switch\<close> has no default, so another batch type leaves the
  cost \<open>undefined\<close> and the product \<open>NaN\<close> (\<open>None\<close>).
\<close>

definition calculateBatchCost :: "env \<Rightarrow> nat \<Rightarrow> string \<Rightarrow> int option" where
  "calculateBatchCost env batchSize batchType =
     (if batchType = ''email'' then Some (int batchSize * TOKENS_PER_EMAIL env)
      else if batchType = ''sms'' then Some (int batchSize * TOKENS_PER_SMS env)
      else if batchType = ''whatsapp'' then Some (int batchSize * TOKENS_PER_WHATSAPP env)
      else None)"

text \<open>
  \<open>validateBatchRequest\<close> returns nothing or throws; \<open>Inl\<close> carries the message of the
  error thrown. A comparison with \<open>NaN\<close> is false.
\<close>

definition validateBatchRequest ::
  "env \<Rightarrow> world \<Rightarrow> string \<Rightarrow> nat \<Rightarrow> string \<Rightarrow> string + unit" where
  "validateBatchRequest env w emailAddress batchSize batchType =
     (case getUserByEmail env w emailAddress of
        Failure code text details \<Rightarrow>
          Inl (''Failed to validate batch request: ''
                 @ (case details of None \<Rightarrow> ''undefined'' | Some d \<Rightarrow> d))
      | Success text data \<Rightarrow>
          let userActiveStatus = is_active (hd data);
              userEmailVerified = email_verified (hd data);
              userTokens = tokens (hd data)
          in if \<not> userActiveStatus then Inl ''User is not active!''
             else if \<not> userEmailVerified then Inl ''User email not verified!''
             else (case calculateBatchCost env batchSize batchType of
                     None \<Rightarrow> Inr ()
                   | Some batchCost \<Rightarrow>
                       if batchCost > userTokens then Inl ''User has insufficient tokens!''
                       else Inr ()))"


section \<open>email.js, sms.js, whatsapp.js: the senders\<close>

text \<open>
  \<open>sendBatchEmails\<close>. The \<open>map\<close> callback is not \<open>async\<close> and returns the promise of
  \<open>sesClient.send\<close> without awaiting it, so its \<open>try\<close> catches a throw of the call only;
  a rejection reaches \<open>Promise.all\<close>, whose \<open>catch\<close> pushes one line. The \<open>then\<close> callback
  reads \<open>emailAddresses[index]\<close>, which is \<open>undefined\<close> beyond the end of the array.
\<close>

fun emailSentLines :: "string list \<Rightarrow> nat \<Rightarrow> string option list \<Rightarrow> string list" where
  "emailSentLines emailAddresses index [] = []"
| "emailSentLines emailAddresses index (result # results) =
     (case result of
        None \<Rightarrow> []
      | Some messageId \<Rightarrow>
          [''Email sent to ''
             @ (if index < length emailAddresses then emailAddresses ! index else ''undefined'')
             @ ''. MessageId: '' @ messageId])
     @ emailSentLines emailAddresses (Suc index) results"

definition sendEmailInputFor ::
  "env \<Rightarrow> string \<Rightarrow> string \<Rightarrow> string \<Rightarrow> parameterMap \<Rightarrow> sendEmailInput" where
  "sendEmailInputFor = (\<lambda>env clientEmail emailSubject emailBody emailParameterMap.
     \<lparr>Source = clientEmail,
      ToAddresses = [address emailParameterMap],
      Subject = emailSubject,
      Html = censorMessageBody env (replacePlaceholders emailBody (parameters emailParameterMap))\<rparr>)"

definition sendBatchEmails ::
  "env \<Rightarrow> world \<Rightarrow> string \<Rightarrow> string \<Rightarrow> string \<Rightarrow> parameterMap list \<Rightarrow> bool
     \<Rightarrow> string list \<times> world" where
  "sendBatchEmails = (\<lambda>env w clientEmail emailSubject emailBody emailParameterMaps isDraft.
     let emailAddresses = (if isDraft then [clientEmail] else map address emailParameterMaps);
         inputs = map (sendEmailInputFor env clientEmail emailSubject emailBody) emailParameterMaps;
         promises = map (sesSend env) inputs;
         caught = concat (map (\<lambda>(emailParameterMap, promise).
                                 case promise of
                                   Thrown error \<Rightarrow>
                                     [''Failed to send email to '' @ address emailParameterMap
                                        @ '': '' @ error]
                                 | _ \<Rightarrow> [])
                              (zip emailParameterMaps promises));
         logs = caught @
                (case promiseAll promises of
                   Inl error \<Rightarrow> [''Error sending email: '' @ error]
                 | Inr responses \<Rightarrow> emailSentLines emailAddresses 0 responses)
     in (logs, record_call (map SendEmail inputs) w))"

text \<open>
  \<open>sendBatchSMS\<close>. Every callback is \<open>async\<close> and awaits the publish inside its \<open>try\<close>:
  a failed publish pushes its line and the callback resolves with nothing, so
  \<open>Promise.all\<close> never rejects. The lines of the failures are pushed as the sends settle
  (the model lists them in submission order), the lines of the results after all have
  settled. \<open>logSmsEvent\<close> answers with an error response instead of throwing, so the
  inner \<open>catch\<close> is never entered. The array \<open>mobileNumbers\<close> is filled and never read.
\<close>

definition sendBatchSMS ::
  "env \<Rightarrow> world \<Rightarrow> string \<Rightarrow> parameterMap list \<Rightarrow> string list \<Rightarrow> string \<Rightarrow> bool
     \<Rightarrow> string list \<times> world" where
  "sendBatchSMS = (\<lambda>env w smsBody mobileParameterMaps clientMobile clientEmail isDraft.
     let sends = map (\<lambda>mobileNumberMap.
                        let censoredSmsBody =
                              censorMessageBody env
                                (replacePlaceholders smsBody (parameters mobileNumberMap))
                        in (mobileNumberMap, censoredSmsBody,
                            snsPublish env (address mobileNumberMap) censoredSmsBody))
                     mobileParameterMaps;
         failed = concat (map (\<lambda>(mobileNumberMap, censoredSmsBody, promise).
                                 case promise of
                                   Resolved messageId \<Rightarrow> []
                                 | Rejected error \<Rightarrow>
                                     [''Failed to send SMS to '' @ address mobileNumberMap
                                        @ '': '' @ error]
                                 | Thrown error \<Rightarrow>
                                     [''Failed to send SMS to '' @ address mobileNumberMap
                                        @ '': '' @ error])
                              sends);
         sent = concat (map (\<lambda>(mobileNumberMap, censoredSmsBody, promise).
                               case promise of
                                 Resolved messageId \<Rightarrow>
                                   [''SMS sent to '' @ address mobileNumberMap
                                      @ ''. MessageId: '' @ messageId]
                               | _ \<Rightarrow> [])
                            sends);
         published = map (\<lambda>(mobileNumberMap, censoredSmsBody, promise).
                            PublishSms (address mobileNumberMap) censoredSmsBody) sends;
         logged = concat (map (\<lambda>(mobileNumberMap, censoredSmsBody, promise).
                                 case promise of
                                   Resolved messageId \<Rightarrow>
                                     [LogSmsEvent clientEmail (address mobileNumberMap) messageId]
                                 | _ \<Rightarrow> [])
                              sends)
     in (failed @ sent, record_call (published @ logged) w))"

text \<open>
  \<open>sendBatchWhatsappTemplateMessages\<close>. The callback rethrows a failed post, so
  \<open>Promise.all\<close> rejects and the function throws (\<open>Inl\<close>) the message of the first failure.
  The callbacks return nothing, so the loop over \<open>results\<close> pushes nothing. A phone number
  in a template literal is the text itself, or the elements of the array joined by commas.
\<close>

record whatsappMessage =
  phoneNumber :: phone
  templateName :: string
  templateParameters :: "string list option"
  languageCode :: string

fun joinWith :: "string \<Rightarrow> string list \<Rightarrow> string" where
  "joinWith separator [] = []"
| "joinWith separator [x] = x"
| "joinWith separator (x # y # ys) = x @ separator @ joinWith separator (y # ys)"

fun phoneText :: "phone \<Rightarrow> string" where
  "phoneText (PhoneText number) = number"
| "phoneText (PhoneList numbers) = joinWith '','' numbers"

definition sendBatchWhatsappTemplateMessages ::
  "env \<Rightarrow> world \<Rightarrow> whatsappMessage list \<Rightarrow> string \<Rightarrow> string
     \<Rightarrow> (string + string list) \<times> world" where
  "sendBatchWhatsappTemplateMessages = (\<lambda>env w messages accessToken apiUrl.
     let posts = map (\<lambda>m. (m, whatsappPost env apiUrl (phoneNumber m) (templateName m))) messages;
         logs = concat (map (\<lambda>(m, promise).
                               case promise of
                                 Resolved data \<Rightarrow>
                                   [''Successfully sent WhatsApp message to: ''
                                      @ phoneText (phoneNumber m), data]
                               | _ \<Rightarrow> [])
                            posts);
         promises = map (\<lambda>(m, promise).
                           case promise of
                             Resolved data \<Rightarrow> Resolved ()
                           | Rejected error \<Rightarrow>
                               Rejected (''Failed to send WhatsApp message to: ''
                                           @ phoneText (phoneNumber m) @ '': '' @ error)
                           | Thrown error \<Rightarrow>
                               Rejected (''Failed to send WhatsApp message to: ''
                                           @ phoneText (phoneNumber m) @ '': '' @ error))
                        posts;
         w1 = record_call (map (\<lambda>m. PostWhatsapp (phoneNumber m) (templateName m)) messages) w
     in (case promiseAll promises of
           Inl error \<Rightarrow> (Inl error, w1)
         | Inr results \<Rightarrow> (Inr logs, w1)))"

section \<open>storage.js and logs.js: the audit log\<close>

definition uploadLogFileToS3 :: "env \<Rightarrow> world \<Rightarrow> string \<Rightarrow> string \<Rightarrow> (string + unit) \<times> world" where
  "uploadLogFileToS3 env w filePath logFile =
     (if filePath = [] \<or> logFile = [] then (Inl ''Both file batch and log file required'', w)
      else if ENABLE_UPLOAD_LOG_FILE_TO_S3 env
      then (case s3Put env filePath logFile of
              Some error \<Rightarrow>
                (Inl (''Error uploading log file to S3: '' @ error),
                 record_call [PutLogFile filePath logFile] w)
            | None \<Rightarrow> (Inr (), record_call [PutLogFile filePath logFile] w))
      else (Inl ''Upload to S3 disabled'', w))"

definition newline :: string where
  "newline = [CHR 0x0A]"

text \<open>
  \<open>toLowerCase\<close> on the characters a text has here, the code units below 256: the
  capital letters \<open>A\<close> to \<open>Z\<close>, and those from U+00C0 to U+00DE except the multiplication
  sign U+00D7, move up by 32; every other character stays.
\<close>

definition lowerChar :: "char \<Rightarrow> char" where
  "lowerChar c =
     (let n = (of_char c :: nat)
      in if (65 \<le> n \<and> n \<le> 90) \<or> (192 \<le> n \<and> n \<le> 222 \<and> n \<noteq> 215)
         then char_of (n + 32) else c)"

definition toLowerCase :: "string \<Rightarrow> string" where
  "toLowerCase = map lowerChar"

text \<open>\<^verbatim>\<open>subject.replace(/\s+/g, "_")\<close>: every run of white space becomes one underscore.\<close>

function underscoreSpaces :: "string \<Rightarrow> string" where
  "underscoreSpaces [] = []"
| "underscoreSpaces (c # cs) =
     (if isSpace c then CHR ''_'' # underscoreSpaces (dropWhile isSpace cs)
      else c # underscoreSpaces cs)"
  by pat_completeness auto
termination
  by (relation "measure length") (auto simp: length_dropWhile_le less_Suc_eq_le)

text \<open>
  The client part of the file name: \<^verbatim>\<open>clientEmail.split("@")[0].replace(/\./g, "")\<close>.
\<close>

definition clientPart :: "string \<Rightarrow> string" where
  "clientPart = (\<lambda>clientEmail.
     filter (\<lambda>c. c \<noteq> CHR ''.'') (takeWhile (\<lambda>c. c \<noteq> CHR ''@'') clientEmail))"

text \<open>
  The three log writers: each derives the file name, builds the content and uploads it,
  rethrowing a failed upload. The name and content of each writer are \<open>emailLogFile\<close>,
  \<open>smsLogFile\<close> and \<open>whatsappLogFile\<close>; the \<open>try\<close> around the upload, the same in all
  three, is \<open>storeLogFile\<close>. Their callers declare \<open>errorResponse\<close> and never assign it,
  so the error block at the end of the content is never written. Each writer starts
  with \<open>clientEmail.split\<close>, and the email writer goes on with \<open>subject.replace\<close>: for a
  client email or a subject that is no text the writer throws that TypeError, before
  anything is uploaded.
\<close>

definition storeLogFile ::
  "env \<Rightarrow> world \<Rightarrow> string \<Rightarrow> string \<Rightarrow> (string + string \<times> string) \<times> world" where
  "storeLogFile env w concatFileName logContent =
     (case uploadLogFileToS3 env w concatFileName logContent of
        (Inl error, w1) \<Rightarrow> (Inl (''Failed to upload log file to S3: '' @ error), w1)
      | (Inr _, w1) \<Rightarrow> (Inr (concatFileName, logContent), w1))"

definition emailLogFile ::
  "env \<Rightarrow> string \<Rightarrow> string \<Rightarrow> string \<Rightarrow> string list \<Rightarrow> parameterMap list
     \<Rightarrow> string list \<Rightarrow> string list \<Rightarrow> int \<Rightarrow> string \<times> string" where
  "emailLogFile = (\<lambda>env clientName clientEmail emailSubject emailParagraphs
       emailParameterMaps invalidEmailAddresses batchEmailResponses updatedUserTokens.
     let subject = toLowerCase (underscoreSpaces emailSubject);
         emailAddresses = map address emailParameterMaps;
         concatFileName = clientPart clientEmail @ ''_'' @ subject @ ''_'' @ fileNameDate env @ ''.txt'';
         logContent =
           ''Client name: '' @ clientName @ newline
           @ ''Client email: '' @ clientEmail @ newline
           @ ''Date: '' @ formattedDate env @ newline
           @ ''Tokens remaining: '' @ showInt updatedUserTokens @ newline
           @ ''Subject: '' @ emailSubject @ newline
           @ ''Paragraphs:'' @ newline @ newline
           @ concat (map (\<lambda>paragraph. paragraph @ newline @ newline) emailParagraphs) @ newline
           @ ''Sending to ('' @ showNat (length emailAddresses) @ ''):'' @ newline
           @ joinWith newline emailAddresses @ newline @ newline
           @ ''Invalid email addresses:'' @ newline
           @ joinWith newline invalidEmailAddresses @ newline @ newline
           @ ''Batch email responses:'' @ newline
           @ (if batchEmailResponses \<noteq> []
              then joinWith newline batchEmailResponses @ newline @ newline else [])
     in (concatFileName, logContent))"

definition logEmailToFile ::
  "env \<Rightarrow> world \<Rightarrow> string \<Rightarrow> cellValue \<Rightarrow> cellValue \<Rightarrow> string list \<Rightarrow> parameterMap list
     \<Rightarrow> string list \<Rightarrow> string list \<Rightarrow> int \<Rightarrow> (string + string \<times> string) \<times> world" where
  "logEmailToFile = (\<lambda>env w clientName clientEmail emailSubject emailParagraphs
       emailParameterMaps invalidEmailAddresses batchEmailResponses updatedUserTokens.
     case clientEmail of
       NonText sender \<Rightarrow> (Inl ''clientEmail.split is not a function'', w)
     | Text sender \<Rightarrow>
         (case emailSubject of
            NonText subject \<Rightarrow> (Inl ''subject.replace is not a function'', w)
          | Text subject \<Rightarrow>
              (case emailLogFile env clientName sender subject emailParagraphs
                      emailParameterMaps invalidEmailAddresses batchEmailResponses
                      updatedUserTokens of
                 (concatFileName, logContent) \<Rightarrow>
                   storeLogFile env w concatFileName logContent)))"

definition smsLogFile ::
  "env \<Rightarrow> string \<Rightarrow> string \<Rightarrow> string list \<Rightarrow> string \<Rightarrow> parameterMap list
     \<Rightarrow> string list \<Rightarrow> string list \<Rightarrow> int \<Rightarrow> string \<times> string" where
  "smsLogFile = (\<lambda>env clientName clientEmail clientMobile smsBody
       mobileParameterMaps invalidMobileNumbers batchSmsResponses updatedUserTokens.
     let mobileNumbers = map address mobileParameterMaps;
         concatFileName = clientPart clientEmail @ ''_sms_'' @ fileNameDate env @ ''.txt'';
         logContent =
           ''Client name: '' @ clientName @ newline
           @ ''Client email: '' @ clientEmail @ newline
           @ ''Client mobile: '' @ joinWith '','' clientMobile @ newline
           @ ''Tokens remaining: '' @ showInt updatedUserTokens @ newline
           @ ''Date: '' @ formattedDate env @ newline
           @ ''Body:'' @ newline @ smsBody @ newline @ newline
           @ ''Sending to ('' @ showNat (length mobileParameterMaps) @ ''):'' @ newline
           @ joinWith newline mobileNumbers @ newline @ newline
           @ ''Invalid mobile numbers:'' @ newline
           @ joinWith newline invalidMobileNumbers @ newline @ newline
           @ ''Batch SMS responses:'' @ newline
           @ (if batchSmsResponses \<noteq> []
              then joinWith newline batchSmsResponses @ newline @ newline else [])
     in (concatFileName, logContent))"

definition logSmsToFile ::
  "env \<Rightarrow> world \<Rightarrow> string \<Rightarrow> cellValue \<Rightarrow> string list \<Rightarrow> string \<Rightarrow> parameterMap list
     \<Rightarrow> string list \<Rightarrow> string list \<Rightarrow> int \<Rightarrow> (string + string \<times> string) \<times> world" where
  "logSmsToFile = (\<lambda>env w clientName clientEmail clientMobile smsBody
       mobileParameterMaps invalidMobileNumbers batchSmsResponses updatedUserTokens.
     case clientEmail of
       NonText sender \<Rightarrow> (Inl ''clientEmail.split is not a function'', w)
     | Text sender \<Rightarrow>
         (case smsLogFile env clientName sender clientMobile smsBody
                 mobileParameterMaps invalidMobileNumbers batchSmsResponses
                 updatedUserTokens of
            (concatFileName, logContent) \<Rightarrow> storeLogFile env w concatFileName logContent))"

text \<open>
  \<open>logWhatsappToFile\<close> writes every response through \<open>JSON.stringify\<close>. The responses are
  texts (the sender has already turned the answer of the service into JSON), so each
  is put in double quotes, with a backslash before a double quote and a backslash, the
  short escapes for backspace, tab, line feed, form feed and carriage return, and
  \<open>u00XX\<close> after a backslash for any other character below U+0020.
\<close>

definition hexDigit :: "nat \<Rightarrow> char" where
  "hexDigit n = ''0123456789abcdef'' ! n"

definition jsonChar :: "char \<Rightarrow> string" where
  "jsonChar c =
     (if c = CHR 0x22 then [CHR 0x5C, CHR 0x22]
      else if c = CHR 0x5C then [CHR 0x5C, CHR 0x5C]
      else if c = CHR 0x08 then [CHR 0x5C, CHR ''b'']
      else if c = CHR 0x09 then [CHR 0x5C, CHR ''t'']
      else if c = CHR 0x0A then [CHR 0x5C, CHR ''n'']
      else if c = CHR 0x0C then [CHR 0x5C, CHR ''f'']
      else if c = CHR 0x0D then [CHR 0x5C, CHR ''r'']
      else if (of_char c :: nat) < 32
      then [CHR 0x5C, CHR ''u'', CHR ''0'', CHR ''0'',
            hexDigit ((of_char c :: nat) div 16), hexDigit ((of_char c :: nat) mod 16)]
      else [c])"

definition jsonString :: "string \<Rightarrow> string" where
  "jsonString text = CHR 0x22 # concat (map jsonChar text) @ [CHR 0x22]"

definition whatsappLogFile ::
  "env \<Rightarrow> string \<Rightarrow> string \<Rightarrow> string list \<Rightarrow> string \<Rightarrow> parameterMap list
     \<Rightarrow> string list \<Rightarrow> string list \<Rightarrow> int \<Rightarrow> string \<times> string" where
  "whatsappLogFile = (\<lambda>env clientName clientEmail clientMobile templateName
       whatsappParameterMaps invalidMobileNumbers batchWhatsappResponse updatedUserTokens.
     let mobileNumbers = map address whatsappParameterMaps;
         concatFileName = clientPart clientEmail @ ''_whatsapp_'' @ fileNameDate env @ ''.txt'';
         logContent =
           ''Client name: '' @ clientName @ newline
           @ ''Client email: '' @ clientEmail @ newline
           @ ''Client mobile: '' @ joinWith '','' clientMobile @ newline
           @ ''Tokens remaining: '' @ showInt updatedUserTokens @ newline
           @ ''Date: '' @ formattedDate env @ newline @ newline
           @ ''WhatsApp template name: '' @ templateName @ newline @ newline
           @ ''Sending to ('' @ showNat (length whatsappParameterMaps) @ ''):'' @ newline
           @ joinWith newline mobileNumbers @ newline @ newline
           @ ''Invalid mobile numbers:'' @ newline
           @ joinWith newline invalidMobileNumbers @ newline @ newline
           @ ''Batch WhatsApp responses:'' @ newline
           @ joinWith newline (map jsonString batchWhatsappResponse) @ newline @ newline
     in (concatFileName, logContent))"

definition logWhatsappToFile ::
  "env \<Rightarrow> world \<Rightarrow> string \<Rightarrow> cellValue \<Rightarrow> string list \<Rightarrow> string \<Rightarrow> parameterMap list
     \<Rightarrow> string list \<Rightarrow> string list \<Rightarrow> int \<Rightarrow> (string + string \<times> string) \<times> world" where
  "logWhatsappToFile = (\<lambda>env w clientName clientEmail clientMobile templateName
       whatsappParameterMaps invalidMobileNumbers batchWhatsappResponse updatedUserTokens.
     case clientEmail of
       NonText sender \<Rightarrow> (Inl ''clientEmail.split is not a function'', w)
     | Text sender \<Rightarrow>
         (case whatsappLogFile env clientName sender clientMobile templateName
                 whatsappParameterMaps invalidMobileNumbers batchWhatsappResponse
                 updatedUserTokens of
            (concatFileName, logContent) \<Rightarrow> storeLogFile env w concatFileName logContent))"

text \<open>
  \<open>emailLogFileToClient\<close> (email.js): the raw message goes from the client to the client
  with the log file attached; it throws when the flag is off or the send fails.
\<close>

definition emailLogFileToClient ::
  "env \<Rightarrow> world \<Rightarrow> string \<Rightarrow> string \<Rightarrow> string \<Rightarrow> string \<Rightarrow> string \<Rightarrow> (string + unit) \<times> world" where
  "emailLogFileToClient = (\<lambda>env w clientName clientEmail batchType logFileName logFile.
     if ENABLE_SEND_LOG_FILE_TO_CLIENT env
     then (case sesSendRaw env clientEmail logFileName logFile of
             Some error \<Rightarrow>
               (Inl (''Failed to send batch log file to client: '' @ error),
                record_call [SendRawEmail clientEmail logFileName logFile] w)
           | None \<Rightarrow> (Inr (), record_call [SendRawEmail clientEmail logFileName logFile] w))
     else (Inl ''Email log file to client disabled'', w))"


section \<open>The batch operations\<close>

text \<open>
  \<open>processEmails\<close>, \<open>processSms\<close> and \<open>processWhatsapp\<close> return a response and leave the
  world changed. An error response of \<open>updateUserTokens\<close> never has status 200, so the
  test \<open>statusCode !== 200\<close> separates \<open>Failure\<close> from \<open>Success\<close>. The senders of email
  and SMS catch every failure themselves, so the \<open>catch\<close> around their call is never
  entered; the WhatsApp sender throws, and its \<open>catch\<close> returns the error response.
  The client's email and the subject go to the log writers as read from the sheet, and
  as their text (\<open>cellText\<close>) wherever they are put into a template literal or handed
  to a service.
\<close>

definition processEmails :: "env \<Rightarrow> world \<Rightarrow> sheet \<Rightarrow> bool \<Rightarrow> string response \<times> world" where
  "processEmails env w sheetData isDraft =
     (case extractEmail sheetData of
        Inl error \<Rightarrow>
          (ResponseHandler_error None ''Failed to extract from email spreadsheet''
             (Some (extractErrorMessage ''email'' error)), w)
      | Inr extractResponse \<Rightarrow>
          (case (if \<not> isDraft
                 then validateBatchRequest env w (cellText (clientEmail extractResponse))
                        (length (emailParameterMaps extractResponse)) ''email''
                 else Inr ()) of
             Inl error \<Rightarrow>
               (ResponseHandler_error None ''Failed to validate batch request'' (Some error), w)
           | Inr _ \<Rightarrow>
               let emailBody =
                     buildBatchRequestEmailBody env (emailParagraphs extractResponse)
                       (companyName extractResponse) (cellText (clientEmail extractResponse))
                       (companyAddress extractResponse)
               in if \<not> ENABLE_SEND_EMAIL env
                  then (ResponseHandler_error None ''Send email disabled'' None, w)
                  else
                    (case sendBatchEmails env w (cellText (clientEmail extractResponse))
                            (cellText (emailSubject extractResponse)) emailBody
                            (emailParameterMaps extractResponse) isDraft of
                       (batchEmailResponses, w1) \<Rightarrow>
                         (case (if \<not> isDraft
                                then (case updateUserTokens env w1 (cellText (clientEmail extractResponse))
                                             (calculateBatchCost env
                                                (length (emailParameterMaps extractResponse))
                                                ''email'')
                                             ''-'' True of
                                        (Failure code text details, w2) \<Rightarrow> (Inl details, w2)
                                      | (Success text data, w2) \<Rightarrow> (Inr data, w2))
                                else (Inr 0, w1)) of
                            (Inl details, w2) \<Rightarrow>
                              (ResponseHandler_error None ''Failed to update user tokens'' details, w2)
                          | (Inr updatedUserTokens, w2) \<Rightarrow>
                              (case logEmailToFile env w2 (clientName extractResponse)
                                      (clientEmail extractResponse) (emailSubject extractResponse)
                                      (emailParagraphs extractResponse)
                                      (emailParameterMaps extractResponse)
                                      (invalidEmailAddresses extractResponse)
                                      batchEmailResponses updatedUserTokens of
                                 (Inl error, w3) \<Rightarrow>
                                   (ResponseHandler_error None ''Failed to create log file''
                                      (Some error), w3)
                               | (Inr (logFileName, logFile), w3) \<Rightarrow>
                                   (case emailLogFileToClient env w3 (clientName extractResponse)
                                           (cellText (clientEmail extractResponse)) ''Email''
                                           logFileName logFile of
                                      (Inl error, w4) \<Rightarrow>
                                        (ResponseHandler_error None
                                           ''Failed to email log file to client'' (Some error), w4)
                                    | (Inr _, w4) \<Rightarrow>
                                        (Success ''Successfully sent email batch!''
                                           (''You have '' @ showInt updatedUserTokens
                                              @ '' tokens left''), w4)))))))"

definition processSms :: "env \<Rightarrow> world \<Rightarrow> sheet \<Rightarrow> bool \<Rightarrow> string response \<times> world" where
  "processSms env w sheetData isDraft =
     (case extractMobile sheetData of
        Inl error \<Rightarrow>
          (ResponseHandler_error None ''Failed to extract values from spreadsheet''
             (Some (extractErrorMessage ''SMS'' error)), w)
      | Inr extractResponse \<Rightarrow>
          (case (if \<not> isDraft
                 then validateBatchRequest env w (cellText (clientEmail extractResponse))
                        (length (mobileParameterMaps extractResponse)) ''sms''
                 else Inr ()) of
             Inl error \<Rightarrow>
               (ResponseHandler_error None ''Failed to validate batch request'' (Some error), w)
           | Inr _ \<Rightarrow>
               if \<not> ENABLE_SEND_SMS env
               then (ResponseHandler_error None ''Send SMS disabled'' None, w)
               else
                 (case sendBatchSMS env w (smsBody extractResponse)
                         (mobileParameterMaps extractResponse) (clientMobile extractResponse)
                         (cellText (clientEmail extractResponse)) isDraft of
                    (batchSmsResponses, w1) \<Rightarrow>
                      (case (if \<not> isDraft
                             then (case updateUserTokens env w1 (cellText (clientEmail extractResponse))
                                          (calculateBatchCost env
                                             (length (mobileParameterMaps extractResponse))
                                             ''sms'')
                                          ''-'' True of
                                     (Failure code text details, w2) \<Rightarrow> (Inl details, w2)
                                   | (Success text data, w2) \<Rightarrow> (Inr data, w2))
                             else (Inr 0, w1)) of
                         (Inl details, w2) \<Rightarrow>
                           (ResponseHandler_error None ''Failed to update user tokens'' details, w2)
                       | (Inr updatedUserTokens, w2) \<Rightarrow>
                           (case logSmsToFile env w2 (clientName extractResponse)
                                   (clientEmail extractResponse) (clientMobile extractResponse)
                                   (smsBody extractResponse)
                                   (mobileParameterMaps extractResponse)
                                   (invalidMobileNumbers extractResponse)
                                   batchSmsResponses updatedUserTokens of
                              (Inl error, w3) \<Rightarrow>
                                (ResponseHandler_error None ''Failed to create log file''
                                   (Some error), w3)
                            | (Inr (logFileName, logFile), w3) \<Rightarrow>
                                (case emailLogFileToClient env w3 (clientName extractResponse)
                                        (cellText (clientEmail extractResponse)) ''SMS''
                                        logFileName logFile of
                                   (Inl error, w4) \<Rightarrow>
                                     (ResponseHandler_error None
                                        ''Failed to email log file to client'' (Some error), w4)
                                 | (Inr _, w4) \<Rightarrow>
                                     (Success ''Successfully sent SMS batch!''
                                        (''You have '' @ showInt updatedUserTokens
                                           @ '' tokens left''), w4)))))))"

text \<open>
  \<open>processWhatsapp\<close>: a draft has one message, to the formatted client mobile; otherwise
  one message per map. \<open>updateUserWhatsAppCredentials\<close> answers with a response and does
  not throw; its response is not read.
\<close>

definition processWhatsapp :: "env \<Rightarrow> world \<Rightarrow> sheet \<Rightarrow> bool \<Rightarrow> string response \<times> world" where
  "processWhatsapp env w sheetData isDraft =
     (case extractWhatsapp sheetData of
        Inl error \<Rightarrow>
          (ResponseHandler_error None ''Failed to extract values from spreadsheet''
             (Some (extractErrorMessage ''WhatsApp'' error)), w)
      | Inr extractResponse \<Rightarrow>
          let accessToken = whatsappAccessToken extractResponse;
              phoneNumberId = whatsappPhoneNumberId extractResponse;
              apiUrl = WA_API_URL env @ ''/'' @ phoneNumberId @ ''/messages''
          in
          (case (if \<not> isDraft
                 then validateBatchRequest env w (cellText (clientEmail extractResponse))
                        (length (whatsappParameterMaps extractResponse)) ''whatsapp''
                 else Inr ()) of
             Inl error \<Rightarrow>
               (ResponseHandler_error None ''Failed to validate batch request'' (Some error), w)
           | Inr _ \<Rightarrow>
               let messages =
                     (if isDraft
                      then [\<lparr>phoneNumber = PhoneList (clientMobile extractResponse),
                              templateName = whatsappTemplateName extractResponse,
                              templateParameters = None,
                              languageCode = ''en_US''\<rparr>]
                      else map (\<lambda>mobileNumber.
                                  \<lparr>phoneNumber = PhoneText (address mobileNumber),
                                   templateName = whatsappTemplateName extractResponse,
                                   templateParameters = Some (parameters mobileNumber),
                                   languageCode = ''en_US''\<rparr>)
                               (whatsappParameterMaps extractResponse))
               in if \<not> ENABLE_SEND_WHATSAPP env
                  then (ResponseHandler_error None ''Send WhatsApp disabled'' None, w)
                  else
                    (case sendBatchWhatsappTemplateMessages env w messages accessToken apiUrl of
                       (Inl error, w1) \<Rightarrow>
                         (ResponseHandler_error None ''Failed to send batch WhatsApp''
                            (Some error), w1)
                     | (Inr batchWhatsappResponse, w1) \<Rightarrow>
                         (case (if \<not> isDraft
                                then (case updateUserTokens env w1 (cellText (clientEmail extractResponse))
                                             (calculateBatchCost env
                                                (length (whatsappParameterMaps extractResponse))
                                                ''email'')
                                             ''-'' True of
                                        (Failure code text details, w2) \<Rightarrow> (Inl details, w2)
                                      | (Success text data, w2) \<Rightarrow> (Inr data, w2))
                                else (Inr 0, w1)) of
                            (Inl details, w2) \<Rightarrow>
                              (ResponseHandler_error None ''Failed to update user tokens'' details, w2)
                          | (Inr updatedUserTokens, w2) \<Rightarrow>
                              (case updateUserWhatsAppCredentials env w2
                                      (cellText (clientEmail extractResponse)) accessToken phoneNumberId of
                                 (credentialsResponse, w3) \<Rightarrow>
                                   (case logWhatsappToFile env w3 (clientName extractResponse)
                                           (clientEmail extractResponse)
                                           (clientMobile extractResponse)
                                           (whatsappTemplateName extractResponse)
                                           (whatsappParameterMaps extractResponse)
                                           (invalidMobileNumbers extractResponse)
                                           batchWhatsappResponse updatedUserTokens of
                                      (Inl error, w4) \<Rightarrow>
                                        (ResponseHandler_error None ''Failed to create log file''
                                           (Some error), w4)
                                    | (Inr (logFileName, logFile), w4) \<Rightarrow>
                                        (case emailLogFileToClient env w4
                                                (clientName extractResponse)
                                                (cellText (clientEmail extractResponse)) ''WhatsApp''
                                                logFileName logFile of
                                           (Inl error, w5) \<Rightarrow>
                                             (ResponseHandler_error None
                                                ''Failed to email log file to client''
                                                (Some error), w5)
                                         | (Inr _, w5) \<Rightarrow>
                                             (Success ''Successfully sent WhatsApp batch!''
                                                (''You have '' @ showInt updatedUserTokens
                                                   @ '' tokens left''), w5))))))))"

section \<open>report.js: the monthly reports\<close>

text \<open>
  The loop of \<open>processMonthlyReports\<close> over the users. A user who is not verified, not
  active or without tokens is skipped with \<open>continue\<close>; for any other user the \<open>try\<close>
  block builds the report (\<open>buildReport\<close> stands for the retrieval of the events and
  \<open>logReportToFile\<close>, and gives the file or the error thrown on the way) and mails it, and
  every path through the block and its \<open>catch\<close> ends in \<open>return\<close>. When the
  loop runs out the function returns nothing.
\<close>

definition sendMonthlyReportMail :: "env \<Rightarrow> user \<Rightarrow> string \<times> string \<Rightarrow> bool outcome" where
  "sendMonthlyReportMail env u logResponse =
     (if ENABLE_SEND_MONTHLY_REPORT env then sesSendReport env u (fst logResponse)
      else Thrown ''Send monthly reports disabled'')"

fun reportLoop :: "env \<Rightarrow> world \<Rightarrow> user list \<Rightarrow> unit response option \<times> world" where
  "reportLoop env w [] = (None, w)"
| "reportLoop env w (u # rest) =
     (if \<not> email_verified u then reportLoop env w rest
      else if \<not> is_active u then reportLoop env w rest
      else if tokens u = 0 then reportLoop env w rest
      else
        let w1 = record_call [MonthlyReport (email u)] w;
            failed = (\<lambda>error. (Some (ResponseHandler_error None
                                        (''Failed to send monthly report to '' @ email u)
                                        (Some error)), w1))
        in (case buildReport env u of
              Rejected error \<Rightarrow> failed error
            | Thrown error \<Rightarrow> failed error
            | Resolved logResponse \<Rightarrow>
                (case sendMonthlyReportMail env u logResponse of
                   Rejected error \<Rightarrow> failed error
                 | Thrown error \<Rightarrow> failed error
                 | Resolved sendReportResponse \<Rightarrow>
                     if \<not> sendReportResponse
                     then (Some (ResponseHandler_error None ''Failed to send monthly report'' None),
                           w1)
                     else (Some (Success (''Successfully sent monthly report to '' @ email u) ()),
                           w1))))"

definition processMonthlyReports :: "env \<Rightarrow> world \<Rightarrow> unit response option \<times> world" where
  "processMonthlyReports env w =
     (case getAllUsers env w of
        Failure code text details \<Rightarrow>
          (Some (ResponseHandler_error None ''Failed to process monthly report'' details), w)
      | Success text data \<Rightarrow> reportLoop env w data)"

section \<open>Notions used to state the properties\<close>

text \<open>
  A text that is a plus sign followed by digits, at least \<open>lo\<close> and at most \<open>hi\<close> of
  them; and the language of the email regex, written as the regex reads: a local part,
  \<open>@\<close>, a domain, a dot and a last part, each non-empty and free of white space and \<open>@\<close>.
\<close>

definition plusDigits :: "nat \<Rightarrow> nat \<Rightarrow> string \<Rightarrow> bool" where
  "plusDigits lo hi s =
     (case s of
        [] \<Rightarrow> False
      | p # ds \<Rightarrow> p = CHR ''+'' \<and> list_all isDigit ds \<and> lo \<le> length ds \<and> length ds \<le> hi)"

definition emailShape :: "string \<Rightarrow> bool" where
  "emailShape s =
     (\<exists>l d t. s = l @ ''@'' @ d @ ''.'' @ t \<and> l \<noteq> [] \<and> d \<noteq> [] \<and> t \<noteq> [] \<and>
              list_all emailChar l \<and> list_all emailChar d \<and> list_all emailChar t)"

text \<open>
  The tests the extractors apply to an address cell: the mobile check on the formatted
  number of a text cell, the email check on the cell as \<open>String\<close> makes it, and the test
  for a cell that is empty or a text of white space only. \<open>failingCell\<close> is a text cell
  that fails the check and is not blank. \<open>mobileRow\<close> and \<open>emailRow\<close> are the maps built
  from a row; \<open>validRows\<close> are the rows after the header whose address passes the check,
  in row order, and \<open>invalidCells\<close> the addresses, in row order, of the failing cells.
\<close>

definition validMobileCell :: "cell \<Rightarrow> bool" where
  "validMobileCell row =
     (case row of Some (Text number) \<Rightarrow> isValidMobile (formatNumber number) | _ \<Rightarrow> False)"

definition validEmailCell :: "cell \<Rightarrow> bool" where
  "validEmailCell row = (row \<noteq> None \<and> isValidEmail (cellString row))"

definition blankCell :: "cell \<Rightarrow> bool" where
  "blankCell row = (case row of None \<Rightarrow> True | Some (Text s) \<Rightarrow> trim s = [] | _ \<Rightarrow> False)"

definition failingCell :: "(cell \<Rightarrow> bool) \<Rightarrow> cell \<Rightarrow> bool" where
  "failingCell valid row = (\<not> valid row \<and> \<not> blankCell row \<and> \<not> notText row)"

definition mobileRow :: "cell list \<Rightarrow> parameterMap" where
  "mobileRow row =
     \<lparr>address = cellString (cellAt row 2),
      parameters = map cellText (List.map_filter id (drop 3 row))\<rparr>"

definition emailRow :: "cell list \<Rightarrow> parameterMap" where
  "emailRow row =
     \<lparr>address = cellString (cellAt row 3),
      parameters = map cellText (List.map_filter id (drop 4 row))\<rparr>"

definition validRows :: "(cell \<Rightarrow> bool) \<Rightarrow> nat \<Rightarrow> sheet \<Rightarrow> cell list list" where
  "validRows valid column sheetData = filter (\<lambda>row. valid (cellAt row column)) (drop 1 sheetData)"

definition invalidCells :: "(cell \<Rightarrow> bool) \<Rightarrow> nat \<Rightarrow> sheet \<Rightarrow> string list" where
  "invalidCells valid column sheetData =
     map (\<lambda>row. cellString (cellAt row column))
       (filter (\<lambda>row. failingCell valid (cellAt row column)) (drop 1 sheetData))"

text \<open>
  The cells at which an extractor throws a TypeError: in the mobile column every cell
  that is no text, in the email column a cell that is no text and fails the check, in
  the paragraph column every cell that is no text. \<open>column\<close> is a column of the rows
  after the header. \<open>paragraphsOf\<close> are the paragraphs of an email sheet, the texts of
  column 2 that are not blank, and \<open>placeholderTotal\<close> adds up the placeholders counted
  in each paragraph.
\<close>

definition column :: "nat \<Rightarrow> sheet \<Rightarrow> cell list" where
  "column j sheetData = map (\<lambda>row. cellAt row j) (drop 1 sheetData)"

definition throwingEmailCell :: "cell \<Rightarrow> bool" where
  "throwingEmailCell row = (notText row \<and> \<not> validEmailCell row)"

definition paragraphCell :: "cell \<Rightarrow> bool" where
  "paragraphCell row = (\<not> blankCell row \<and> \<not> notText row)"

definition paragraphsOf :: "sheet \<Rightarrow> string list" where
  "paragraphsOf sheetData = map cellString (filter paragraphCell (column 2 sheetData))"

definition placeholderTotal :: "string list \<Rightarrow> nat" where
  "placeholderTotal paragraphs = sum_list (map countPlaceholders paragraphs)"

text \<open>
  A sheet on which the outcome of an extraction is decided by the placeholder
  validation alone: it has the rows of the client's fields, the fields are filled in,
  no cell makes the extractor throw a TypeError, there is a paragraph (for email) and
  at least one address passes the check.
\<close>

definition smsSheetReady :: "sheet \<Rightarrow> bool" where
  "smsSheetReady sheetData =
     (5 \<le> length sheetData \<and>
      cellAt (sheetData ! 1) 1 \<noteq> None \<and> cellAt (sheetData ! 2) 1 \<noteq> None \<and>
      cellAt (sheetData ! 3) 1 \<noteq> None \<and> cellAt (sheetData ! 4) 1 \<noteq> None \<and>
      \<not> notText (cellAt (sheetData ! 3) 1) \<and> \<not> notText (cellAt (sheetData ! 4) 1) \<and>
      \<not> list_ex notText (column 2 sheetData) \<and>
      validRows validMobileCell 2 sheetData \<noteq> [])"

definition emailSheetReady :: "sheet \<Rightarrow> bool" where
  "emailSheetReady sheetData =
     (6 \<le> length sheetData \<and>
      cellAt (sheetData ! 1) 1 \<noteq> None \<and> cellAt (sheetData ! 2) 1 \<noteq> None \<and>
      cellAt (sheetData ! 3) 1 \<noteq> None \<and> cellAt (sheetData ! 4) 1 \<noteq> None \<and>
      cellAt (sheetData ! 5) 1 \<noteq> None \<and>
      \<not> list_ex notText (column 2 sheetData) \<and>
      \<not> list_ex throwingEmailCell (column 3 sheetData) \<and>
      paragraphsOf sheetData \<noteq> [] \<and>
      validRows validEmailCell 3 sheetData \<noteq> [])"

text \<open>
  Deduplication as a specification: go through the items in order and keep an item
  when no earlier item had its address.
\<close>

fun firstByAddress :: "string set \<Rightarrow> parameterMap list \<Rightarrow> parameterMap list" where
  "firstByAddress seen [] = []"
| "firstByAddress seen (x # xs) =
     (if address x \<in> seen then firstByAddress seen xs
      else x # firstByAddress (insert (address x) seen) xs)"

subsection \<open>Example inputs\<close>

text \<open>
  The example sheets hold texts only; \<open>textSheet\<close> makes a sheet of the texts written in
  its cells.
\<close>

definition textSheet :: "string option list list \<Rightarrow> sheet" where
  "textSheet rows = map (map (map_option Text)) rows"

text \<open>
  An SMS sheet: header row, the client's name, email, mobile and the body in column 1
  of rows 1 to 4, mobile numbers in column 2 and one parameter in column 3. Two rows
  spell the same number with and without spaces, one number is too short, one address
  cell is blank.
\<close>

definition smsSheetExample :: sheet where
  "smsSheetExample = textSheet
     [[Some ''Field'', Some ''Value'', Some ''Mobile'', Some ''Name''],
      [Some ''Client name'', Some ''Acme'', Some ''+27 82 123 4567'', Some ''Ann''],
      [Some ''Client email'', Some ''acme@example.com'', Some ''+27821234567'', Some ''Bob''],
      [Some ''Client mobile'', Some ''+27 11 555 0100'', Some ''+1234'', Some ''Cy''],
      [Some ''SMS body'', Some ''Hello {}'', Some ''   ''],
      [None, None, Some ''+44 20 7946 0018'', Some ''Dee'']]"

text \<open>
  An email sheet (client fields in column 1 of rows 1 to 5, paragraphs in column 2,
  addresses in column 3, one parameter in column 4) and a WhatsApp sheet (client
  fields and credentials in column 1 of rows 1 to 6, mobile numbers in column 2).
\<close>

definition emailSheetExample :: sheet where
  "emailSheetExample = textSheet
     [[Some ''Field'', Some ''Value'', Some ''Paragraph'', Some ''Email'', Some ''Name''],
      [Some ''Client name'', Some ''Acme'', Some ''Dear {},'', Some ''ann@example.com'', Some ''Ann''],
      [Some ''Client email'', Some ''acme@example.com'', Some ''welcome.'', Some ''bob@example.com'',
       Some ''Bob''],
      [Some ''Company name'', Some ''Acme Ltd'', None, Some ''cy@example.com'', Some ''Cy''],
      [Some ''Company address'', Some ''1 Main Road''],
      [Some ''Email subject'', Some ''Welcome'']]"

definition whatsappSheetExample :: sheet where
  "whatsappSheetExample = textSheet
     [[Some ''Field'', Some ''Value'', Some ''Mobile''],
      [Some ''Client name'', Some ''Acme'', Some ''+27821234567''],
      [Some ''Client email'', Some ''acme@example.com'', Some ''+442079460018''],
      [Some ''Client mobile'', Some ''+27 11 555 0100''],
      [Some ''Access token'', Some ''token''],
      [Some ''Phone number id'', Some ''1055''],
      [Some ''Template name'', Some ''welcome'']]"

text \<open>
  Further sheets. In \<open>emailSheetSplit\<close> one paragraph ends with an opening brace and the
  next starts with the closing one, and each address has one parameter. In
  \<open>smsSheetMismatch\<close>, the SMS sheet above without the parameter of its last row, the row
  that lacks a parameter is row 5 of the sheet and the third whose number passes the
  check. In \<open>smsSheetRepeat\<close> the second row repeats the number of the first, as
  written, and has no parameter. In \<open>smsSheetNumber\<close> the mobile cell of the third row
  is a number.
\<close>

definition emailSheetSplit :: sheet where
  "emailSheetSplit = textSheet
     [[Some ''Field'', Some ''Value'', Some ''Paragraph'', Some ''Email'', Some ''Name''],
      [Some ''Client name'', Some ''Acme'', Some ''Dear {'', Some ''ann@example.com'', Some ''Ann''],
      [Some ''Client email'', Some ''acme@example.com'', Some ''}, hello'', Some ''bob@example.com'',
       Some ''Bob''],
      [Some ''Company name'', Some ''Acme Ltd''],
      [Some ''Company address'', Some ''1 Main Road''],
      [Some ''Email subject'', Some ''Welcome'']]"

definition smsSheetMismatch :: sheet where
  "smsSheetMismatch = textSheet
     [[Some ''Field'', Some ''Value'', Some ''Mobile'', Some ''Name''],
      [Some ''Client name'', Some ''Acme'', Some ''+27 82 123 4567'', Some ''Ann''],
      [Some ''Client email'', Some ''acme@example.com'', Some ''+27821234567'', Some ''Bob''],
      [Some ''Client mobile'', Some ''+27 11 555 0100'', Some ''+1234'', Some ''Cy''],
      [Some ''SMS body'', Some ''Hello {}'', Some ''   ''],
      [None, None, Some ''+44 20 7946 0018'']]"

definition smsSheetRepeat :: sheet where
  "smsSheetRepeat = textSheet
     [[Some ''Field'', Some ''Value'', Some ''Mobile'', Some ''Name''],
      [Some ''Client name'', Some ''Acme'', Some ''+27821234567'', Some ''Ann''],
      [Some ''Client email'', Some ''acme@example.com'', Some ''+27821234567''],
      [Some ''Client mobile'', Some ''+27 11 555 0100''],
      [Some ''SMS body'', Some ''Hello {}'']]"

definition smsSheetNumber :: sheet where
  "smsSheetNumber =
     (textSheet
        [[Some ''Field'', Some ''Value'', Some ''Mobile'', Some ''Name''],
         [Some ''Client name'', Some ''Acme'', Some ''+27 82 123 4567'', Some ''Ann''],
         [Some ''Client email'', Some ''acme@example.com'', Some ''+27821234567'', Some ''Bob''],
         [Some ''Client mobile'', Some ''+27 11 555 0100'', None, Some ''Cy''],
         [Some ''SMS body'', Some ''Hello {}'']])
       [3 := [Some (Text ''Client mobile''), Some (Text ''+27 11 555 0100''),
              Some (NonText ''27831234567''), Some (Text ''Cy'')]]"

text \<open>
  Two accounts, both verified, active and with tokens; an environment in which every
  flag is on and every collaborator answers, with an email costing 1 token, an SMS 2
  and a WhatsApp message 3; and the same environment with a mail service that rejects
  the mail to one address, and an SMS service that rejects one number.
\<close>

definition worldExample :: world where
  "worldExample =
     \<lparr>users =
        [\<lparr>user_id = ''auth0|1'', email = ''acme@example.com'', name = ''acme@example.com'',
          nickname = ''acme'', email_verified = True, is_active = True, tokens = 10,
          wa_access_token = [], wa_phone_number_id = []\<rparr>,
         \<lparr>user_id = ''auth0|2'', email = ''zenith@example.com'', name = ''zenith@example.com'',
          nickname = ''zenith'', email_verified = True, is_active = True, tokens = 5,
          wa_access_token = [], wa_phone_number_id = []\<rparr>],
      calls = []\<rparr>"

definition envExample :: env where
  "envExample =
     \<lparr>ENABLE_SEND_EMAIL = True,
      ENABLE_SEND_SMS = True,
      ENABLE_SEND_WHATSAPP = True,
      ENABLE_UPLOAD_LOG_FILE_TO_S3 = True,
      ENABLE_SEND_LOG_FILE_TO_CLIENT = True,
      ENABLE_SEND_AUTH0_EMAIL = True,
      ENABLE_SEND_MONTHLY_REPORT = True,
      TOKENS_PER_EMAIL = 1,
      TOKENS_PER_SMS = 2,
      TOKENS_PER_WHATSAPP = 3,
      WA_API_URL = ''https://graph.example/v1'',
      fileNameDate = ''2025-01-31_12-00-00'',
      formattedDate = ''31 January 2025'',
      auth0GetError = None,
      auth0PatchError = None,
      sesSend = (\<lambda>input. Resolved (''ses-'' @ concat (ToAddresses input))),
      snsPublish = (\<lambda>number body. Resolved (''sns-'' @ number)),
      whatsappPost = (\<lambda>url number template. Resolved ''ok''),
      s3Put = (\<lambda>key body. None),
      sesSendRaw = (\<lambda>recipient fileName file. None),
      buildReport = (\<lambda>u. Resolved (''report.txt'', ''report'')),
      sesSendReport = (\<lambda>u fileName. Resolved True),
      censorMessageBody = (\<lambda>text. text),
      buildBatchRequestEmailBody = (\<lambda>paragraphs company sender companyAddress. concat paragraphs)\<rparr>"

definition envRejecting :: env where
  "envRejecting =
     envExample
       \<lparr>sesSend := (\<lambda>input. if ToAddresses input = [''bob@example.com'']
                             then Rejected ''MessageRejected''
                             else Resolved (''ses-'' @ concat (ToAddresses input))),
        snsPublish := (\<lambda>number body. if number = ''+27821234567''
                                     then Rejected ''InvalidParameter''
                                     else Resolved (''sns-'' @ number))\<rparr>"

text \<open>
  What a trace of calls holds: the addresses mail was sent to, the numbers an SMS or a
  WhatsApp message was sent to, the writes to the token ledger, and the users a
  monthly report was made for.
\<close>

fun emailRecipients :: "call list \<Rightarrow> string list" where
  "emailRecipients [] = []"
| "emailRecipients (SendEmail input # cs) = ToAddresses input @ emailRecipients cs"
| "emailRecipients (c # cs) = emailRecipients cs"

fun smsRecipients :: "call list \<Rightarrow> string list" where
  "smsRecipients [] = []"
| "smsRecipients (PublishSms number body # cs) = number # smsRecipients cs"
| "smsRecipients (c # cs) = smsRecipients cs"

fun whatsappRecipients :: "call list \<Rightarrow> phone list" where
  "whatsappRecipients [] = []"
| "whatsappRecipients (PostWhatsapp number template # cs) = number # whatsappRecipients cs"
| "whatsappRecipients (c # cs) = whatsappRecipients cs"

fun tokenPatches :: "call list \<Rightarrow> (string \<times> int) list" where
  "tokenPatches [] = []"
| "tokenPatches (PatchTokens userId amount # cs) = (userId, amount) # tokenPatches cs"
| "tokenPatches (c # cs) = tokenPatches cs"

fun reportedUsers :: "call list \<Rightarrow> string list" where
  "reportedUsers [] = []"
| "reportedUsers (MonthlyReport client # cs) = client # reportedUsers cs"
| "reportedUsers (c # cs) = reportedUsers cs"

text \<open>
  The unit cost of a channel, the failure of the log store and of the mail that
  carries the log file, and two further examples: the first account with a balance of
  5, and an environment whose log store refuses every upload.
\<close>

definition costPerItem :: "env \<Rightarrow> string \<Rightarrow> int" where
  "costPerItem env batchType =
     (if batchType = ''email'' then TOKENS_PER_EMAIL env
      else if batchType = ''sms'' then TOKENS_PER_SMS env
      else TOKENS_PER_WHATSAPP env)"

definition storeFails :: "env \<Rightarrow> bool" where
  "storeFails env =
     (\<not> ENABLE_UPLOAD_LOG_FILE_TO_S3 env \<or> (\<forall>key body. s3Put env key body \<noteq> None))"

definition mailFails :: "env \<Rightarrow> bool" where
  "mailFails env =
     (\<not> ENABLE_SEND_LOG_FILE_TO_CLIENT env \<or>
      (\<forall>recipient fileName file. sesSendRaw env recipient fileName file \<noteq> None))"

definition worldLowBalance :: world where
  "worldLowBalance =
     \<lparr>users =
        [\<lparr>user_id = ''auth0|1'', email = ''acme@example.com'', name = ''acme@example.com'',
          nickname = ''acme'', email_verified = True, is_active = True, tokens = 5,
          wa_access_token = [], wa_phone_number_id = []\<rparr>],
      calls = []\<rparr>"

definition envStoreDown :: env where
  "envStoreDown = envExample\<lparr>s3Put := (\<lambda>key body. Some ''AccessDenied'')\<rparr>"

text \<open>The token ledger of a world: the balance of every account, by \<open>user_id\<close>.\<close>

definition balances :: "world \<Rightarrow> (string \<times> int) list" where
  "balances w = map (\<lambda>v. (user_id v, tokens v)) (users w)"

definition written :: "string \<Rightarrow> int \<Rightarrow> (string \<times> int) list \<Rightarrow> (string \<times> int) list" where
  "written userId balance ledger =
     map (\<lambda>entry. if fst entry = userId then (userId, balance) else entry) ledger"

section \<open>Placeholder substitution\<close>

lemma splitPlaceholders_nonempty: "splitPlaceholders b \<noteq> []"
  by (induction b rule: splitPlaceholders.induct) auto

lemma length_splitPlaceholders: "length (splitPlaceholders b) = Suc (countPlaceholders b)"
  by (induction b rule: splitPlaceholders.induct) (auto simp: splitPlaceholders_nonempty)

lemma concat_splice_push:
  "concat (splice ((c # s) # ss) rs) = c # concat (splice (s # ss) rs)"
  by (cases rs) auto

lemma concat_splice_split:
  "concat (splice ((c # hd (splitPlaceholders b)) # tl (splitPlaceholders b)) rs)
     = c # concat (splice (splitPlaceholders b) rs)"
proof -
  have "hd (splitPlaceholders b) # tl (splitPlaceholders b) = splitPlaceholders b"
    by (simp add: splitPlaceholders_nonempty)
  then show ?thesis
    using concat_splice_push[of c "hd (splitPlaceholders b)" "tl (splitPlaceholders b)" rs]
    by simp
qed

lemma substituted_Suc:
  "substituted ps i (Suc n)
     = (if i < length ps then ps ! i else ''{}'') # substituted ps (Suc i) n"
  unfolding substituted_def by (simp add: upt_conv_Cons del: upt_Suc)

lemma substituted_nth:
  "i < n \<Longrightarrow> substituted ps 0 n ! i = (if i < length ps then ps ! i else ''{}'')"
  by (simp add: substituted_def)

lemma replaceFrom_splice:
  "replaceFrom i b ps
     = concat (splice (splitPlaceholders b) (substituted ps i (countPlaceholders b)))"
proof (induction i b ps rule: replaceFrom.induct)
  case (1 index ps)
  show ?case by (simp add: substituted_def)
next
  case (2 index c ps)
  show ?case by (simp add: substituted_def)
next
  case (3 index c d cs ps)
  show ?case
  proof (cases "c = CHR ''{'' \<and> d = CHR ''}''")
    case True
    from 3(1)[OF True] True show ?thesis by (simp add: substituted_Suc)
  next
    case False
    have "replaceFrom index (c # d # cs) ps = c # replaceFrom index (d # cs) ps"
      using False by auto
    moreover have "splitPlaceholders (c # d # cs)
        = (c # hd (splitPlaceholders (d # cs))) # tl (splitPlaceholders (d # cs))"
      using False by auto
    moreover have "countPlaceholders (c # d # cs) = countPlaceholders (d # cs)"
      using False by auto
    ultimately show ?thesis
      using 3(2)[OF False] by (simp only: concat_splice_split)
  qed
qed

lemma body_splice:
  "concat (splice (splitPlaceholders b) (replicate (countPlaceholders b) ''{}'')) = b"
proof (induction b rule: splitPlaceholders.induct)
  case 1 show ?case by simp
next
  case (2 c) show ?case by simp
next
  case (3 c d cs)
  show ?case
  proof (cases "c = CHR ''{'' \<and> d = CHR ''}''")
    case True
    from 3(1)[OF True] True show ?thesis by simp
  next
    case False
    have "splitPlaceholders (c # d # cs)
        = (c # hd (splitPlaceholders (d # cs))) # tl (splitPlaceholders (d # cs))"
      using False by auto
    moreover have "countPlaceholders (c # d # cs) = countPlaceholders (d # cs)"
      using False by auto
    ultimately show ?thesis
      using 3(2)[OF False] by (simp only: concat_splice_split)
  qed
qed

lemma hd_splitPlaceholders:
  "hd (splitPlaceholders (d # cs)) = [] \<or> (\<exists>r. hd (splitPlaceholders (d # cs)) = d # r)"
  by (cases cs) auto

lemma pieces_free: "list_all (\<lambda>piece. countPlaceholders piece = 0) (splitPlaceholders b)"
proof (induction b rule: splitPlaceholders.induct)
  case 1 show ?case by simp
next
  case (2 c) show ?case by simp
next
  case (3 c d cs)
  show ?case
  proof (cases "c = CHR ''{'' \<and> d = CHR ''}''")
    case True
    with 3(1) show ?thesis by simp
  next
    case False
    let ?t = "splitPlaceholders (d # cs)"
    from 3(2)[OF False] have all: "list_all (\<lambda>piece. countPlaceholders piece = 0) ?t" .
    have ne: "?t \<noteq> []" by (rule splitPlaceholders_nonempty)
    from all ne have h: "countPlaceholders (hd ?t) = 0"
      by (cases ?t) auto
    from all ne have t: "list_all (\<lambda>piece. countPlaceholders piece = 0) (tl ?t)"
      by (cases ?t) auto
    have "countPlaceholders (c # hd ?t) = 0"
      using hd_splitPlaceholders[of d cs] h False by auto
    with t False show ?thesis by auto
  qed
qed

text \<open>
  Claim C10. Cut the message body at its occurrences of \<open>{}\<close>: the pieces contain no
  \<open>{}\<close>, there is one more piece than there are occurrences, and the pieces with \<open>{}\<close>
  put back between them are the body. \<open>replacePlaceholders\<close> returns the same pieces
  with, in place of the i-th occurrence (counted from 0, left to right), the i-th
  parameter when there is one and the literal text \<open>{}\<close> when the parameters have run
  out. The function is total: no input makes it fail.
\<close>

theorem replacePlaceholders_positional:
  "replacePlaceholders messageBody ps
     = concat (splice (splitPlaceholders messageBody)
                 (substituted ps 0 (countPlaceholders messageBody)))
   \<and> (\<forall>i < countPlaceholders messageBody.
         substituted ps 0 (countPlaceholders messageBody) ! i
           = (if i < length ps then ps ! i else ''{}''))
   \<and> length (substituted ps 0 (countPlaceholders messageBody)) = countPlaceholders messageBody
   \<and> concat (splice (splitPlaceholders messageBody)
                (replicate (countPlaceholders messageBody) ''{}'')) = messageBody
   \<and> length (splitPlaceholders messageBody) = Suc (countPlaceholders messageBody)
   \<and> list_all (\<lambda>piece. countPlaceholders piece = 0) (splitPlaceholders messageBody)"
proof (intro conjI allI impI)
  show "replacePlaceholders messageBody ps
          = concat (splice (splitPlaceholders messageBody)
                      (substituted ps 0 (countPlaceholders messageBody)))"
    unfolding replacePlaceholders_def by (rule replaceFrom_splice)
  show "length (substituted ps 0 (countPlaceholders messageBody)) = countPlaceholders messageBody"
    by (simp add: substituted_def)
qed (simp_all only: substituted_nth body_splice length_splitPlaceholders pieces_free)

theorem replacePlaceholders_positional_witness:
  "replacePlaceholders ''Hi {}, {} and {}'' [''Ann'', ''42''] = ''Hi Ann, 42 and {}''
   \<and> (2::nat) < countPlaceholders ''Hi {}, {} and {}''
   \<and> substituted [''Ann'', ''42''] 0 (countPlaceholders ''Hi {}, {} and {}'') ! 2 = ''{}''"
  using replacePlaceholders_positional[of "''Hi {}, {} and {}''" "[''Ann'', ''42'']"]
  by (simp add: substituted_def)

section \<open>Placeholder-count validation\<close>

lemma foldl_countPlaceholders:
  "foldl (\<lambda>count paragraph. count + countPlaceholders paragraph) a ps
     = a + sum_list (map countPlaceholders ps)"
  by (induction ps arbitrary: a) auto

lemma checkParameterCounts_ok:
  "checkParameterCounts pc index ms = Inr () \<longleftrightarrow> (\<forall>m \<in> set ms. length (parameters m) = pc)"
  by (induction ms arbitrary: index) auto

lemma validateMessagePlaceholders_ok:
  "validateMessagePlaceholders ps ms = Inr () \<longleftrightarrow>
     (\<forall>m \<in> set ms. length (parameters m) = sum_list (map countPlaceholders ps))"
  by (simp add: validateMessagePlaceholders_def foldl_countPlaceholders checkParameterCounts_ok)

lemma validateMessagePlaceholders_fails:
  "validateMessagePlaceholders ps ms = Inl e \<Longrightarrow>
     \<exists>m \<in> set ms. length (parameters m) \<noteq> sum_list (map countPlaceholders ps)"
  using validateMessagePlaceholders_ok[of ps ms] by auto

lemma checkParameterCounts_first:
  "i < length ms \<Longrightarrow> (\<forall>j < i. length (parameters (ms ! j)) = pc) \<Longrightarrow>
   length (parameters (ms ! i)) \<noteq> pc \<Longrightarrow>
   checkParameterCounts pc index ms
     = Inl (ParameterMismatch (index + i + 1) pc (length (parameters (ms ! i))))"
proof (induction ms arbitrary: index i)
  case Nil
  then show ?case by simp
next
  case (Cons m ms)
  show ?case
  proof (cases i)
    case 0
    with Cons.prems show ?thesis by auto
  next
    case (Suc k)
    from Cons.prems Suc have head: "length (parameters m) = pc" by auto
    from Cons.prems Suc have "k < length ms" by simp
    moreover from Cons.prems Suc have "\<forall>j < k. length (parameters (ms ! j)) = pc" by auto
    moreover from Cons.prems Suc have "length (parameters (ms ! k)) \<noteq> pc" by simp
    ultimately have "checkParameterCounts pc (Suc index) ms
        = Inl (ParameterMismatch (Suc index + k + 1) pc (length (parameters (ms ! k))))"
      by (rule Cons.IH)
    with head Suc show ?thesis by simp
  qed
qed

lemma countPlaceholders_append:
  "a = [] \<or> last a \<noteq> CHR ''{'' \<Longrightarrow> countPlaceholders (a @ b) = countPlaceholders a + countPlaceholders b"
proof (induction a rule: countPlaceholders.induct)
  case 1
  then show ?case by simp
next
  case (2 c)
  then show ?case by (cases b) auto
next
  case (3 c d cs)
  then show ?case by (auto split: if_splits)
qed

lemma countPlaceholders_concat:
  "list_all (\<lambda>p. p = [] \<or> last p \<noteq> CHR ''{'') ps \<Longrightarrow>
   countPlaceholders (concat ps) = sum_list (map countPlaceholders ps)"
  by (induction ps) (auto simp: countPlaceholders_append)

lemma validateMessagePlaceholders_first:
  assumes "i < length ms"
    and "\<forall>j < i. length (parameters (ms ! j)) = sum_list (map countPlaceholders ps)"
    and "length (parameters (ms ! i)) \<noteq> sum_list (map countPlaceholders ps)"
  shows "validateMessagePlaceholders ps ms
           = Inl (ParameterMismatch (i + 1) (sum_list (map countPlaceholders ps))
                    (length (parameters (ms ! i))))"
  unfolding validateMessagePlaceholders_def foldl_countPlaceholders
  using checkParameterCounts_first[OF assms, of 0] by simp

section \<open>Deduplication\<close>

lemma foldl_unique:
  "map snd (foldl (\<lambda>uniqueMap item.
                 if map_of uniqueMap (address item) = None
                 then uniqueMap @ [(address item, item)]
                 else uniqueMap) acc items)
   = map snd acc @ firstByAddress (fst ` set acc) items"
proof (induction items arbitrary: acc)
  case Nil
  then show ?case by simp
next
  case (Cons x xs)
  show ?case
  proof (cases "address x \<in> fst ` set acc")
    case True
    then have "map_of acc (address x) \<noteq> None" by (simp add: map_of_eq_None_iff)
    with True Cons show ?thesis by auto
  next
    case False
    then have "map_of acc (address x) = None" by (simp add: map_of_eq_None_iff)
    with False Cons[of "acc @ [(address x, x)]"] show ?thesis by simp
  qed
qed

lemma uniqueValues_first: "uniqueValues items = firstByAddress {} items"
  unfolding uniqueValues_def using foldl_unique[of "[]" items] by simp

lemma firstByAddress_subset: "set (firstByAddress seen xs) \<subseteq> set xs"
  by (induction xs arbitrary: seen) auto

lemma firstByAddress_addresses:
  "address ` set (firstByAddress seen xs) = address ` set xs - seen"
  by (induction xs arbitrary: seen) auto

lemma firstByAddress_distinct: "distinct (map address (firstByAddress seen xs))"
  by (induction xs arbitrary: seen) (auto simp: firstByAddress_addresses)

lemma firstByAddress_find:
  "a \<notin> seen \<Longrightarrow>
   find (\<lambda>x. address x = a) (firstByAddress seen xs) = find (\<lambda>x. address x = a) xs"
  by (induction xs arbitrary: seen) auto

lemma firstByAddress_nonempty: "firstByAddress {} xs = [] \<longleftrightarrow> xs = []"
  by (cases xs) auto

section \<open>Address checks and extraction\<close>

lemma isDigit_not_isSpace: "isDigit c \<Longrightarrow> \<not> isSpace c"
  by (auto simp: isDigit_def isSpace_def)

lemma isDigit_not_plus: "isDigit c \<Longrightarrow> c \<noteq> CHR ''+''"
  by (auto simp: isDigit_def)

lemma trim_no_space: "list_all (\<lambda>c. \<not> isSpace c) s \<Longrightarrow> trim s = s"
proof -
  assume a: "list_all (\<lambda>c. \<not> isSpace c) s"
  then have "dropWhile isSpace s = s" by (cases s) auto
  moreover from a have "dropWhile isSpace (rev s) = rev s"
    by (cases "rev s") (auto simp: list_all_iff dest: arg_cong[where f=set])
  ultimately show ?thesis by (simp add: trim_def)
qed

lemma digitGroups_no_space:
  "list_all (\<lambda>c. \<not> isSpace c) s \<Longrightarrow>
   digitGroups s = (if list_all isDigit s then Some (length s) else None)"
  by (induction s rule: digitGroups.induct) auto

lemma mobileRegex_no_space:
  assumes "list_all (\<lambda>c. \<not> isSpace c) s"
  shows "mobileRegex s \<longleftrightarrow> plusDigits 5 17 s"
proof (cases s)
  case Nil
  then show ?thesis by (simp add: mobileRegex_def plusDigits_def)
next
  case (Cons p r)
  with assms have r: "list_all (\<lambda>c. \<not> isSpace c) r" by simp
  have dg: "digitGroups (drop k r) = (if list_all isDigit (drop k r) then Some (length r - k) else None)" for k
  proof -
    from r have "list_all (\<lambda>c. \<not> isSpace c) (drop k r)"
      by (auto simp: list_all_iff dest: in_set_dropD)
    then show ?thesis by (simp add: digitGroups_no_space)
  qed
  have split: "list_all isDigit (take k r) \<and> list_all isDigit (drop k r) \<longleftrightarrow> list_all isDigit r" for k
    by (metis append_take_drop_id list_all_append)
  show ?thesis
    unfolding Cons mobileRegex_def plusDigits_def
    using split[of 1] split[of 2] split[of 3]
    by (auto simp: dg split: if_splits)
qed

lemma isValidMobile_no_space:
  "list_all (\<lambda>c. \<not> isSpace c) s \<Longrightarrow> isValidMobile s \<longleftrightarrow> plusDigits 5 17 s"
  by (simp add: isValidMobile_def trim_no_space mobileRegex_no_space)

lemma formatNumber_no_space: "list_all (\<lambda>c. \<not> isSpace c) (formatNumber r)"
proof (cases "filter (\<lambda>c. \<not> isSpace c) r")
  case Nil
  then show ?thesis by (simp add: formatNumber_def)
next
  case (Cons c cs)
  have "c \<in> set (filter (\<lambda>c. \<not> isSpace c) r)" unfolding Cons by simp
  then have "\<not> isSpace c" by simp
  then show ?thesis
    by (auto simp: formatNumber_def Cons list_all_iff isDigit_not_isSpace)
qed

lemma formatNumber_shape:
  "formatNumber r = [] \<or> (\<exists>c ds. formatNumber r = c # ds \<and> (c = CHR ''+'' \<or> isDigit c) \<and> list_all isDigit ds)
     \<or> list_all isDigit (formatNumber r)"
  by (auto simp: formatNumber_def list_all_iff split: list.splits)

lemma isValidMobile_formatNumber:
  "isValidMobile (formatNumber r) \<longleftrightarrow> plusDigits 5 17 (formatNumber r)"
  by (rule isValidMobile_no_space) (rule formatNumber_no_space)

lemma takeWhile_emailChar_append:
  "list_all emailChar l \<Longrightarrow> takeWhile emailChar (l @ CHR ''@'' # rest) = l"
  by (induction l) (auto simp: emailChar_def)

lemma dropWhile_emailChar_append:
  "list_all emailChar l \<Longrightarrow> dropWhile emailChar (l @ CHR ''@'' # rest) = CHR ''@'' # rest"
  by (induction l) (auto simp: emailChar_def)

lemma isValidEmail_shape: "isValidEmail s \<longleftrightarrow> emailShape s"
proof
  assume v: "isValidEmail s"
  let ?l = "takeWhile emailChar s"
  from v obtain a dom where dw: "dropWhile emailChar s = a # dom"
    by (auto simp: isValidEmail_def split: list.splits)
  with v have a: "a = CHR ''@''" and dom: "list_all emailChar dom"
    and dot: "CHR ''.'' \<in> set (butlast (tl dom))" and l: "?l \<noteq> []"
    by (auto simp: isValidEmail_def)
  from dot obtain xs ys where bt: "butlast (tl dom) = xs @ CHR ''.'' # ys"
    by (meson split_list)
  then have tlne: "tl dom \<noteq> []" by auto
  then have domne: "dom \<noteq> []" by auto
  have "dom = hd dom # tl dom" using domne by simp
  also have "tl dom = butlast (tl dom) @ [last (tl dom)]" using tlne by simp
  finally have domeq: "dom = (hd dom # xs) @ ''.'' @ (ys @ [last (tl dom)])"
    using bt by simp
  have s: "s = ?l @ ''@'' @ dom"
    using takeWhile_dropWhile_id[of emailChar s] dw a by simp
  have "list_all emailChar ?l" by (simp add: list_all_iff) (meson set_takeWhileD)
  moreover from dom domeq have "list_all emailChar (hd dom # xs)" "list_all emailChar (ys @ [last (tl dom)])"
    by (metis list_all_append)+
  ultimately show "emailShape s"
    unfolding emailShape_def using s domeq l
    by (intro exI[of _ ?l] exI[of _ "hd dom # xs"] exI[of _ "ys @ [last (tl dom)]"]) auto
next
  assume "emailShape s"
  then obtain l d t where s: "s = l @ ''@'' @ d @ ''.'' @ t" and ne: "l \<noteq> []" "d \<noteq> []" "t \<noteq> []"
    and ok: "list_all emailChar l" "list_all emailChar d" "list_all emailChar t"
    unfolding emailShape_def by blast
  have s': "s = l @ CHR ''@'' # (d @ CHR ''.'' # t)" using s by simp
  have tw: "takeWhile emailChar s = l" unfolding s' using ok(1) by (rule takeWhile_emailChar_append)
  have dw: "dropWhile emailChar s = CHR ''@'' # (d @ CHR ''.'' # t)"
    unfolding s' using ok(1) by (rule dropWhile_emailChar_append)
  have dotc: "emailChar CHR ''.''" by (simp add: emailChar_def isSpace_def)
  obtain d0 ds where d: "d = d0 # ds" using ne(2) by (cases d) auto
  have "butlast (tl (d @ CHR ''.'' # t)) = ds @ CHR ''.'' # butlast t"
    using d ne(3) by (simp add: butlast_append)
  then have "CHR ''.'' \<in> set (butlast (tl (d @ CHR ''.'' # t)))" by simp
  then show "isValidEmail s"
    unfolding isValidEmail_def tw dw using ne(1) ok dotc by simp
qed

lemma drop_Cons_nth: "drop n xs = y # ys \<Longrightarrow> xs ! n = y \<and> drop (Suc n) xs = ys"
  by (metis Cons_nth_drop_Suc drop_all linorder_not_less list.distinct(1) list.inject)

lemma scanMobileColumn_rows:
  "scanMobileColumn sheetData i (map (\<lambda>row. cellAt row 2) (drop (Suc i) sheetData))
     = (if list_ex (\<lambda>row. notText (cellAt row 2)) (drop (Suc i) sheetData)
        then Inl (CellTypeError ''number.replace'')
        else Inr (map mobileRow
                    (filter (\<lambda>row. validMobileCell (cellAt row 2)) (drop (Suc i) sheetData)),
                  map (\<lambda>row. cellString (cellAt row 2))
                    (filter (\<lambda>row. failingCell validMobileCell (cellAt row 2))
                       (drop (Suc i) sheetData))))"
proof (induction "drop (Suc i) sheetData" arbitrary: i)
  case Nil
  then show ?case by simp
next
  case (Cons r rs)
  from Cons.hyps(2)[symmetric] have nth: "sheetData ! (Suc i) = r" and rest: "drop (Suc (Suc i)) sheetData = rs"
    using drop_Cons_nth[of "Suc i" sheetData r rs] by auto
  from rest have IH: "scanMobileColumn sheetData (Suc i) (map (\<lambda>row. cellAt row 2) rs)
     = (if list_ex (\<lambda>row. notText (cellAt row 2)) rs
        then Inl (CellTypeError ''number.replace'')
        else Inr (map mobileRow (filter (\<lambda>row. validMobileCell (cellAt row 2)) rs),
                  map (\<lambda>row. cellString (cellAt row 2))
                    (filter (\<lambda>row. failingCell validMobileCell (cellAt row 2)) rs)))"
    using Cons.hyps(1)[of "Suc i"] by simp
  have step: "scanMobileColumn sheetData i (map (\<lambda>row. cellAt row 2) (r # rs))
     = (if list_ex (\<lambda>row. notText (cellAt row 2)) (r # rs)
        then Inl (CellTypeError ''number.replace'')
        else Inr (map mobileRow (filter (\<lambda>row. validMobileCell (cellAt row 2)) (r # rs)),
                  map (\<lambda>row. cellString (cellAt row 2))
                    (filter (\<lambda>row. failingCell validMobileCell (cellAt row 2)) (r # rs))))"
  proof (cases "cellAt r 2")
    case None
    then show ?thesis
      by (simp add: IH validMobileCell_def failingCell_def blankCell_def)
  next
    case (Some v)
    then show ?thesis
      by (cases v)
         (simp_all add: IH nth validMobileCell_def failingCell_def blankCell_def mobileRow_def
                        formatMobileNumbers_def)
  qed
  show ?case
    unfolding Cons.hyps(2)[symmetric] by (rule step)
qed

lemma isValidEmail_undefined: "\<not> isValidEmail ''undefined''"
  by (simp add: isValidEmail_def emailChar_def isSpace_def)

lemma scanEmailColumn_rows:
  "scanEmailColumn sheetData i (map (\<lambda>row. cellAt row 3) (drop (Suc i) sheetData))
     = (if list_ex (\<lambda>row. throwingEmailCell (cellAt row 3)) (drop (Suc i) sheetData)
        then Inl (CellTypeError ''row.trim'')
        else Inr (map emailRow
                    (filter (\<lambda>row. validEmailCell (cellAt row 3)) (drop (Suc i) sheetData)),
                  map (\<lambda>row. cellString (cellAt row 3))
                    (filter (\<lambda>row. failingCell validEmailCell (cellAt row 3))
                       (drop (Suc i) sheetData))))"
proof (induction "drop (Suc i) sheetData" arbitrary: i)
  case Nil
  then show ?case by simp
next
  case (Cons r rs)
  from Cons.hyps(2)[symmetric] have nth: "sheetData ! (Suc i) = r" and rest: "drop (Suc (Suc i)) sheetData = rs"
    using drop_Cons_nth[of "Suc i" sheetData r rs] by auto
  from rest have IH: "scanEmailColumn sheetData (Suc i) (map (\<lambda>row. cellAt row 3) rs)
     = (if list_ex (\<lambda>row. throwingEmailCell (cellAt row 3)) rs
        then Inl (CellTypeError ''row.trim'')
        else Inr (map emailRow (filter (\<lambda>row. validEmailCell (cellAt row 3)) rs),
                  map (\<lambda>row. cellString (cellAt row 3))
                    (filter (\<lambda>row. failingCell validEmailCell (cellAt row 3)) rs)))"
    using Cons.hyps(1)[of "Suc i"] by simp
  have step: "scanEmailColumn sheetData i (map (\<lambda>row. cellAt row 3) (r # rs))
     = (if list_ex (\<lambda>row. throwingEmailCell (cellAt row 3)) (r # rs)
        then Inl (CellTypeError ''row.trim'')
        else Inr (map emailRow (filter (\<lambda>row. validEmailCell (cellAt row 3)) (r # rs)),
                  map (\<lambda>row. cellString (cellAt row 3))
                    (filter (\<lambda>row. failingCell validEmailCell (cellAt row 3)) (r # rs))))"
  proof (cases "cellAt r 3")
    case None
    then show ?thesis
      by (simp add: IH validEmailCell_def failingCell_def blankCell_def throwingEmailCell_def
                    isValidEmail_undefined)
  next
    case (Some v)
    then show ?thesis
      by (cases v)
         (simp_all add: IH nth validEmailCell_def failingCell_def blankCell_def emailRow_def
                        throwingEmailCell_def)
  qed
  show ?case
    unfolding Cons.hyps(2)[symmetric] by (rule step)
qed

lemma scanMobileColumn_sheet:
  "scanMobileColumn sheetData 0 (column 2 sheetData)
     = (if list_ex notText (column 2 sheetData) then Inl (CellTypeError ''number.replace'')
        else Inr (map mobileRow (validRows validMobileCell 2 sheetData),
                  invalidCells validMobileCell 2 sheetData))"
  using scanMobileColumn_rows[of sheetData 0]
  by (simp add: column_def validRows_def invalidCells_def list_ex_iff)

lemma scanEmailColumn_sheet:
  "scanEmailColumn sheetData 0 (column 3 sheetData)
     = (if list_ex throwingEmailCell (column 3 sheetData) then Inl (CellTypeError ''row.trim'')
        else Inr (map emailRow (validRows validEmailCell 3 sheetData),
                  invalidCells validEmailCell 3 sheetData))"
  using scanEmailColumn_rows[of sheetData 0]
  by (simp add: column_def validRows_def invalidCells_def list_ex_iff)

lemma validMobileCell_nonempty: "validMobileCell row \<Longrightarrow> cellString row \<noteq> []"
  by (auto simp: validMobileCell_def formatNumber_def isValidMobile_def trim_def mobileRegex_def
           split: option.splits cellValue.splits)

lemma validEmailCell_nonempty: "validEmailCell row \<Longrightarrow> cellString row \<noteq> []"
  by (auto simp: validEmailCell_def isValidEmail_def)

lemma mobile_rows_have_address:
  "list_ex (\<lambda>item. address item \<noteq> []) (map mobileRow (validRows validMobileCell 2 sheetData))
   \<longleftrightarrow> validRows validMobileCell 2 sheetData \<noteq> []"
  by (auto simp: list_ex_iff mobileRow_def validRows_def filter_empty_conv
           dest: validMobileCell_nonempty)

lemma email_rows_have_address:
  "list_ex (\<lambda>item. address item \<noteq> []) (map emailRow (validRows validEmailCell 3 sheetData))
   \<longleftrightarrow> validRows validEmailCell 3 sheetData \<noteq> []"
  by (auto simp: list_ex_iff emailRow_def validRows_def filter_empty_conv
           dest: validEmailCell_nonempty)

lemma paragraph_filter:
  "\<not> list_ex notText cells \<Longrightarrow>
   filter (\<lambda>row. row \<noteq> None \<and> trim (cellString row) \<noteq> []) cells = filter paragraphCell cells"
proof (induction cells)
  case Nil
  then show ?case by simp
next
  case (Cons c cs)
  then have "\<not> notText c" and rest: "\<not> list_ex notText cs" by simp_all
  then have "(c \<noteq> None \<and> trim (cellString c) \<noteq> []) \<longleftrightarrow> paragraphCell c"
    by (cases c; cases "the c") (auto simp: blankCell_def paragraphCell_def)
  with Cons.IH[OF rest] show ?case by simp
qed

lemma paragraphs_all_blank:
  "list_all (\<lambda>row. trim row = []) (paragraphsOf sheetData) \<longleftrightarrow> paragraphsOf sheetData = []"
proof -
  have "list_all (\<lambda>row. trim row = []) (map cellString (filter paragraphCell cells))
          \<longleftrightarrow> filter paragraphCell cells = []" for cells
  proof (induction cells)
    case Nil
    then show ?case by simp
  next
    case (Cons c cs)
    have "paragraphCell c \<Longrightarrow> trim (cellString c) \<noteq> []"
      by (cases c; cases "the c") (auto simp: blankCell_def paragraphCell_def)
    with Cons show ?case by auto
  qed
  then show ?thesis by (simp add: paragraphsOf_def)
qed

lemma validateSmsSheetFields_rows:
  "validateSmsSheetFields a b c d (map mobileRow (validRows validMobileCell 2 sheetData))
     = (if a = None then Inl ClientNameMissing
        else if b = None then Inl ClientEmailMissing
        else if c = None then Inl ClientMobileMissing
        else if d = None then Inl SmsBodyMissing
        else if validRows validMobileCell 2 sheetData = [] then Inl MobileNumberRequired
        else if notText d then Inl ParagraphNotText
        else validateMessagePlaceholders [cellString d]
               (map mobileRow (validRows validMobileCell 2 sheetData)))"
proof (cases d)
  case None
  then show ?thesis by (simp add: validateSmsSheetFields_def)
next
  case (Some v)
  then show ?thesis
    by (cases v) (simp_all add: validateSmsSheetFields_def mobile_rows_have_address)
qed

lemma validateEmailSheetFields_rows:
  "validateEmailSheetFields a b c d e (paragraphsOf sheetData)
       (map emailRow (validRows validEmailCell 3 sheetData))
     = (if a = None then Inl ClientNameMissing
        else if b = None then Inl ClientEmailMissing
        else if c = None then Inl CompanyNameMissing
        else if d = None then Inl CompanyAddressMissing
        else if e = None then Inl EmailSubjectMissing
        else if paragraphsOf sheetData = [] then Inl ParagraphRequired
        else if validRows validEmailCell 3 sheetData = [] then Inl EmailAddressRequired
        else validateMessagePlaceholders (paragraphsOf sheetData)
               (map emailRow (validRows validEmailCell 3 sheetData)))"
  by (simp add: validateEmailSheetFields_def paragraphs_all_blank email_rows_have_address)

text \<open>
  What each extractor returns, in terms of the rows of the sheet: the TypeErrors, then
  the validation of the fields over the rows whose address passes the check, then the
  result with the invalid addresses and the deduplicated rows.
\<close>

lemma extractMobile_sheet:
  "extractMobile sheetData =
     (if length sheetData < 5 then Inl SheetTypeError
      else if list_ex notText (column 2 sheetData) then Inl (CellTypeError ''number.replace'')
      else case validateSmsSheetFields (cellAt (sheetData ! 1) 1) (cellAt (sheetData ! 2) 1)
                  (cellAt (sheetData ! 3) 1) (cellAt (sheetData ! 4) 1)
                  (map mobileRow (validRows validMobileCell 2 sheetData)) of
             Inl error \<Rightarrow> Inl (SheetInvalid error)
           | Inr _ \<Rightarrow>
               if notText (cellAt (sheetData ! 3) 1) then Inl (CellTypeError ''number.replace'')
               else Inr \<lparr>clientName = cellString (cellAt (sheetData ! 1) 1),
                         clientEmail = the (cellAt (sheetData ! 2) 1),
                         clientMobile = formatMobileNumbers [cellString (cellAt (sheetData ! 3) 1)],
                         invalidMobileNumbers = invalidCells validMobileCell 2 sheetData,
                         smsBody = cellString (cellAt (sheetData ! 4) 1),
                         mobileParameterMaps =
                           firstByAddress {}
                             (map mobileRow (validRows validMobileCell 2 sheetData))\<rparr>)"
  unfolding extractMobile_def Let_def column_def[symmetric] scanMobileColumn_sheet
    uniqueValues_first
  by simp

lemma extractWhatsapp_sheet:
  "extractWhatsapp sheetData =
     (if length sheetData < 7 then Inl SheetTypeError
      else if list_ex notText (column 2 sheetData) then Inl (CellTypeError ''number.replace'')
      else case validateWhatsappSheetFields (cellAt (sheetData ! 1) 1) (cellAt (sheetData ! 2) 1)
                  (cellAt (sheetData ! 3) 1) (cellAt (sheetData ! 4) 1)
                  (cellAt (sheetData ! 5) 1) (cellAt (sheetData ! 6) 1) of
             Inl error \<Rightarrow> Inl (SheetInvalid error)
           | Inr _ \<Rightarrow>
               if notText (cellAt (sheetData ! 3) 1) then Inl (CellTypeError ''number.replace'')
               else Inr \<lparr>clientName = cellString (cellAt (sheetData ! 1) 1),
                         clientEmail = the (cellAt (sheetData ! 2) 1),
                         clientMobile = formatMobileNumbers [cellString (cellAt (sheetData ! 3) 1)],
                         invalidMobileNumbers = invalidCells validMobileCell 2 sheetData,
                         whatsappAccessToken = cellString (cellAt (sheetData ! 4) 1),
                         whatsappPhoneNumberId = cellString (cellAt (sheetData ! 5) 1),
                         whatsappTemplateName = cellString (cellAt (sheetData ! 6) 1),
                         whatsappParameterMaps =
                           firstByAddress {}
                             (map mobileRow (validRows validMobileCell 2 sheetData))\<rparr>)"
  unfolding extractWhatsapp_def Let_def column_def[symmetric] scanMobileColumn_sheet
    uniqueValues_first
  by simp

lemma extractEmail_sheet:
  "extractEmail sheetData =
     (if length sheetData < 6 then Inl SheetTypeError
      else if list_ex notText (column 2 sheetData) then Inl (CellTypeError ''row.trim'')
      else if list_ex throwingEmailCell (column 3 sheetData) then Inl (CellTypeError ''row.trim'')
      else case validateEmailSheetFields (cellAt (sheetData ! 1) 1) (cellAt (sheetData ! 2) 1)
                  (cellAt (sheetData ! 3) 1) (cellAt (sheetData ! 4) 1)
                  (cellAt (sheetData ! 5) 1) (paragraphsOf sheetData)
                  (map emailRow (validRows validEmailCell 3 sheetData)) of
             Inl error \<Rightarrow> Inl (SheetInvalid error)
           | Inr _ \<Rightarrow>
               Inr \<lparr>clientName = cellString (cellAt (sheetData ! 1) 1),
                    clientEmail = the (cellAt (sheetData ! 2) 1),
                    companyName = cellString (cellAt (sheetData ! 3) 1),
                    companyAddress = cellString (cellAt (sheetData ! 4) 1),
                    emailSubject = the (cellAt (sheetData ! 5) 1),
                    emailParagraphs = paragraphsOf sheetData,
                    emailParameterMaps =
                      firstByAddress {} (map emailRow (validRows validEmailCell 3 sheetData)),
                    invalidEmailAddresses = invalidCells validEmailCell 3 sheetData\<rparr>)"
proof (cases "list_ex notText (column 2 sheetData)")
  case True
  then show ?thesis
    unfolding extractEmail_def Let_def column_def[symmetric] by simp
next
  case False
  have pars: "map cellString
          (filter (\<lambda>row. row \<noteq> None \<and> trim (cellString row) \<noteq> []) (column 2 sheetData))
        = paragraphsOf sheetData"
    unfolding paragraph_filter[OF False] paragraphsOf_def ..
  show ?thesis
    unfolding extractEmail_def Let_def column_def[symmetric] scanEmailColumn_sheet
      uniqueValues_first pars
    using False by simp
qed

lemma firstByAddress_all:
  "list_all P xs \<Longrightarrow> list_all P (firstByAddress seen xs)"
  using firstByAddress_subset[of seen xs] by (auto simp: list_all_iff)

section \<open>The address check and the rows that fail it\<close>

lemma extractMobile_succeeds_iff:
  "(\<exists>x. extractMobile sheetData = Inr x) \<longleftrightarrow>
     smsSheetReady sheetData \<and>
     list_all (\<lambda>row. length (parameters (mobileRow row))
                       = countPlaceholders (cellString (cellAt (sheetData ! 4) 1)))
              (validRows validMobileCell 2 sheetData)"
  unfolding extractMobile_sheet validateSmsSheetFields_rows smsSheetReady_def
  by (auto simp: validateMessagePlaceholders_ok list_all_iff split: sum.splits
           dest!: validateMessagePlaceholders_fails)

lemma extractEmail_succeeds_iff:
  "(\<exists>x. extractEmail sheetData = Inr x) \<longleftrightarrow>
     emailSheetReady sheetData \<and>
     list_all (\<lambda>row. length (parameters (emailRow row)) = placeholderTotal (paragraphsOf sheetData))
              (validRows validEmailCell 3 sheetData)"
  unfolding extractEmail_sheet validateEmailSheetFields_rows emailSheetReady_def
  by (auto simp: validateMessagePlaceholders_ok list_all_iff placeholderTotal_def
           split: sum.splits dest!: validateMessagePlaceholders_fails)

lemma extractWhatsapp_succeeds_iff:
  "(\<exists>x. extractWhatsapp sheetData = Inr x) \<longleftrightarrow>
     7 \<le> length sheetData \<and>
     cellAt (sheetData ! 1) 1 \<noteq> None \<and> cellAt (sheetData ! 2) 1 \<noteq> None \<and>
     cellAt (sheetData ! 3) 1 \<noteq> None \<and> cellAt (sheetData ! 4) 1 \<noteq> None \<and>
     cellAt (sheetData ! 5) 1 \<noteq> None \<and> cellAt (sheetData ! 6) 1 \<noteq> None \<and>
     \<not> notText (cellAt (sheetData ! 3) 1) \<and>
     \<not> list_ex notText (column 2 sheetData)"
  unfolding extractWhatsapp_sheet
  by (auto simp: validateWhatsappSheetFields_def split: sum.splits)

lemma extractMobile_result:
  assumes "extractMobile sheetData = Inr x"
  shows "invalidMobileNumbers x = invalidCells validMobileCell 2 sheetData"
    and "mobileParameterMaps x
           = firstByAddress {} (map mobileRow (validRows validMobileCell 2 sheetData))"
  using assms unfolding extractMobile_sheet
  by (auto split: if_splits sum.splits)

lemma extractWhatsapp_result:
  assumes "extractWhatsapp sheetData = Inr x"
  shows "invalidMobileNumbers x = invalidCells validMobileCell 2 sheetData"
    and "whatsappParameterMaps x
           = firstByAddress {} (map mobileRow (validRows validMobileCell 2 sheetData))"
  using assms unfolding extractWhatsapp_sheet
  by (auto split: if_splits sum.splits)

lemma extractEmail_result:
  assumes "extractEmail sheetData = Inr x"
  shows "invalidEmailAddresses x = invalidCells validEmailCell 3 sheetData"
    and "emailParameterMaps x
           = firstByAddress {} (map emailRow (validRows validEmailCell 3 sheetData))"
    and "emailParagraphs x = paragraphsOf sheetData"
  using assms unfolding extractEmail_sheet
  by (auto split: if_splits sum.splits)

text \<open>
  A mobile cell that holds a number makes the extraction throw: the batch ends with
  the error response of a failed extraction and nothing is sent.
\<close>

lemma number_in_mobile_column:
  "extractMobile smsSheetNumber = Inl (CellTypeError ''number.replace'')
   \<and> processSms envExample worldExample smsSheetNumber False
       = (Failure 500 ''Failed to extract values from spreadsheet''
            (Some ''number.replace is not a function''), worldExample)"
  by code_simp

text \<open>
  Claim C8, as amended. The mobile check, applied to the formatted number, accepts
  exactly a plus sign followed by 5 to 17 digits (the formatted number has no white
  space left); the email check accepts exactly the texts of the regex's shape. When an
  extraction succeeds, its invalid list holds, in row order, the addresses that are
  texts, fail the check and are not blank, and its recipients are the rows whose
  address passes, deduplicated. Whether an extraction succeeds depends on the size of
  the sheet, the client's fields, the cells that are no text and the rows whose
  address passes only: a text address that fails the check makes no extraction fail.
\<close>

theorem address_check_and_invalid_rows:
  "(isValidMobile (formatNumber r) \<longleftrightarrow> plusDigits 5 17 (formatNumber r))
   \<and> (isValidEmail s \<longleftrightarrow> emailShape s)
   \<and> (extractMobile sheetData = Inr sms \<longrightarrow>
        invalidMobileNumbers sms = invalidCells validMobileCell 2 sheetData \<and>
        mobileParameterMaps sms
          = firstByAddress {} (map mobileRow (validRows validMobileCell 2 sheetData)))
   \<and> (extractWhatsapp sheetData = Inr wa \<longrightarrow>
        invalidMobileNumbers wa = invalidCells validMobileCell 2 sheetData \<and>
        whatsappParameterMaps wa
          = firstByAddress {} (map mobileRow (validRows validMobileCell 2 sheetData)))
   \<and> (extractEmail sheetData = Inr em \<longrightarrow>
        invalidEmailAddresses em = invalidCells validEmailCell 3 sheetData \<and>
        emailParameterMaps em
          = firstByAddress {} (map emailRow (validRows validEmailCell 3 sheetData)))
   \<and> ((\<exists>x. extractMobile sheetData = Inr x) \<longleftrightarrow>
        5 \<le> length sheetData \<and>
        cellAt (sheetData ! 1) 1 \<noteq> None \<and> cellAt (sheetData ! 2) 1 \<noteq> None \<and>
        cellAt (sheetData ! 3) 1 \<noteq> None \<and> cellAt (sheetData ! 4) 1 \<noteq> None \<and>
        \<not> notText (cellAt (sheetData ! 3) 1) \<and> \<not> notText (cellAt (sheetData ! 4) 1) \<and>
        \<not> list_ex notText (column 2 sheetData) \<and>
        validRows validMobileCell 2 sheetData \<noteq> [] \<and>
        list_all (\<lambda>row. length (parameters (mobileRow row))
                          = countPlaceholders (cellString (cellAt (sheetData ! 4) 1)))
                 (validRows validMobileCell 2 sheetData))
   \<and> ((\<exists>x. extractWhatsapp sheetData = Inr x) \<longleftrightarrow>
        7 \<le> length sheetData \<and>
        cellAt (sheetData ! 1) 1 \<noteq> None \<and> cellAt (sheetData ! 2) 1 \<noteq> None \<and>
        cellAt (sheetData ! 3) 1 \<noteq> None \<and> cellAt (sheetData ! 4) 1 \<noteq> None \<and>
        cellAt (sheetData ! 5) 1 \<noteq> None \<and> cellAt (sheetData ! 6) 1 \<noteq> None \<and>
        \<not> notText (cellAt (sheetData ! 3) 1) \<and>
        \<not> list_ex notText (column 2 sheetData))
   \<and> ((\<exists>x. extractEmail sheetData = Inr x) \<longleftrightarrow>
        6 \<le> length sheetData \<and>
        cellAt (sheetData ! 1) 1 \<noteq> None \<and> cellAt (sheetData ! 2) 1 \<noteq> None \<and>
        cellAt (sheetData ! 3) 1 \<noteq> None \<and> cellAt (sheetData ! 4) 1 \<noteq> None \<and>
        cellAt (sheetData ! 5) 1 \<noteq> None \<and>
        \<not> list_ex notText (column 2 sheetData) \<and>
        \<not> list_ex throwingEmailCell (column 3 sheetData) \<and>
        paragraphsOf sheetData \<noteq> [] \<and>
        validRows validEmailCell 3 sheetData \<noteq> [] \<and>
        list_all (\<lambda>row. length (parameters (emailRow row))
                          = placeholderTotal (paragraphsOf sheetData))
                 (validRows validEmailCell 3 sheetData))"
proof (intro conjI impI)
  show "isValidMobile (formatNumber r) \<longleftrightarrow> plusDigits 5 17 (formatNumber r)"
    by (rule isValidMobile_formatNumber)
  show "isValidEmail s \<longleftrightarrow> emailShape s"
    by (rule isValidEmail_shape)
  show "(\<exists>x. extractMobile sheetData = Inr x) \<longleftrightarrow>
        5 \<le> length sheetData \<and>
        cellAt (sheetData ! 1) 1 \<noteq> None \<and> cellAt (sheetData ! 2) 1 \<noteq> None \<and>
        cellAt (sheetData ! 3) 1 \<noteq> None \<and> cellAt (sheetData ! 4) 1 \<noteq> None \<and>
        \<not> notText (cellAt (sheetData ! 3) 1) \<and> \<not> notText (cellAt (sheetData ! 4) 1) \<and>
        \<not> list_ex notText (column 2 sheetData) \<and>
        validRows validMobileCell 2 sheetData \<noteq> [] \<and>
        list_all (\<lambda>row. length (parameters (mobileRow row))
                          = countPlaceholders (cellString (cellAt (sheetData ! 4) 1)))
                 (validRows validMobileCell 2 sheetData)"
    unfolding extractMobile_succeeds_iff smsSheetReady_def by blast
  show "(\<exists>x. extractWhatsapp sheetData = Inr x) \<longleftrightarrow>
        7 \<le> length sheetData \<and>
        cellAt (sheetData ! 1) 1 \<noteq> None \<and> cellAt (sheetData ! 2) 1 \<noteq> None \<and>
        cellAt (sheetData ! 3) 1 \<noteq> None \<and> cellAt (sheetData ! 4) 1 \<noteq> None \<and>
        cellAt (sheetData ! 5) 1 \<noteq> None \<and> cellAt (sheetData ! 6) 1 \<noteq> None \<and>
        \<not> notText (cellAt (sheetData ! 3) 1) \<and>
        \<not> list_ex notText (column 2 sheetData)"
    by (rule extractWhatsapp_succeeds_iff)
  show "(\<exists>x. extractEmail sheetData = Inr x) \<longleftrightarrow>
        6 \<le> length sheetData \<and>
        cellAt (sheetData ! 1) 1 \<noteq> None \<and> cellAt (sheetData ! 2) 1 \<noteq> None \<and>
        cellAt (sheetData ! 3) 1 \<noteq> None \<and> cellAt (sheetData ! 4) 1 \<noteq> None \<and>
        cellAt (sheetData ! 5) 1 \<noteq> None \<and>
        \<not> list_ex notText (column 2 sheetData) \<and>
        \<not> list_ex throwingEmailCell (column 3 sheetData) \<and>
        paragraphsOf sheetData \<noteq> [] \<and>
        validRows validEmailCell 3 sheetData \<noteq> [] \<and>
        list_all (\<lambda>row. length (parameters (emailRow row))
                          = placeholderTotal (paragraphsOf sheetData))
                 (validRows validEmailCell 3 sheetData)"
    unfolding extractEmail_succeeds_iff emailSheetReady_def by blast
next
  assume "extractMobile sheetData = Inr sms"
  then show "invalidMobileNumbers sms = invalidCells validMobileCell 2 sheetData"
    and "mobileParameterMaps sms
          = firstByAddress {} (map mobileRow (validRows validMobileCell 2 sheetData))"
    by (rule extractMobile_result)+
next
  assume "extractWhatsapp sheetData = Inr wa"
  then show "invalidMobileNumbers wa = invalidCells validMobileCell 2 sheetData"
    and "whatsappParameterMaps wa
          = firstByAddress {} (map mobileRow (validRows validMobileCell 2 sheetData))"
    by (rule extractWhatsapp_result)+
next
  assume "extractEmail sheetData = Inr em"
  then show "invalidEmailAddresses em = invalidCells validEmailCell 3 sheetData"
    and "emailParameterMaps em
          = firstByAddress {} (map emailRow (validRows validEmailCell 3 sheetData))"
    by (rule extractEmail_result)+
qed

theorem address_check_and_invalid_rows_witness:
  "isValidMobile (formatNumber ''+27 82 123 4567'')
   \<and> plusDigits 5 17 (formatNumber ''+27 82 123 4567'')
   \<and> map_sum id invalidMobileNumbers (extractMobile smsSheetExample) = Inr [''+1234'']
   \<and> invalidCells validMobileCell 2 smsSheetExample = [''+1234'']
   \<and> map address (firstByAddress {} (map mobileRow (validRows validMobileCell 2 smsSheetExample)))
        = [''+27 82 123 4567'', ''+27821234567'', ''+44 20 7946 0018'']"
proof -
  have ok: "isValidMobile (formatNumber ''+27 82 123 4567'')"
    by code_simp
  have ex: "extractMobile smsSheetExample = Inr (projr (extractMobile smsSheetExample))"
    by code_simp
  have inv: "invalidMobileNumbers (projr (extractMobile smsSheetExample)) = [''+1234'']"
    by code_simp
  have maps: "map address (mobileParameterMaps (projr (extractMobile smsSheetExample)))
        = [''+27 82 123 4567'', ''+27821234567'', ''+44 20 7946 0018'']"
    by code_simp
  note claim = address_check_and_invalid_rows[of "''+27 82 123 4567''" s smsSheetExample
          "projr (extractMobile smsSheetExample)" wa em for s wa em]
  from claim ok have "plusDigits 5 17 (formatNumber ''+27 82 123 4567'')"
    by blast
  moreover from claim ex
  have "invalidMobileNumbers (projr (extractMobile smsSheetExample))
          = invalidCells validMobileCell 2 smsSheetExample"
    and "mobileParameterMaps (projr (extractMobile smsSheetExample))
          = firstByAddress {} (map mobileRow (validRows validMobileCell 2 smsSheetExample))"
    by blast+
  moreover have "map_sum id invalidMobileNumbers (extractMobile smsSheetExample)
                   = Inr (invalidMobileNumbers (projr (extractMobile smsSheetExample)))"
    by (subst ex) simp
  ultimately show ?thesis
    using ok inv maps by simp
qed

text \<open>
  The claim as first stated fails twice: a plus sign followed by four digits is not
  accepted, and a blank address cell, which fails the check, is not put on the
  invalid list.
\<close>

theorem four_digits_and_blank_cell_counterexample:
  "plusDigits 4 17 ''+1234''
   \<and> \<not> isValidMobile (formatNumber ''+1234'')
   \<and> cellAt (smsSheetExample ! 4) 2 = Some (Text ''   '')
   \<and> \<not> validMobileCell (Some (Text ''   ''))
   \<and> map_sum id invalidMobileNumbers (extractMobile smsSheetExample) = Inr [''+1234'']"
  by code_simp

section \<open>Placeholder validation inside the extractors\<close>

lemma extractMobile_first_mismatch:
  assumes "smsSheetReady sheetData"
    and "i < length (validRows validMobileCell 2 sheetData)"
    and "list_all (\<lambda>row. length (parameters (mobileRow row))
                           = countPlaceholders (cellString (cellAt (sheetData ! 4) 1)))
           (take i (validRows validMobileCell 2 sheetData))"
    and "length (parameters (mobileRow (validRows validMobileCell 2 sheetData ! i)))
           \<noteq> countPlaceholders (cellString (cellAt (sheetData ! 4) 1))"
  shows "extractMobile sheetData
           = Inl (SheetInvalid
                    (ParameterMismatch (i + 1)
                       (countPlaceholders (cellString (cellAt (sheetData ! 4) 1)))
                       (length (parameters (mobileRow (validRows validMobileCell 2 sheetData ! i))))))"
proof -
  let ?rows = "validRows validMobileCell 2 sheetData"
  let ?body = "cellString (cellAt (sheetData ! 4) 1)"
  from assms(2,3) have before:
    "\<forall>j < i. length (parameters (map mobileRow ?rows ! j)) = sum_list (map countPlaceholders [?body])"
    by (auto simp: list_all_length)
  from assms(2,4) have at:
    "length (parameters (map mobileRow ?rows ! i)) \<noteq> sum_list (map countPlaceholders [?body])"
    by simp
  from assms(2) have len: "i < length (map mobileRow ?rows)" by simp
  from validateMessagePlaceholders_first[OF len before at] assms(2)
  have "validateMessagePlaceholders [?body] (map mobileRow ?rows)
          = Inl (ParameterMismatch (i + 1) (countPlaceholders ?body)
                   (length (parameters (mobileRow (?rows ! i)))))"
    by simp
  with assms(1) show ?thesis
    unfolding extractMobile_sheet validateSmsSheetFields_rows smsSheetReady_def
    by simp
qed

lemma extractEmail_first_mismatch:
  assumes "emailSheetReady sheetData"
    and "i < length (validRows validEmailCell 3 sheetData)"
    and "list_all (\<lambda>row. length (parameters (emailRow row))
                           = placeholderTotal (paragraphsOf sheetData))
           (take i (validRows validEmailCell 3 sheetData))"
    and "length (parameters (emailRow (validRows validEmailCell 3 sheetData ! i)))
           \<noteq> placeholderTotal (paragraphsOf sheetData)"
  shows "extractEmail sheetData
           = Inl (SheetInvalid
                    (ParameterMismatch (i + 1) (placeholderTotal (paragraphsOf sheetData))
                       (length (parameters (emailRow (validRows validEmailCell 3 sheetData ! i))))))"
proof -
  let ?rows = "validRows validEmailCell 3 sheetData"
  let ?paragraphs = "paragraphsOf sheetData"
  from assms(2,3) have before:
    "\<forall>j < i. length (parameters (map emailRow ?rows ! j)) = sum_list (map countPlaceholders ?paragraphs)"
    by (auto simp: list_all_length placeholderTotal_def)
  from assms(2,4) have at:
    "length (parameters (map emailRow ?rows ! i)) \<noteq> sum_list (map countPlaceholders ?paragraphs)"
    by (simp add: placeholderTotal_def)
  from assms(2) have len: "i < length (map emailRow ?rows)" by simp
  from validateMessagePlaceholders_first[OF len before at] assms(2)
  have "validateMessagePlaceholders ?paragraphs (map emailRow ?rows)
          = Inl (ParameterMismatch (i + 1) (placeholderTotal ?paragraphs)
                   (length (parameters (emailRow (?rows ! i)))))"
    by (simp add: placeholderTotal_def)
  with assms(1) show ?thesis
    unfolding extractEmail_sheet validateEmailSheetFields_rows emailSheetReady_def
    by simp
qed

text \<open>
  Claim C6, as amended. On a sheet whose extraction is decided by the placeholder
  validation, the placeholder count of an email sheet is the sum, over its paragraphs,
  of the occurrences of \<open>{}\<close> inside each paragraph, and that of an SMS sheet the
  occurrences in its body. The extraction succeeds exactly when every row whose
  address passes the check, a row that repeats an earlier address included, has that
  many parameters. Otherwise it fails at the first such row that has not, with an
  error that carries the position of that row among the rows whose address passes the
  check, counted from 1, the placeholder count and the parameter count of the row;
  the message of the error puts that position between the brackets of \<open>row[ ]\<close>.
\<close>

theorem placeholder_counts_at_extraction:
  "(emailSheetReady sheetData \<longrightarrow>
      ((\<exists>x. extractEmail sheetData = Inr x) \<longleftrightarrow>
         list_all (\<lambda>row. length (parameters (emailRow row))
                           = placeholderTotal (paragraphsOf sheetData))
           (validRows validEmailCell 3 sheetData))
      \<and> (\<forall>i < length (validRows validEmailCell 3 sheetData).
            list_all (\<lambda>row. length (parameters (emailRow row))
                              = placeholderTotal (paragraphsOf sheetData))
              (take i (validRows validEmailCell 3 sheetData)) \<and>
            length (parameters (emailRow (validRows validEmailCell 3 sheetData ! i)))
              \<noteq> placeholderTotal (paragraphsOf sheetData) \<longrightarrow>
            extractEmail sheetData
              = Inl (SheetInvalid
                       (ParameterMismatch (i + 1) (placeholderTotal (paragraphsOf sheetData))
                          (length (parameters
                             (emailRow (validRows validEmailCell 3 sheetData ! i))))))))
   \<and> (smsSheetReady sheetData \<longrightarrow>
      ((\<exists>x. extractMobile sheetData = Inr x) \<longleftrightarrow>
         list_all (\<lambda>row. length (parameters (mobileRow row))
                           = countPlaceholders (cellString (cellAt (sheetData ! 4) 1)))
           (validRows validMobileCell 2 sheetData))
      \<and> (\<forall>i < length (validRows validMobileCell 2 sheetData).
            list_all (\<lambda>row. length (parameters (mobileRow row))
                              = countPlaceholders (cellString (cellAt (sheetData ! 4) 1)))
              (take i (validRows validMobileCell 2 sheetData)) \<and>
            length (parameters (mobileRow (validRows validMobileCell 2 sheetData ! i)))
              \<noteq> countPlaceholders (cellString (cellAt (sheetData ! 4) 1)) \<longrightarrow>
            extractMobile sheetData
              = Inl (SheetInvalid
                       (ParameterMismatch (i + 1)
                          (countPlaceholders (cellString (cellAt (sheetData ! 4) 1)))
                          (length (parameters
                             (mobileRow (validRows validMobileCell 2 sheetData ! i))))))))
   \<and> extractErrorMessage sheetKind (SheetInvalid (ParameterMismatch position placeholderCount parameterCount))
       = ''Failed to validate '' @ sheetKind
           @ '' sheet: Failed to validate message placeholders: Parameter mismatch detected in row[''
           @ showNat position @ '']: Found '' @ showNat placeholderCount
           @ '' '' @ [CHR 0x27] @ ''{}'' @ [CHR 0x27] @ '' placeholders but ''
           @ showNat parameterCount @ '' parameter values!''"
proof (intro conjI impI allI)
  assume ready: "emailSheetReady sheetData"
  then show "(\<exists>x. extractEmail sheetData = Inr x) \<longleftrightarrow>
         list_all (\<lambda>row. length (parameters (emailRow row))
                           = placeholderTotal (paragraphsOf sheetData))
           (validRows validEmailCell 3 sheetData)"
    by (simp add: extractEmail_succeeds_iff)
  fix i
  assume "i < length (validRows validEmailCell 3 sheetData)"
    and "list_all (\<lambda>row. length (parameters (emailRow row))
                              = placeholderTotal (paragraphsOf sheetData))
              (take i (validRows validEmailCell 3 sheetData)) \<and>
            length (parameters (emailRow (validRows validEmailCell 3 sheetData ! i)))
              \<noteq> placeholderTotal (paragraphsOf sheetData)"
  with ready show "extractEmail sheetData
              = Inl (SheetInvalid
                       (ParameterMismatch (i + 1) (placeholderTotal (paragraphsOf sheetData))
                          (length (parameters
                             (emailRow (validRows validEmailCell 3 sheetData ! i))))))"
    using extractEmail_first_mismatch[of sheetData i] by blast
next
  assume ready: "smsSheetReady sheetData"
  then show "(\<exists>x. extractMobile sheetData = Inr x) \<longleftrightarrow>
         list_all (\<lambda>row. length (parameters (mobileRow row))
                           = countPlaceholders (cellString (cellAt (sheetData ! 4) 1)))
           (validRows validMobileCell 2 sheetData)"
    by (simp add: extractMobile_succeeds_iff)
  fix i
  assume "i < length (validRows validMobileCell 2 sheetData)"
    and "list_all (\<lambda>row. length (parameters (mobileRow row))
                              = countPlaceholders (cellString (cellAt (sheetData ! 4) 1)))
              (take i (validRows validMobileCell 2 sheetData)) \<and>
            length (parameters (mobileRow (validRows validMobileCell 2 sheetData ! i)))
              \<noteq> countPlaceholders (cellString (cellAt (sheetData ! 4) 1))"
  with ready show "extractMobile sheetData
              = Inl (SheetInvalid
                       (ParameterMismatch (i + 1)
                          (countPlaceholders (cellString (cellAt (sheetData ! 4) 1)))
                          (length (parameters
                             (mobileRow (validRows validMobileCell 2 sheetData ! i))))))"
    using extractMobile_first_mismatch[of sheetData i] by blast
next
  show "extractErrorMessage sheetKind (SheetInvalid (ParameterMismatch position placeholderCount parameterCount))
       = ''Failed to validate '' @ sheetKind
           @ '' sheet: Failed to validate message placeholders: Parameter mismatch detected in row[''
           @ showNat position @ '']: Found '' @ showNat placeholderCount
           @ '' '' @ [CHR 0x27] @ ''{}'' @ [CHR 0x27] @ '' placeholders but ''
           @ showNat parameterCount @ '' parameter values!''"
    by simp
qed

theorem placeholder_counts_at_extraction_witness:
  "smsSheetReady smsSheetMismatch
   \<and> extractMobile smsSheetMismatch = Inl (SheetInvalid (ParameterMismatch 3 1 0))
   \<and> smsSheetReady smsSheetExample
   \<and> (\<exists>x. extractMobile smsSheetExample = Inr x)
   \<and> emailSheetReady emailSheetExample
   \<and> (\<exists>x. extractEmail emailSheetExample = Inr x)
   \<and> emailSheetReady emailSheetSplit
   \<and> extractEmail emailSheetSplit = Inl (SheetInvalid (ParameterMismatch 1 0 1))"
proof -
  have ready: "smsSheetReady smsSheetMismatch"
    by code_simp
  have len: "2 < length (validRows validMobileCell 2 smsSheetMismatch)"
    by code_simp
  have before: "list_all (\<lambda>row. length (parameters (mobileRow row))
                              = countPlaceholders (cellString (cellAt (smsSheetMismatch ! 4) 1)))
              (take 2 (validRows validMobileCell 2 smsSheetMismatch))"
    by code_simp
  have at: "length (parameters (mobileRow (validRows validMobileCell 2 smsSheetMismatch ! 2)))
              \<noteq> countPlaceholders (cellString (cellAt (smsSheetMismatch ! 4) 1))"
    by code_simp
  have count: "countPlaceholders (cellString (cellAt (smsSheetMismatch ! 4) 1)) = 1"
    by code_simp
  have found: "length (parameters (mobileRow (validRows validMobileCell 2 smsSheetMismatch ! 2))) = 0"
    by code_simp
  have ready': "emailSheetReady emailSheetExample"
    by code_simp
  have every: "list_all (\<lambda>row. length (parameters (emailRow row))
                           = placeholderTotal (paragraphsOf emailSheetExample))
           (validRows validEmailCell 3 emailSheetExample)"
    by code_simp
  have ready'': "smsSheetReady smsSheetExample"
    by code_simp
  have every': "list_all (\<lambda>row. length (parameters (mobileRow row))
                           = countPlaceholders (cellString (cellAt (smsSheetExample ! 4) 1)))
           (validRows validMobileCell 2 smsSheetExample)"
    by code_simp
  have ready3: "emailSheetReady emailSheetSplit"
    by code_simp
  have len3: "0 < length (validRows validEmailCell 3 emailSheetSplit)"
    by code_simp
  have before3: "list_all (\<lambda>row. length (parameters (emailRow row))
                              = placeholderTotal (paragraphsOf emailSheetSplit))
              (take 0 (validRows validEmailCell 3 emailSheetSplit))"
    by simp
  have at3: "length (parameters (emailRow (validRows validEmailCell 3 emailSheetSplit ! 0)))
              \<noteq> placeholderTotal (paragraphsOf emailSheetSplit)"
    by code_simp
  have count3: "placeholderTotal (paragraphsOf emailSheetSplit) = 0"
    by code_simp
  have found3: "length (parameters (emailRow (validRows validEmailCell 3 emailSheetSplit ! 0))) = 1"
    by code_simp
  note sms = placeholder_counts_at_extraction[of smsSheetMismatch]
  note mail = placeholder_counts_at_extraction[of emailSheetExample]
  note sms' = placeholder_counts_at_extraction[of smsSheetExample]
  note mail' = placeholder_counts_at_extraction[of emailSheetSplit]
  from mail' ready3 len3 before3 at3
  have "extractEmail emailSheetSplit
          = Inl (SheetInvalid
                   (ParameterMismatch (0 + 1) (placeholderTotal (paragraphsOf emailSheetSplit))
                      (length (parameters
                         (emailRow (validRows validEmailCell 3 emailSheetSplit ! 0))))))"
    by blast
  then have split: "extractEmail emailSheetSplit = Inl (SheetInvalid (ParameterMismatch 1 0 1))"
    unfolding count3 found3 by simp
  from sms' ready'' every' have whole: "\<exists>x. extractMobile smsSheetExample = Inr x"
    by blast
  from sms ready len before at
  have "extractMobile smsSheetMismatch
          = Inl (SheetInvalid
                   (ParameterMismatch (2 + 1)
                      (countPlaceholders (cellString (cellAt (smsSheetMismatch ! 4) 1)))
                      (length (parameters
                         (mobileRow (validRows validMobileCell 2 smsSheetMismatch ! 2))))))"
    by blast
  then have "extractMobile smsSheetMismatch = Inl (SheetInvalid (ParameterMismatch 3 1 0))"
    unfolding count found by simp
  moreover from mail ready' every have "\<exists>x. extractEmail emailSheetExample = Inr x"
    by blast
  ultimately show ?thesis
    using ready ready' ready'' ready3 split whole by blast
qed

text \<open>
  The claim as first stated fails three times. Two paragraphs that end and start with
  a brace hold one \<open>{}\<close> when joined, and every address of \<open>emailSheetSplit\<close> has one
  parameter: the count is 0 and the extraction fails. The row of \<open>smsSheetMismatch\<close>
  that lacks its parameter is row 5 of the sheet, and the error names 3. The
  recipients of \<open>smsSheetRepeat\<close> are the one row with its parameter, and the
  extraction fails at the row that repeats its number.
\<close>

theorem joined_body_and_sheet_row_counterexample:
  "paragraphsOf emailSheetSplit = [''Dear {'', ''}, hello'']
   \<and> countPlaceholders (concat (paragraphsOf emailSheetSplit)) = 1
   \<and> map (\<lambda>row. length (parameters (emailRow row))) (validRows validEmailCell 3 emailSheetSplit)
        = [1, 1]
   \<and> extractEmail emailSheetSplit = Inl (SheetInvalid (ParameterMismatch 1 0 1))
   \<and> validRows validMobileCell 2 smsSheetMismatch ! 2 = smsSheetMismatch ! 5
   \<and> extractMobile smsSheetMismatch = Inl (SheetInvalid (ParameterMismatch 3 1 0))
   \<and> firstByAddress {} (map mobileRow (validRows validMobileCell 2 smsSheetRepeat))
        = [\<lparr>address = ''+27821234567'', parameters = [''Ann'']\<rparr>]
   \<and> extractMobile smsSheetRepeat = Inl (SheetInvalid (ParameterMismatch 2 1 0))"
  by code_simp

section \<open>What each step does to the ledger\<close>

lemma tokenPatches_append: "tokenPatches (xs @ ys) = tokenPatches xs @ tokenPatches ys"
  by (induction xs rule: tokenPatches.induct) auto

lemma uploadLogFileToS3_effect:
  "uploadLogFileToS3 env w filePath logFile = (r, w') \<Longrightarrow>
   users w' = users w \<and> tokenPatches (calls w') = tokenPatches (calls w)"
  by (auto simp: uploadLogFileToS3_def record_call_def tokenPatches_append
           split: if_splits option.splits)

lemma uploadLogFileToS3_fails:
  assumes "storeFails env"
  shows "\<exists>error. fst (uploadLogFileToS3 env w filePath logFile) = Inl error"
proof (cases "ENABLE_UPLOAD_LOG_FILE_TO_S3 env")
  case True
  with assms obtain error where "s3Put env filePath logFile = Some error"
    unfolding storeFails_def by fastforce
  then show ?thesis by (simp add: uploadLogFileToS3_def)
next
  case False
  then show ?thesis by (simp add: uploadLogFileToS3_def)
qed

lemma storeLogFile_effect:
  "storeLogFile env w filePath logFile = (r, w') \<Longrightarrow>
   users w' = users w \<and> tokenPatches (calls w') = tokenPatches (calls w)"
  unfolding storeLogFile_def
  by (cases "uploadLogFileToS3 env w filePath logFile")
     (auto split: sum.splits dest: uploadLogFileToS3_effect)

lemma storeLogFile_fails:
  assumes "storeFails env"
  shows "\<exists>error. fst (storeLogFile env w filePath logFile) = Inl error"
proof -
  from uploadLogFileToS3_fails[OF assms, of w filePath logFile]
  obtain error where "fst (uploadLogFileToS3 env w filePath logFile) = Inl error" ..
  then show ?thesis
    unfolding storeLogFile_def
    by (cases "uploadLogFileToS3 env w filePath logFile") auto
qed

lemma logEmailToFile_effect:
  "logEmailToFile env w a b c d e f g h = (r, w') \<Longrightarrow>
   users w' = users w \<and> tokenPatches (calls w') = tokenPatches (calls w)"
  unfolding logEmailToFile_def
  by (auto split: cellValue.splits prod.splits dest: storeLogFile_effect)

lemma logEmailToFile_fails:
  assumes "storeFails env"
  shows "\<exists>error. fst (logEmailToFile env w a b c d e f g h) = Inl error"
proof (cases b)
  case (NonText sender)
  then show ?thesis by (simp add: logEmailToFile_def)
next
  case sender: (Text sender)
  show ?thesis
  proof (cases c)
    case (NonText subject)
    with sender show ?thesis by (simp add: logEmailToFile_def)
  next
    case (Text subject)
    obtain name content where written: "emailLogFile env a sender subject d e f g h = (name, content)"
      by (cases "emailLogFile env a sender subject d e f g h")
    from storeLogFile_fails[OF assms, of w name content] sender Text written
    show ?thesis by (simp add: logEmailToFile_def)
  qed
qed

lemma logSmsToFile_effect:
  "logSmsToFile env w a b c d e f g h = (r, w') \<Longrightarrow>
   users w' = users w \<and> tokenPatches (calls w') = tokenPatches (calls w)"
  unfolding logSmsToFile_def
  by (auto split: cellValue.splits prod.splits dest: storeLogFile_effect)

lemma logSmsToFile_fails:
  assumes "storeFails env"
  shows "\<exists>error. fst (logSmsToFile env w a b c d e f g h) = Inl error"
proof (cases b)
  case (NonText sender)
  then show ?thesis by (simp add: logSmsToFile_def)
next
  case (Text sender)
  obtain name content where written: "smsLogFile env a sender c d e f g h = (name, content)"
    by (cases "smsLogFile env a sender c d e f g h")
  from storeLogFile_fails[OF assms, of w name content] Text written
  show ?thesis by (simp add: logSmsToFile_def)
qed

lemma logWhatsappToFile_effect:
  "logWhatsappToFile env w a b c d e f g h = (r, w') \<Longrightarrow>
   users w' = users w \<and> tokenPatches (calls w') = tokenPatches (calls w)"
  unfolding logWhatsappToFile_def
  by (auto split: cellValue.splits prod.splits dest: storeLogFile_effect)

lemma logWhatsappToFile_fails:
  assumes "storeFails env"
  shows "\<exists>error. fst (logWhatsappToFile env w a b c d e f g h) = Inl error"
proof (cases b)
  case (NonText sender)
  then show ?thesis by (simp add: logWhatsappToFile_def)
next
  case (Text sender)
  obtain name content where written: "whatsappLogFile env a sender c d e f g h = (name, content)"
    by (cases "whatsappLogFile env a sender c d e f g h")
  from storeLogFile_fails[OF assms, of w name content] Text written
  show ?thesis by (simp add: logWhatsappToFile_def)
qed

lemma emailLogFileToClient_effect:
  "emailLogFileToClient env w a b c d e = (r, w') \<Longrightarrow>
   users w' = users w \<and> tokenPatches (calls w') = tokenPatches (calls w)"
  by (auto simp: emailLogFileToClient_def record_call_def tokenPatches_append
           split: if_splits option.splits)

lemma emailLogFileToClient_fails:
  assumes "mailFails env"
  shows "\<exists>error. fst (emailLogFileToClient env w a b c d e) = Inl error"
proof (cases "ENABLE_SEND_LOG_FILE_TO_CLIENT env")
  case True
  with assms obtain error where "sesSendRaw env b d e = Some error"
    unfolding mailFails_def by fastforce
  then show ?thesis using True by (simp add: emailLogFileToClient_def)
next
  case False
  then show ?thesis by (simp add: emailLogFileToClient_def)
qed

lemma map_tokens_credentials:
  "map tokens (map (\<lambda>v. if P v then v\<lparr>wa_access_token := b, wa_phone_number_id := c\<rparr> else v) us)
     = map tokens us"
  by (induction us) auto

lemma updateUserWhatsAppCredentials_effect:
  "updateUserWhatsAppCredentials env w a b c = (r, w') \<Longrightarrow>
   map tokens (users w') = map tokens (users w) \<and>
   tokenPatches (calls w') = tokenPatches (calls w)"
  by (auto simp: updateUserWhatsAppCredentials_def record_call_def tokenPatches_append Let_def
                 map_tokens_credentials
           split: if_splits option.splits list.splits)

lemma tokenPatches_none:
  "(\<And>c. c \<in> set cs \<Longrightarrow> \<not> (\<exists>u a. c = PatchTokens u a)) \<Longrightarrow> tokenPatches cs = []"
  by (induction cs rule: tokenPatches.induct) auto

lemma sendBatchEmails_effect:
  "sendBatchEmails env w a b c d e = (logs, w1) \<Longrightarrow>
   users w1 = users w \<and> tokenPatches (calls w1) = tokenPatches (calls w)"
  unfolding sendBatchEmails_def Let_def
  by (auto simp: record_call_def tokenPatches_append intro!: tokenPatches_none)

lemma sendBatchSMS_effect:
  "sendBatchSMS env w a b c d e = (logs, w1) \<Longrightarrow>
   users w1 = users w \<and> tokenPatches (calls w1) = tokenPatches (calls w)"
  unfolding sendBatchSMS_def Let_def
  by (auto simp: record_call_def tokenPatches_append split: outcome.splits
           intro!: tokenPatches_none)

lemma sendBatchWhatsappTemplateMessages_effect:
  "sendBatchWhatsappTemplateMessages env w a b c = (r, w1) \<Longrightarrow>
   users w1 = users w \<and> tokenPatches (calls w1) = tokenPatches (calls w)"
  unfolding sendBatchWhatsappTemplateMessages_def Let_def
  by (auto simp: record_call_def tokenPatches_append split: sum.splits
           intro!: tokenPatches_none)

lemma balances_patch:
  "map (\<lambda>v. (user_id v, tokens v))
       (map (\<lambda>v. if user_id v = userId then v\<lparr>tokens := t\<rparr> else v) us)
     = written userId t (map (\<lambda>v. (user_id v, tokens v)) us)"
  by (induction us) (auto simp: written_def)

lemma balances_patch_comp:
  "map ((\<lambda>v. (user_id v, tokens v)) \<circ>
        (\<lambda>v. if user_id v = userId then v\<lparr>tokens := t\<rparr> else v)) us
     = written userId t (map (\<lambda>v. (user_id v, tokens v)) us)"
  by (induction us) (auto simp: written_def)

lemma updateUserTokens_effect:
  assumes "updateUserTokens env w a amount ''-'' True = (r, w')"
  shows "(statusCode r \<noteq> 200 \<and> balances w' = balances w \<and>
            tokenPatches (calls w') = tokenPatches (calls w))
         \<or> (\<exists>userId newBalance.
               tokenPatches (calls w') = tokenPatches (calls w) @ [(userId, newBalance)] \<and>
               (auth0PatchError env \<noteq> None \<longrightarrow> statusCode r \<noteq> 200 \<and> balances w' = balances w) \<and>
               (auth0PatchError env = None \<longrightarrow>
                  (\<exists>text. r = Success text newBalance) \<and>
                  balances w' = written userId newBalance (balances w)))"
  using assms
  unfolding updateUserTokens_def Let_def
  by (auto simp: record_call_def tokenPatches_append balances_def balances_patch_comp
                 ResponseHandler_error_def ResponseHandler_notFound_def
                 ResponseHandler_badRequest_def
           split: option.splits list.splits if_splits)

lemma credentials_balances:
  "updateUserWhatsAppCredentials env w a b c = (r, w') \<Longrightarrow> balances w' = balances w"
  using updateUserWhatsAppCredentials_effect[of env w a b c r w']
  by (auto simp: balances_def updateUserWhatsAppCredentials_def record_call_def Let_def
           split: option.splits list.splits)

section \<open>The quota check\<close>

lemma calculateBatchCost_channel:
  "batchType \<in> {''email'', ''sms'', ''whatsapp''} \<Longrightarrow>
   calculateBatchCost env batchSize batchType = Some (int batchSize * costPerItem env batchType)"
  by (auto simp: calculateBatchCost_def costPerItem_def)

lemma validateBatchRequest_cases:
  assumes "calculateBatchCost env batchSize batchType = Some cost"
  shows "validateBatchRequest env w emailAddress batchSize batchType =
     (case auth0GetError env of
        Some error \<Rightarrow> Inl (''Failed to validate batch request: '' @ error)
      | None \<Rightarrow>
          (case filter (\<lambda>u. email u = emailAddress) (users w) of
             [] \<Rightarrow> Inl (''Failed to validate batch request: '' @ emailAddress)
           | u # us \<Rightarrow>
               if \<not> is_active u then Inl ''User is not active!''
               else if \<not> email_verified u then Inl ''User email not verified!''
               else if tokens u < cost then Inl ''User has insufficient tokens!''
               else Inr ()))"
  using assms
  by (simp add: validateBatchRequest_def getUserByEmail_def ResponseHandler_error_def
                ResponseHandler_notFound_def Let_def
           split: option.splits list.splits)

lemma processEmails_rejected:
  "extractEmail sheetData = Inr em \<Longrightarrow>
   validateBatchRequest env w (cellText (clientEmail em)) (length (emailParameterMaps em)) ''email''
     = Inl reason \<Longrightarrow>
   processEmails env w sheetData False
     = (Failure 500 ''Failed to validate batch request'' (Some reason), w)"
  by (simp add: processEmails_def ResponseHandler_error_def)

lemma processSms_rejected:
  "extractMobile sheetData = Inr sms \<Longrightarrow>
   validateBatchRequest env w (cellText (clientEmail sms)) (length (mobileParameterMaps sms)) ''sms''
     = Inl reason \<Longrightarrow>
   processSms env w sheetData False
     = (Failure 500 ''Failed to validate batch request'' (Some reason), w)"
  by (simp add: processSms_def ResponseHandler_error_def)

lemma processWhatsapp_rejected:
  "extractWhatsapp sheetData = Inr wa \<Longrightarrow>
   validateBatchRequest env w (cellText (clientEmail wa)) (length (whatsappParameterMaps wa)) ''whatsapp''
     = Inl reason \<Longrightarrow>
   processWhatsapp env w sheetData False
     = (Failure 500 ''Failed to validate batch request'' (Some reason), w)"
  by (simp add: processWhatsapp_def ResponseHandler_error_def Let_def)

text \<open>
  Claim C4. For a batch type of the three channels, the quota check passes exactly
  when the account can be read, is active, has a verified email and holds at least
  batch size times the channel's unit cost. With the account read, an inactive
  account, an unverified one and one with too few tokens each give their own error
  message (the first of these conditions that fails decides). When the check fails,
  each of the three batch operations returns an error response and leaves the world
  as it was: no call has gone out to any recipient.
\<close>

theorem quota_check_before_dispatch:
  assumes "batchType \<in> {''email'', ''sms'', ''whatsapp''}"
  shows
  "(validateBatchRequest env w emailAddress batchSize batchType = Inr () \<longleftrightarrow>
      auth0GetError env = None \<and>
      (\<exists>u us. filter (\<lambda>u. email u = emailAddress) (users w) = u # us \<and>
              is_active u \<and> email_verified u \<and>
              int batchSize * costPerItem env batchType \<le> tokens u))
   \<and> (auth0GetError env = None \<and> filter (\<lambda>u. email u = emailAddress) (users w) = a # as \<longrightarrow>
        (\<not> is_active a \<longrightarrow>
           validateBatchRequest env w emailAddress batchSize batchType
             = Inl ''User is not active!'') \<and>
        (is_active a \<and> \<not> email_verified a \<longrightarrow>
           validateBatchRequest env w emailAddress batchSize batchType
             = Inl ''User email not verified!'') \<and>
        (is_active a \<and> email_verified a \<and> tokens a < int batchSize * costPerItem env batchType \<longrightarrow>
           validateBatchRequest env w emailAddress batchSize batchType
             = Inl ''User has insufficient tokens!''))
   \<and> distinct [''User is not active!'', ''User email not verified!'',
                ''User has insufficient tokens!'']
   \<and> (extractEmail sheetData = Inr em \<and>
        validateBatchRequest env w (cellText (clientEmail em)) (length (emailParameterMaps em)) ''email''
          = Inl reason \<longrightarrow>
        processEmails env w sheetData False
          = (Failure 500 ''Failed to validate batch request'' (Some reason), w))
   \<and> (extractMobile sheetData = Inr sms \<and>
        validateBatchRequest env w (cellText (clientEmail sms)) (length (mobileParameterMaps sms)) ''sms''
          = Inl reason \<longrightarrow>
        processSms env w sheetData False
          = (Failure 500 ''Failed to validate batch request'' (Some reason), w))
   \<and> (extractWhatsapp sheetData = Inr wa \<and>
        validateBatchRequest env w (cellText (clientEmail wa)) (length (whatsappParameterMaps wa)) ''whatsapp''
          = Inl reason \<longrightarrow>
        processWhatsapp env w sheetData False
          = (Failure 500 ''Failed to validate batch request'' (Some reason), w))"
proof -
  note cases = validateBatchRequest_cases[OF calculateBatchCost_channel[OF assms]]
  have iff: "validateBatchRequest env w emailAddress batchSize batchType = Inr () \<longleftrightarrow>
      auth0GetError env = None \<and>
      (\<exists>u us. filter (\<lambda>u. email u = emailAddress) (users w) = u # us \<and>
              is_active u \<and> email_verified u \<and>
              int batchSize * costPerItem env batchType \<le> tokens u)"
    unfolding cases by (auto split: option.splits list.splits)
  have reasons: "auth0GetError env = None \<and> filter (\<lambda>u. email u = emailAddress) (users w) = a # as \<longrightarrow>
        (\<not> is_active a \<longrightarrow>
           validateBatchRequest env w emailAddress batchSize batchType
             = Inl ''User is not active!'') \<and>
        (is_active a \<and> \<not> email_verified a \<longrightarrow>
           validateBatchRequest env w emailAddress batchSize batchType
             = Inl ''User email not verified!'') \<and>
        (is_active a \<and> email_verified a \<and> tokens a < int batchSize * costPerItem env batchType \<longrightarrow>
           validateBatchRequest env w emailAddress batchSize batchType
             = Inl ''User has insufficient tokens!'')"
    unfolding cases by simp
  have different: "distinct [''User is not active!'', ''User email not verified!'',
                ''User has insufficient tokens!'']"
    by simp
  from iff reasons different show ?thesis
    using processEmails_rejected[of sheetData em env w reason]
          processSms_rejected[of sheetData sms env w reason]
          processWhatsapp_rejected[of sheetData wa env w reason]
    by blast
qed

theorem quota_check_before_dispatch_witness:
  "''sms'' \<in> {''email'', ''sms'', ''whatsapp''}
   \<and> validateBatchRequest envExample worldLowBalance ''acme@example.com'' 3 ''sms''
        = Inl ''User has insufficient tokens!''
   \<and> validateBatchRequest envExample worldExample ''acme@example.com'' 3 ''sms'' = Inr ()
   \<and> processSms envExample worldLowBalance smsSheetExample False
        = (Failure 500 ''Failed to validate batch request''
             (Some ''User has insufficient tokens!''), worldLowBalance)
   \<and> calls worldLowBalance = []"
proof -
  have bt: "''sms'' \<in> {''email'', ''sms'', ''whatsapp''}" by simp
  have ex: "extractMobile smsSheetExample = Inr (projr (extractMobile smsSheetExample))"
    by code_simp
  have ce: "cellText (clientEmail (projr (extractMobile smsSheetExample))) = ''acme@example.com''"
    by code_simp
  have n: "length (mobileParameterMaps (projr (extractMobile smsSheetExample))) = 3"
    by code_simp
  have look: "auth0GetError envExample = None \<and>
      filter (\<lambda>u. email u = ''acme@example.com'') (users worldLowBalance)
        = hd (users worldLowBalance) # []"
    by code_simp
  have low: "is_active (hd (users worldLowBalance)) \<and> email_verified (hd (users worldLowBalance)) \<and>
      tokens (hd (users worldLowBalance)) < int 3 * costPerItem envExample ''sms''"
    by code_simp
  note claim = quota_check_before_dispatch[OF bt, of envExample _ "''acme@example.com''" 3]
  from claim[of worldLowBalance "hd (users worldLowBalance)" "[]"] look low
  have fails: "validateBatchRequest envExample worldLowBalance ''acme@example.com'' 3 ''sms''
        = Inl ''User has insufficient tokens!''"
    by blast
  have "auth0GetError envExample = None \<and>
      (\<exists>u us. filter (\<lambda>u. email u = ''acme@example.com'') (users worldExample) = u # us \<and>
              is_active u \<and> email_verified u \<and> int 3 * costPerItem envExample ''sms'' \<le> tokens u)"
    by (simp add: envExample_def worldExample_def costPerItem_def)
  with claim[of worldExample]
  have passes: "validateBatchRequest envExample worldExample ''acme@example.com'' 3 ''sms'' = Inr ()"
    by blast
  from claim[of worldLowBalance _ _ smsSheetExample _ "''User has insufficient tokens!''"
               "projr (extractMobile smsSheetExample)"] ex fails ce n
  have "processSms envExample worldLowBalance smsSheetExample False
        = (Failure 500 ''Failed to validate batch request''
             (Some ''User has insufficient tokens!''), worldLowBalance)"
    by simp
  moreover have "calls worldLowBalance = []" by (simp add: worldLowBalance_def)
  ultimately show ?thesis using bt fails passes by blast
qed

section \<open>No rollback after a failure of the log file\<close>

lemma balances_users: "users w' = users w \<Longrightarrow> balances w' = balances w"
  by (simp add: balances_def)

lemma processEmails_log_failure:
  assumes run: "processEmails env w sheetData False = (response, w')"
    and fail: "storeFails env \<or> mailFails env"
  shows "statusCode response \<noteq> 200 \<and>
         (tokenPatches (calls w') = tokenPatches (calls w) \<and> balances w' = balances w
          \<or> (\<exists>userId newBalance.
                tokenPatches (calls w') = tokenPatches (calls w) @ [(userId, newBalance)] \<and>
                (auth0PatchError env = None \<longrightarrow>
                   balances w' = written userId newBalance (balances w) \<and>
                   (message response = ''Failed to create log file'' \<or>
                    message response = ''Failed to email log file to client''))))"
proof (cases "extractEmail sheetData")
  case (Inl error)
  with run show ?thesis
    by (auto simp: processEmails_def ResponseHandler_error_def)
next
  case (Inr em)
  note extracted = Inr
  show ?thesis
  proof (cases "validateBatchRequest env w (cellText (clientEmail em)) (length (emailParameterMaps em)) ''email''")
    case (Inl reason)
    with run extracted show ?thesis
      by (auto simp: processEmails_def ResponseHandler_error_def)
  next
    case (Inr unit)
    note valid = Inr
    show ?thesis
    proof (cases "ENABLE_SEND_EMAIL env")
      case False
      with run extracted valid show ?thesis
        by (auto simp: processEmails_def ResponseHandler_error_def)
    next
      case True
      let ?body = "buildBatchRequestEmailBody env (emailParagraphs em) (companyName em)
                     (cellText (clientEmail em)) (companyAddress em)"
      obtain logs w1 where send:
        "sendBatchEmails env w (cellText (clientEmail em)) (cellText (emailSubject em)) ?body
           (emailParameterMaps em) False = (logs, w1)"
        by fastforce
      obtain r w2 where upd:
        "updateUserTokens env w1 (cellText (clientEmail em))
           (calculateBatchCost env (length (emailParameterMaps em)) ''email'') ''-'' True = (r, w2)"
        by fastforce
      from sendBatchEmails_effect[OF send]
      have e1: "balances w1 = balances w" "tokenPatches (calls w1) = tokenPatches (calls w)"
        by (simp_all add: balances_def)
      note e2 = updateUserTokens_effect[OF upd, unfolded e1]
      show ?thesis
      proof (cases r)
        case (Failure status msg details)
        with run extracted valid True send upd
        have "response = Failure 500 ''Failed to update user tokens'' details" and "w' = w2"
          by (auto simp: processEmails_def ResponseHandler_error_def)
        with e2 Failure show ?thesis by auto
      next
        case (Success msg data)
        obtain lr w3 where log:
          "logEmailToFile env w2 (clientName em) (clientEmail em) (emailSubject em)
             (emailParagraphs em) (emailParameterMaps em) (invalidEmailAddresses em)
             logs data = (lr, w3)"
          by fastforce
        from logEmailToFile_effect[OF log]
        have e3: "balances w3 = balances w2" "tokenPatches (calls w3) = tokenPatches (calls w2)"
          by (simp_all add: balances_def)
        show ?thesis
        proof (cases lr)
          case (Inl error)
          with run extracted valid True send upd Success log
          have "response = Failure 500 ''Failed to create log file'' (Some error)" and "w' = w3"
            by (auto simp: processEmails_def ResponseHandler_error_def)
          with e2 e3 Success show ?thesis by auto
        next
          case (Inr stored)
          obtain logFileName logFile where stored: "stored = (logFileName, logFile)"
            by (cases stored)
          from Inr log logEmailToFile_fails[of env w2] fail have mf: "mailFails env"
            by (metis fst_conv sum.distinct(1))
          obtain mr w4 where mail:
            "emailLogFileToClient env w3 (clientName em) (cellText (clientEmail em)) ''Email''
               logFileName logFile = (mr, w4)"
            by fastforce
          from emailLogFileToClient_fails[OF mf, of w3] mail
          obtain error where mr: "mr = Inl error" by (metis fst_conv)
          from emailLogFileToClient_effect[OF mail]
          have e4: "balances w4 = balances w3" "tokenPatches (calls w4) = tokenPatches (calls w3)"
            by (simp_all add: balances_def)
          from run extracted valid True send upd Success log Inr stored mail mr
          have "response = Failure 500 ''Failed to email log file to client'' (Some error)"
            and "w' = w4"
            by (auto simp: processEmails_def ResponseHandler_error_def)
          with e2 e3 e4 Success show ?thesis by auto
        qed
      qed
    qed
  qed
qed

lemma processSms_log_failure:
  assumes run: "processSms env w sheetData False = (response, w')"
    and fail: "storeFails env \<or> mailFails env"
  shows "statusCode response \<noteq> 200 \<and>
         (tokenPatches (calls w') = tokenPatches (calls w) \<and> balances w' = balances w
          \<or> (\<exists>userId newBalance.
                tokenPatches (calls w') = tokenPatches (calls w) @ [(userId, newBalance)] \<and>
                (auth0PatchError env = None \<longrightarrow>
                   balances w' = written userId newBalance (balances w) \<and>
                   (message response = ''Failed to create log file'' \<or>
                    message response = ''Failed to email log file to client''))))"
proof (cases "extractMobile sheetData")
  case (Inl error)
  with run show ?thesis
    by (auto simp: processSms_def ResponseHandler_error_def)
next
  case (Inr em)
  note extracted = Inr
  show ?thesis
  proof (cases "validateBatchRequest env w (cellText (clientEmail em)) (length (mobileParameterMaps em)) ''sms''")
    case (Inl reason)
    with run extracted show ?thesis
      by (auto simp: processSms_def ResponseHandler_error_def)
  next
    case (Inr unit)
    note valid = Inr
    show ?thesis
    proof (cases "ENABLE_SEND_SMS env")
      case False
      with run extracted valid show ?thesis
        by (auto simp: processSms_def ResponseHandler_error_def)
    next
      case True
      obtain logs w1 where send:
        "sendBatchSMS env w (smsBody em) (mobileParameterMaps em) (clientMobile em)
           (cellText (clientEmail em)) False = (logs, w1)"
        by fastforce
      obtain r w2 where upd:
        "updateUserTokens env w1 (cellText (clientEmail em))
           (calculateBatchCost env (length (mobileParameterMaps em)) ''sms'') ''-'' True = (r, w2)"
        by fastforce
      from sendBatchSMS_effect[OF send]
      have e1: "balances w1 = balances w" "tokenPatches (calls w1) = tokenPatches (calls w)"
        by (simp_all add: balances_def)
      note e2 = updateUserTokens_effect[OF upd, unfolded e1]
      show ?thesis
      proof (cases r)
        case (Failure status msg details)
        with run extracted valid True send upd
        have "response = Failure 500 ''Failed to update user tokens'' details" and "w' = w2"
          by (auto simp: processSms_def ResponseHandler_error_def)
        with e2 Failure show ?thesis by auto
      next
        case (Success msg data)
        obtain lr w3 where log:
          "logSmsToFile env w2 (clientName em) (clientEmail em) (clientMobile em)
             (smsBody em) (mobileParameterMaps em) (invalidMobileNumbers em)
             logs data = (lr, w3)"
          by fastforce
        from logSmsToFile_effect[OF log]
        have e3: "balances w3 = balances w2" "tokenPatches (calls w3) = tokenPatches (calls w2)"
          by (simp_all add: balances_def)
        show ?thesis
        proof (cases lr)
          case (Inl error)
          with run extracted valid True send upd Success log
          have "response = Failure 500 ''Failed to create log file'' (Some error)" and "w' = w3"
            by (auto simp: processSms_def ResponseHandler_error_def)
          with e2 e3 Success show ?thesis by auto
        next
          case (Inr stored)
          obtain logFileName logFile where stored: "stored = (logFileName, logFile)"
            by (cases stored)
          from Inr log logSmsToFile_fails[of env w2] fail have mf: "mailFails env"
            by (metis fst_conv sum.distinct(1))
          obtain mr w4 where mail:
            "emailLogFileToClient env w3 (clientName em) (cellText (clientEmail em)) ''SMS''
               logFileName logFile = (mr, w4)"
            by fastforce
          from emailLogFileToClient_fails[OF mf, of w3] mail
          obtain error where mr: "mr = Inl error" by (metis fst_conv)
          from emailLogFileToClient_effect[OF mail]
          have e4: "balances w4 = balances w3" "tokenPatches (calls w4) = tokenPatches (calls w3)"
            by (simp_all add: balances_def)
          from run extracted valid True send upd Success log Inr stored mail mr
          have "response = Failure 500 ''Failed to email log file to client'' (Some error)"
            and "w' = w4"
            by (auto simp: processSms_def ResponseHandler_error_def)
          with e2 e3 e4 Success show ?thesis by auto
        qed
      qed
    qed
  qed
qed

lemma processWhatsapp_log_failure:
  assumes run: "processWhatsapp env w sheetData False = (response, w')"
    and fail: "storeFails env \<or> mailFails env"
  shows "statusCode response \<noteq> 200 \<and>
         (tokenPatches (calls w') = tokenPatches (calls w) \<and> balances w' = balances w
          \<or> (\<exists>userId newBalance.
                tokenPatches (calls w') = tokenPatches (calls w) @ [(userId, newBalance)] \<and>
                (auth0PatchError env = None \<longrightarrow>
                   balances w' = written userId newBalance (balances w) \<and>
                   (message response = ''Failed to create log file'' \<or>
                    message response = ''Failed to email log file to client''))))"
proof (cases "extractWhatsapp sheetData")
  case (Inl error)
  with run show ?thesis
    by (auto simp: processWhatsapp_def ResponseHandler_error_def Let_def)
next
  case (Inr em)
  note extracted = Inr
  show ?thesis
  proof (cases "validateBatchRequest env w (cellText (clientEmail em)) (length (whatsappParameterMaps em)) ''whatsapp''")
    case (Inl reason)
    with run extracted show ?thesis
      by (auto simp: processWhatsapp_def ResponseHandler_error_def Let_def)
  next
    case (Inr unit)
    note valid = Inr
    show ?thesis
    proof (cases "ENABLE_SEND_WHATSAPP env")
      case False
      with run extracted valid show ?thesis
        by (auto simp: processWhatsapp_def ResponseHandler_error_def Let_def)
    next
      case True
      let ?messages = "map (\<lambda>mobileNumber.
                              \<lparr>phoneNumber = PhoneText (address mobileNumber),
                               templateName = whatsappTemplateName em,
                               templateParameters = Some (parameters mobileNumber),
                               languageCode = ''en_US''\<rparr>)
                           (whatsappParameterMaps em)"
      let ?url = "WA_API_URL env @ ''/'' @ whatsappPhoneNumberId em @ ''/messages''"
      obtain sent w1 where send:
        "sendBatchWhatsappTemplateMessages env w ?messages (whatsappAccessToken em) ?url
           = (sent, w1)"
        by fastforce
      obtain r w2 where upd:
        "updateUserTokens env w1 (cellText (clientEmail em))
           (calculateBatchCost env (length (whatsappParameterMaps em)) ''email'') ''-'' True = (r, w2)"
        by fastforce
      obtain cr w2c where cred:
        "updateUserWhatsAppCredentials env w2 (cellText (clientEmail em)) (whatsappAccessToken em)
           (whatsappPhoneNumberId em) = (cr, w2c)"
        by fastforce
      from credentials_balances[OF cred] updateUserWhatsAppCredentials_effect[OF cred]
      have ec: "balances w2c = balances w2" "tokenPatches (calls w2c) = tokenPatches (calls w2)"
        by simp_all
      from sendBatchWhatsappTemplateMessages_effect[OF send]
      have e1: "balances w1 = balances w" "tokenPatches (calls w1) = tokenPatches (calls w)"
        by (simp_all add: balances_def)
      note e2 = updateUserTokens_effect[OF upd, unfolded e1]
      show ?thesis
      proof (cases sent)
        case (Inl error)
        with run extracted valid True send
        have "response = Failure 500 ''Failed to send batch WhatsApp'' (Some error)" and "w' = w1"
          by (auto simp: processWhatsapp_def ResponseHandler_error_def Let_def)
        with e1 show ?thesis by auto
      next
        case (Inr logs)
        note sent = Inr
        show ?thesis
        proof (cases r)
          case (Failure status msg details)
          with run extracted valid True send sent upd
          have "response = Failure 500 ''Failed to update user tokens'' details" and "w' = w2"
            by (auto simp: processWhatsapp_def ResponseHandler_error_def Let_def)
          with e2 Failure show ?thesis by auto
        next
          case (Success msg data)
          obtain lr w3 where log:
            "logWhatsappToFile env w2c (clientName em) (clientEmail em) (clientMobile em)
               (whatsappTemplateName em) (whatsappParameterMaps em) (invalidMobileNumbers em)
               logs data = (lr, w3)"
            by fastforce
          from logWhatsappToFile_effect[OF log]
          have e3: "balances w3 = balances w2c" "tokenPatches (calls w3) = tokenPatches (calls w2c)"
            by (simp_all add: balances_def)
          show ?thesis
          proof (cases lr)
            case (Inl error)
            with run extracted valid True send sent upd cred Success log
            have "response = Failure 500 ''Failed to create log file'' (Some error)" and "w' = w3"
              by (auto simp: processWhatsapp_def ResponseHandler_error_def Let_def)
            with e2 e3 ec Success show ?thesis by auto
          next
            case (Inr stored)
            obtain logFileName logFile where stored: "stored = (logFileName, logFile)"
              by (cases stored)
            from Inr log logWhatsappToFile_fails[of env w2c] fail have mf: "mailFails env"
              by (metis fst_conv sum.distinct(1))
            obtain mr w4 where mail:
              "emailLogFileToClient env w3 (clientName em) (cellText (clientEmail em)) ''WhatsApp''
                 logFileName logFile = (mr, w4)"
              by fastforce
            from emailLogFileToClient_fails[OF mf, of w3] mail
            obtain error where mr: "mr = Inl error" by (metis fst_conv)
            from emailLogFileToClient_effect[OF mail]
            have e4: "balances w4 = balances w3" "tokenPatches (calls w4) = tokenPatches (calls w3)"
              by (simp_all add: balances_def)
            from run extracted valid True send sent upd cred Success log Inr stored mail mr
            have "response = Failure 500 ''Failed to email log file to client'' (Some error)"
              and "w' = w4"
              by (auto simp: processWhatsapp_def ResponseHandler_error_def Let_def)
            with e2 e3 e4 ec Success show ?thesis by auto
          qed
        qed
      qed
    qed
  qed
qed

text \<open>
  Claim C9. Take a batch that is not a draft, on any of the three channels, in an
  environment where the log store or the mail carrying the log file fails. The
  operation never returns a success. Either the ledger has not been written at all
  (the batch ended before the deduction), or it has been written exactly once; and
  when that write went through, the operation returns the error of the log file
  (\<open>Failed to create log file\<close> or \<open>Failed to email log file to client\<close>) and the
  ledger at the end is the ledger at the start with the written balance in place: no
  second write restores it.
\<close>

theorem no_rollback_after_log_failure:
  assumes "storeFails env \<or> mailFails env"
    and "process = processEmails \<or> process = processSms \<or> process = processWhatsapp"
    and "process env w sheetData False = (response, w')"
  shows "statusCode response \<noteq> 200 \<and>
         (tokenPatches (calls w') = tokenPatches (calls w) \<and> balances w' = balances w
          \<or> (\<exists>userId newBalance.
                tokenPatches (calls w') = tokenPatches (calls w) @ [(userId, newBalance)] \<and>
                (auth0PatchError env = None \<longrightarrow>
                   balances w' = written userId newBalance (balances w) \<and>
                   (message response = ''Failed to create log file'' \<or>
                    message response = ''Failed to email log file to client''))))"
  using assms(2)
proof (elim disjE)
  assume "process = processEmails"
  with assms(3) have "processEmails env w sheetData False = (response, w')" by simp
  then show ?thesis using assms(1) by (rule processEmails_log_failure)
next
  assume "process = processSms"
  with assms(3) have "processSms env w sheetData False = (response, w')" by simp
  then show ?thesis using assms(1) by (rule processSms_log_failure)
next
  assume "process = processWhatsapp"
  with assms(3) have "processWhatsapp env w sheetData False = (response, w')" by simp
  then show ?thesis using assms(1) by (rule processWhatsapp_log_failure)
qed

theorem no_rollback_after_log_failure_witness:
  "storeFails envStoreDown
   \<and> fst (processEmails envStoreDown worldExample emailSheetExample False)
       = Failure 500 ''Failed to create log file''
           (Some ''Failed to upload log file to S3: Error uploading log file to S3: AccessDenied'')
   \<and> tokenPatches (calls (snd (processEmails envStoreDown worldExample emailSheetExample False)))
       = [(''auth0|1'', 7)]
   \<and> balances (snd (processEmails envStoreDown worldExample emailSheetExample False))
       = [(''auth0|1'', 7), (''auth0|2'', 5)]
   \<and> balances worldExample = [(''auth0|1'', 10), (''auth0|2'', 5)]"
proof -
  have down: "storeFails envStoreDown"
    by (simp add: storeFails_def envStoreDown_def)
  have run: "processEmails envStoreDown worldExample emailSheetExample False
      = (fst (processEmails envStoreDown worldExample emailSheetExample False),
         snd (processEmails envStoreDown worldExample emailSheetExample False))"
    by simp
  have response: "fst (processEmails envStoreDown worldExample emailSheetExample False)
       = Failure 500 ''Failed to create log file''
           (Some ''Failed to upload log file to S3: Error uploading log file to S3: AccessDenied'')"
    by code_simp
  have before: "balances worldExample = [(''auth0|1'', 10), (''auth0|2'', 5)]"
    and unwritten: "tokenPatches (calls worldExample) = []"
    and patch: "auth0PatchError envStoreDown = None"
    by code_simp+
  have once: "tokenPatches (calls (snd (processEmails envStoreDown worldExample emailSheetExample False)))
       = [(''auth0|1'', 7)]"
    by code_simp
  from no_rollback_after_log_failure[OF disjI1[OF down] disjI1[OF refl] run]
  have "tokenPatches (calls (snd (processEmails envStoreDown worldExample emailSheetExample False)))
          = tokenPatches (calls worldExample) \<and>
        balances (snd (processEmails envStoreDown worldExample emailSheetExample False))
          = balances worldExample
        \<or> (\<exists>userId newBalance.
              tokenPatches (calls (snd (processEmails envStoreDown worldExample emailSheetExample False)))
                = tokenPatches (calls worldExample) @ [(userId, newBalance)] \<and>
              balances (snd (processEmails envStoreDown worldExample emailSheetExample False))
                = written userId newBalance (balances worldExample))"
    using patch by blast
  moreover have "tokenPatches (calls (snd (processEmails envStoreDown worldExample emailSheetExample False)))
          \<noteq> tokenPatches (calls worldExample)"
    unfolding once unwritten by simp
  ultimately obtain userId newBalance where
    one: "tokenPatches (calls (snd (processEmails envStoreDown worldExample emailSheetExample False)))
            = tokenPatches (calls worldExample) @ [(userId, newBalance)]"
    and kept: "balances (snd (processEmails envStoreDown worldExample emailSheetExample False))
            = written userId newBalance (balances worldExample)"
    by blast
  from one have "userId = ''auth0|1''" and "newBalance = 7"
    unfolding once unwritten by simp_all
  with kept have "balances (snd (processEmails envStoreDown worldExample emailSheetExample False))
       = [(''auth0|1'', 7), (''auth0|2'', 5)]"
    unfolding before by (simp add: written_def)
  with down response once before show ?thesis by simp
qed


section \<open>What the senders and the report loop do in general\<close>

lemma promiseAll_rejected:
  "Rejected error \<in> set promises \<Longrightarrow> \<exists>e. promiseAll promises = Inl e"
proof (induction promises rule: promiseAll.induct)
  case 1
  then show ?case by simp
next
  case (2 error ps)
  then show ?case by simp
next
  case (3 x ps)
  then show ?case by (auto split: sum.splits)
next
  case (4 error ps)
  then show ?case by (auto split: sum.splits)
qed

lemma sendBatchEmails_masked:
  assumes "m \<in> set ms"
    and "sesSend env (sendEmailInputFor env sender subject body m) = Rejected error"
  shows "\<exists>e. fst (sendBatchEmails env w sender subject body ms isDraft)
            = concat (map (\<lambda>(emailParameterMap, promise).
                             case promise of
                               Thrown error \<Rightarrow>
                                 [''Failed to send email to '' @ address emailParameterMap
                                    @ '': '' @ error]
                             | _ \<Rightarrow> [])
                          (zip ms (map (sesSend env)
                             (map (sendEmailInputFor env sender subject body) ms))))
              @ [''Error sending email: '' @ e]"
proof -
  from assms have "Rejected error
      \<in> set (map (sesSend env) (map (sendEmailInputFor env sender subject body) ms))"
    by force
  from promiseAll_rejected[OF this] obtain e where
    "promiseAll (map (sesSend env) (map (sendEmailInputFor env sender subject body) ms)) = Inl e" ..
  then show ?thesis
    by (auto simp: sendBatchEmails_def Let_def)
qed

lemma sendBatchSMS_isolated:
  assumes "m \<in> set ms"
  shows "(case snsPublish env (address m)
                 (censorMessageBody env (replacePlaceholders body (parameters m))) of
            Resolved messageId \<Rightarrow>
              ''SMS sent to '' @ address m @ ''. MessageId: '' @ messageId
          | Rejected error \<Rightarrow> ''Failed to send SMS to '' @ address m @ '': '' @ error
          | Thrown error \<Rightarrow> ''Failed to send SMS to '' @ address m @ '': '' @ error)
         \<in> set (fst (sendBatchSMS env w body ms ownMobile sender isDraft))"
  using assms
  unfolding sendBatchSMS_def Let_def
  by (cases "snsPublish env (address m)
                 (censorMessageBody env (replacePlaceholders body (parameters m)))")
     (force simp: image_iff)+

lemma emailRecipients_append:
  "emailRecipients (xs @ ys) = emailRecipients xs @ emailRecipients ys"
  by (induction xs rule: emailRecipients.induct) auto

lemma smsRecipients_append:
  "smsRecipients (xs @ ys) = smsRecipients xs @ smsRecipients ys"
  by (induction xs rule: smsRecipients.induct) auto

lemma sendBatchEmails_recipients:
  "emailRecipients (calls (snd (sendBatchEmails env w sender subject body ms isDraft)))
     = emailRecipients (calls w) @ map address ms"
  unfolding sendBatchEmails_def Let_def
  by (induction ms) (auto simp: record_call_def emailRecipients_append sendEmailInputFor_def)

lemma smsRecipients_published:
  "smsRecipients (map (\<lambda>a. PublishSms (f a) (g a)) ms) = map f ms"
  by (induction ms) auto

lemma smsRecipients_logged:
  "smsRecipients (concat (map (\<lambda>a. case p a of
                                       Resolved messageId \<Rightarrow> [LogSmsEvent sender (f a) messageId]
                                     | _ \<Rightarrow> []) ms)) = []"
  by (induction ms) (auto simp: smsRecipients_append split: outcome.splits)

lemma sendBatchSMS_recipients:
  "smsRecipients (calls (snd (sendBatchSMS env w body ms ownMobile sender isDraft)))
     = smsRecipients (calls w) @ map address ms"
  unfolding sendBatchSMS_def Let_def
  by (simp add: record_call_def smsRecipients_append smsRecipients_logged
                smsRecipients_published comp_def case_prod_unfold)

lemma reportedUsers_append:
  "reportedUsers (xs @ ys) = reportedUsers xs @ reportedUsers ys"
  by (induction xs rule: reportedUsers.induct) auto

lemma reportLoop_first_only:
  "reportedUsers (calls (snd (reportLoop env w us)))
     = reportedUsers (calls w)
       @ (case find (\<lambda>u. email_verified u \<and> is_active u \<and> tokens u \<noteq> 0) us of
            None \<Rightarrow> []
          | Some u \<Rightarrow> [email u])"
  by (induction us)
     (auto simp: record_call_def reportedUsers_append Let_def split: outcome.splits)

lemma processMonthlyReports_first_only:
  "auth0GetError env = None \<Longrightarrow>
   reportedUsers (calls (snd (processMonthlyReports env w)))
     = reportedUsers (calls w)
       @ (case find (\<lambda>u. email_verified u \<and> is_active u \<and> tokens u \<noteq> 0) (users w) of
            None \<Rightarrow> []
          | Some u \<Rightarrow> [email u])"
  by (simp add: processMonthlyReports_def getAllUsers_def reportLoop_first_only)

section \<open>Writes to the ledger by a batch\<close>

text \<open>
  Whatever the outcome of a batch, the ledger is written at most once, never by a
  draft, and the balance written is the balance read less the number of recipients
  times a unit cost: the email cost for an email batch, the SMS cost for an SMS batch,
  and the email cost again for a WhatsApp batch.
\<close>

lemma updateUserTokens_ledger:
  assumes "updateUserTokens env w a (Some cost) ''-'' True = (r, w')"
  shows "(tokenPatches (calls w') = tokenPatches (calls w) \<and> balances w' = balances w)
         \<or> (\<exists>u us. filter (\<lambda>v. email v = a) (users w) = u # us \<and>
               tokenPatches (calls w')
                 = tokenPatches (calls w) @ [(user_id u, tokens u - cost)] \<and>
               (balances w' = balances w \<or>
                balances w' = written (user_id u) (tokens u - cost) (balances w)))"
  using assms
  unfolding updateUserTokens_def Let_def
  by (auto simp: record_call_def tokenPatches_append balances_def balances_patch_comp
                 ResponseHandler_error_def ResponseHandler_notFound_def
           split: option.splits list.splits if_splits)

lemma processEmails_ledger:
  assumes run: "processEmails env w sheetData isDraft = (response, w')"
  shows "(tokenPatches (calls w') = tokenPatches (calls w) \<and> balances w' = balances w)
         \<or> (\<not> isDraft \<and>
             (\<exists>em u us.
                extractEmail sheetData = Inr em \<and>
                filter (\<lambda>v. email v = cellText (clientEmail em)) (users w) = u # us \<and>
                tokenPatches (calls w')
                  = tokenPatches (calls w)
                    @ [(user_id u,
                        tokens u - int (length (emailParameterMaps em)) * TOKENS_PER_EMAIL env)] \<and>
                (balances w' = balances w \<or>
                 balances w'
                   = written (user_id u)
                       (tokens u - int (length (emailParameterMaps em)) * TOKENS_PER_EMAIL env)
                       (balances w))))"
    (is "?same w' \<or> ?deducted w'")
proof (cases "extractEmail sheetData")
  case (Inl error)
  with run have "w' = w" by (auto simp: processEmails_def)
  then show ?thesis by simp
next
  case (Inr em)
  note extracted = Inr
  show ?thesis
  proof (cases "if \<not> isDraft
                then validateBatchRequest env w (cellText (clientEmail em))
                       (length (emailParameterMaps em)) ''email''
                else Inr ()")
    case (Inl reason)
    with run extracted have "w' = w" by (auto simp: processEmails_def)
    then show ?thesis by simp
  next
    case (Inr unit)
    note valid = Inr
    show ?thesis
    proof (cases "ENABLE_SEND_EMAIL env")
      case False
      with run extracted valid have "w' = w" by (auto simp: processEmails_def)
      then show ?thesis by simp
    next
      case True
      let ?body = "buildBatchRequestEmailBody env (emailParagraphs em) (companyName em)
                     (cellText (clientEmail em)) (companyAddress em)"
      obtain logs w1 where send:
        "sendBatchEmails env w (cellText (clientEmail em)) (cellText (emailSubject em)) ?body
           (emailParameterMaps em) isDraft = (logs, w1)"
        by fastforce
      from sendBatchEmails_effect[OF send]
      have e1: "users w1 = users w" "balances w1 = balances w"
        "tokenPatches (calls w1) = tokenPatches (calls w)"
        by (simp_all add: balances_def)
      obtain d w2 where ded:
        "(if \<not> isDraft
          then (case updateUserTokens env w1 (cellText (clientEmail em))
                       (calculateBatchCost env (length (emailParameterMaps em)) ''email'')
                       ''-'' True of
                  (Failure status msg details, w2) \<Rightarrow> (Inl details, w2)
                | (Success msg data, w2) \<Rightarrow> (Inr data, w2))
          else (Inr 0, w1)) = (d, w2)"
        by fastforce
      have step: "?same w2 \<or> ?deducted w2"
      proof (cases isDraft)
        case True
        with ded have "w2 = w1" by simp
        with e1 show ?thesis by simp
      next
        case False
        obtain r w2' where upd:
          "updateUserTokens env w1 (cellText (clientEmail em))
             (Some (int (length (emailParameterMaps em)) * TOKENS_PER_EMAIL env)) ''-'' True
             = (r, w2')"
          by fastforce
        with ded False have "w2 = w2'"
          by (cases r) (auto simp: calculateBatchCost_def)
        with updateUserTokens_ledger[OF upd] e1 extracted False show ?thesis
          by auto
      qed
      have rest: "balances w' = balances w2 \<and> tokenPatches (calls w') = tokenPatches (calls w2)"
      proof (cases d)
        case (Inl details)
        with run extracted valid True send ded have "w' = w2"
          by (auto simp: processEmails_def)
        then show ?thesis by simp
      next
        case (Inr data)
        note deducted = Inr
        obtain lr w3 where log:
          "logEmailToFile env w2 (clientName em) (clientEmail em) (emailSubject em)
             (emailParagraphs em) (emailParameterMaps em) (invalidEmailAddresses em)
             logs data = (lr, w3)"
          by fastforce
        from logEmailToFile_effect[OF log]
        have e3: "balances w3 = balances w2" "tokenPatches (calls w3) = tokenPatches (calls w2)"
          by (simp_all add: balances_def)
        show ?thesis
        proof (cases lr)
          case (Inl error)
          with run extracted valid True send ded deducted log have "w' = w3"
            by (auto simp: processEmails_def)
          with e3 show ?thesis by simp
        next
          case (Inr stored)
          obtain logFileName logFile where stored: "stored = (logFileName, logFile)"
            by (cases stored)
          obtain mr w4 where mail:
            "emailLogFileToClient env w3 (clientName em) (cellText (clientEmail em)) ''Email''
               logFileName logFile = (mr, w4)"
            by fastforce
          from emailLogFileToClient_effect[OF mail]
          have e4: "balances w4 = balances w3" "tokenPatches (calls w4) = tokenPatches (calls w3)"
            by (simp_all add: balances_def)
          from run extracted valid True send ded deducted log Inr stored mail have "w' = w4"
            by (cases mr) (auto simp: processEmails_def)
          with e3 e4 show ?thesis by simp
        qed
      qed
      with step show ?thesis by auto
    qed
  qed
qed

lemma processSms_ledger:
  assumes run: "processSms env w sheetData isDraft = (response, w')"
  shows "(tokenPatches (calls w') = tokenPatches (calls w) \<and> balances w' = balances w)
         \<or> (\<not> isDraft \<and>
             (\<exists>em u us.
                extractMobile sheetData = Inr em \<and>
                filter (\<lambda>v. email v = cellText (clientEmail em)) (users w) = u # us \<and>
                tokenPatches (calls w')
                  = tokenPatches (calls w)
                    @ [(user_id u,
                        tokens u - int (length (mobileParameterMaps em)) * TOKENS_PER_SMS env)] \<and>
                (balances w' = balances w \<or>
                 balances w'
                   = written (user_id u)
                       (tokens u - int (length (mobileParameterMaps em)) * TOKENS_PER_SMS env)
                       (balances w))))"
    (is "?same w' \<or> ?deducted w'")
proof (cases "extractMobile sheetData")
  case (Inl error)
  with run have "w' = w" by (auto simp: processSms_def)
  then show ?thesis by simp
next
  case (Inr em)
  note extracted = Inr
  show ?thesis
  proof (cases "if \<not> isDraft
                then validateBatchRequest env w (cellText (clientEmail em))
                       (length (mobileParameterMaps em)) ''sms''
                else Inr ()")
    case (Inl reason)
    with run extracted have "w' = w" by (auto simp: processSms_def)
    then show ?thesis by simp
  next
    case (Inr unit)
    note valid = Inr
    show ?thesis
    proof (cases "ENABLE_SEND_SMS env")
      case False
      with run extracted valid have "w' = w" by (auto simp: processSms_def)
      then show ?thesis by simp
    next
      case True
      obtain logs w1 where send:
        "sendBatchSMS env w (smsBody em) (mobileParameterMaps em) (clientMobile em)
           (cellText (clientEmail em)) isDraft = (logs, w1)"
        by fastforce
      from sendBatchSMS_effect[OF send]
      have e1: "users w1 = users w" "balances w1 = balances w"
        "tokenPatches (calls w1) = tokenPatches (calls w)"
        by (simp_all add: balances_def)
      obtain d w2 where ded:
        "(if \<not> isDraft
          then (case updateUserTokens env w1 (cellText (clientEmail em))
                       (calculateBatchCost env (length (mobileParameterMaps em)) ''sms'')
                       ''-'' True of
                  (Failure status msg details, w2) \<Rightarrow> (Inl details, w2)
                | (Success msg data, w2) \<Rightarrow> (Inr data, w2))
          else (Inr 0, w1)) = (d, w2)"
        by fastforce
      have step: "?same w2 \<or> ?deducted w2"
      proof (cases isDraft)
        case True
        with ded have "w2 = w1" by simp
        with e1 show ?thesis by simp
      next
        case False
        obtain r w2' where upd:
          "updateUserTokens env w1 (cellText (clientEmail em))
             (Some (int (length (mobileParameterMaps em)) * TOKENS_PER_SMS env)) ''-'' True
             = (r, w2')"
          by fastforce
        with ded False have "w2 = w2'"
          by (cases r) (auto simp: calculateBatchCost_def)
        with updateUserTokens_ledger[OF upd] e1 extracted False show ?thesis
          by auto
      qed
      have rest: "balances w' = balances w2 \<and> tokenPatches (calls w') = tokenPatches (calls w2)"
      proof (cases d)
        case (Inl details)
        with run extracted valid True send ded have "w' = w2"
          by (auto simp: processSms_def)
        then show ?thesis by simp
      next
        case (Inr data)
        note deducted = Inr
        obtain lr w3 where log:
          "logSmsToFile env w2 (clientName em) (clientEmail em) (clientMobile em)
             (smsBody em) (mobileParameterMaps em) (invalidMobileNumbers em)
             logs data = (lr, w3)"
          by fastforce
        from logSmsToFile_effect[OF log]
        have e3: "balances w3 = balances w2" "tokenPatches (calls w3) = tokenPatches (calls w2)"
          by (simp_all add: balances_def)
        show ?thesis
        proof (cases lr)
          case (Inl error)
          with run extracted valid True send ded deducted log have "w' = w3"
            by (auto simp: processSms_def)
          with e3 show ?thesis by simp
        next
          case (Inr stored)
          obtain logFileName logFile where stored: "stored = (logFileName, logFile)"
            by (cases stored)
          obtain mr w4 where mail:
            "emailLogFileToClient env w3 (clientName em) (cellText (clientEmail em)) ''SMS''
               logFileName logFile = (mr, w4)"
            by fastforce
          from emailLogFileToClient_effect[OF mail]
          have e4: "balances w4 = balances w3" "tokenPatches (calls w4) = tokenPatches (calls w3)"
            by (simp_all add: balances_def)
          from run extracted valid True send ded deducted log Inr stored mail have "w' = w4"
            by (cases mr) (auto simp: processSms_def)
          with e3 e4 show ?thesis by simp
        qed
      qed
      with step show ?thesis by auto
    qed
  qed
qed

lemma processWhatsapp_ledger:
  assumes run: "processWhatsapp env w sheetData isDraft = (response, w')"
  shows "(tokenPatches (calls w') = tokenPatches (calls w) \<and> balances w' = balances w)
         \<or> (\<not> isDraft \<and>
             (\<exists>em u us.
                extractWhatsapp sheetData = Inr em \<and>
                filter (\<lambda>v. email v = cellText (clientEmail em)) (users w) = u # us \<and>
                tokenPatches (calls w')
                  = tokenPatches (calls w)
                    @ [(user_id u,
                        tokens u - int (length (whatsappParameterMaps em)) * TOKENS_PER_EMAIL env)] \<and>
                (balances w' = balances w \<or>
                 balances w'
                   = written (user_id u)
                       (tokens u - int (length (whatsappParameterMaps em)) * TOKENS_PER_EMAIL env)
                       (balances w))))"
    (is "?same w' \<or> ?deducted w'")
proof (cases "extractWhatsapp sheetData")
  case (Inl error)
  with run have "w' = w" by (auto simp: processWhatsapp_def Let_def)
  then show ?thesis by simp
next
  case (Inr em)
  note extracted = Inr
  show ?thesis
  proof (cases "if \<not> isDraft
                then validateBatchRequest env w (cellText (clientEmail em))
                       (length (whatsappParameterMaps em)) ''whatsapp''
                else Inr ()")
    case (Inl reason)
    with run extracted have "w' = w" by (auto simp: processWhatsapp_def Let_def)
    then show ?thesis by simp
  next
    case (Inr unit)
    note valid = Inr
    show ?thesis
    proof (cases "ENABLE_SEND_WHATSAPP env")
      case False
      with run extracted valid have "w' = w" by (auto simp: processWhatsapp_def Let_def)
      then show ?thesis by simp
    next
      case True
      let ?messages =
        "if isDraft
         then [\<lparr>phoneNumber = PhoneList (clientMobile em),
                 templateName = whatsappTemplateName em,
                 templateParameters = None,
                 languageCode = ''en_US''\<rparr>]
         else map (\<lambda>mobileNumber.
                     \<lparr>phoneNumber = PhoneText (address mobileNumber),
                      templateName = whatsappTemplateName em,
                      templateParameters = Some (parameters mobileNumber),
                      languageCode = ''en_US''\<rparr>)
                  (whatsappParameterMaps em)"
      let ?url = "WA_API_URL env @ ''/'' @ whatsappPhoneNumberId em @ ''/messages''"
      obtain sent w1 where send:
        "sendBatchWhatsappTemplateMessages env w ?messages (whatsappAccessToken em) ?url
           = (sent, w1)"
        by fastforce
      from sendBatchWhatsappTemplateMessages_effect[OF send]
      have e1: "users w1 = users w" "balances w1 = balances w"
        "tokenPatches (calls w1) = tokenPatches (calls w)"
        by (simp_all add: balances_def)
      show ?thesis
      proof (cases sent)
        case (Inl error)
        with run extracted valid True send have "w' = w1"
          by (auto simp: processWhatsapp_def Let_def)
        with e1 show ?thesis by simp
      next
        case (Inr logs)
        note sent = Inr
        obtain d w2 where ded:
          "(if \<not> isDraft
            then (case updateUserTokens env w1 (cellText (clientEmail em))
                         (calculateBatchCost env (length (whatsappParameterMaps em)) ''email'')
                         ''-'' True of
                    (Failure status msg details, w2) \<Rightarrow> (Inl details, w2)
                  | (Success msg data, w2) \<Rightarrow> (Inr data, w2))
            else (Inr 0, w1)) = (d, w2)"
          by fastforce
        have step: "?same w2 \<or> ?deducted w2"
        proof (cases isDraft)
          case True
          with ded have "w2 = w1" by simp
          with e1 show ?thesis by simp
        next
          case False
          obtain r w2' where upd:
            "updateUserTokens env w1 (cellText (clientEmail em))
               (Some (int (length (whatsappParameterMaps em)) * TOKENS_PER_EMAIL env)) ''-'' True
               = (r, w2')"
            by fastforce
          with ded False have "w2 = w2'"
            by (cases r) (auto simp: calculateBatchCost_def)
          with updateUserTokens_ledger[OF upd] e1 extracted False show ?thesis
            by auto
        qed
        have rest: "balances w' = balances w2 \<and> tokenPatches (calls w') = tokenPatches (calls w2)"
        proof (cases d)
          case (Inl details)
          with run extracted valid True send sent ded have "w' = w2"
            by (auto simp: processWhatsapp_def Let_def)
          then show ?thesis by simp
        next
          case (Inr data)
          note deducted = Inr
          obtain cr w2c where cred:
            "updateUserWhatsAppCredentials env w2 (cellText (clientEmail em)) (whatsappAccessToken em)
               (whatsappPhoneNumberId em) = (cr, w2c)"
            by fastforce
          from credentials_balances[OF cred] updateUserWhatsAppCredentials_effect[OF cred]
          have ec: "balances w2c = balances w2" "tokenPatches (calls w2c) = tokenPatches (calls w2)"
            by simp_all
          obtain lr w3 where log:
            "logWhatsappToFile env w2c (clientName em) (clientEmail em) (clientMobile em)
               (whatsappTemplateName em) (whatsappParameterMaps em) (invalidMobileNumbers em)
               logs data = (lr, w3)"
            by fastforce
          from logWhatsappToFile_effect[OF log] ec
          have e3: "balances w3 = balances w2" "tokenPatches (calls w3) = tokenPatches (calls w2)"
            by (simp_all add: balances_def)
          show ?thesis
          proof (cases lr)
            case (Inl error)
            with run extracted valid True send sent ded deducted cred log have "w' = w3"
              by (auto simp: processWhatsapp_def Let_def)
            with e3 show ?thesis by simp
          next
            case (Inr stored)
            obtain logFileName logFile where stored: "stored = (logFileName, logFile)"
              by (cases stored)
            obtain mr w4 where mail:
              "emailLogFileToClient env w3 (clientName em) (cellText (clientEmail em)) ''WhatsApp''
                 logFileName logFile = (mr, w4)"
              by fastforce
            from emailLogFileToClient_effect[OF mail]
            have e4: "balances w4 = balances w3" "tokenPatches (calls w4) = tokenPatches (calls w3)"
              by (simp_all add: balances_def)
            from run extracted valid True send sent ded deducted cred log Inr stored mail have "w' = w4"
              by (cases mr) (auto simp: processWhatsapp_def Let_def)
            with e3 e4 show ?thesis by simp
          qed
        qed
        with step show ?thesis by auto
      qed
    qed
  qed
qed

section \<open>Where the code departs from the specification\<close>

text \<open>
  Claim C1 at a draft batch of each channel. The draft email and the draft SMS batch
  send to every recipient of the sheet and not to the client (the \<open>map\<close> of
  \<open>sendBatchEmails\<close> and of \<open>sendBatchSMS\<close> runs over the parameter maps whatever
  \<open>isDraft\<close> is, see \<open>sendBatchEmails_recipients\<close> and \<open>sendBatchSMS_recipients\<close>);
  the draft WhatsApp batch sends to the client's mobile only. No draft writes to the
  token ledger (\<open>processEmails_ledger\<close>, \<open>processSms_ledger\<close>, \<open>processWhatsapp_ledger\<close>).
\<close>

theorem draft_batches_recipients:
  "emailRecipients (calls (snd (processEmails envExample worldExample emailSheetExample True)))
     = [''ann@example.com'', ''bob@example.com'', ''cy@example.com'']
   \<and> map_sum id clientEmail (extractEmail emailSheetExample) = Inr (Text ''acme@example.com'')
   \<and> smsRecipients (calls (snd (processSms envExample worldExample smsSheetExample True)))
     = [''+27 82 123 4567'', ''+27821234567'', ''+44 20 7946 0018'']
   \<and> map_sum id clientMobile (extractMobile smsSheetExample) = Inr [''+27115550100'']
   \<and> whatsappRecipients
         (calls (snd (processWhatsapp envExample worldExample whatsappSheetExample True)))
     = [PhoneList [''+27115550100'']]
   \<and> tokenPatches (calls (snd (processEmails envExample worldExample emailSheetExample True))) = []
   \<and> tokenPatches (calls (snd (processSms envExample worldExample smsSheetExample True))) = []
   \<and> tokenPatches
         (calls (snd (processWhatsapp envExample worldExample whatsappSheetExample True))) = []"
  by code_simp

text \<open>
  Claim C2 at a batch of three recipients whose second send is rejected. The email
  sender returns the one line of the \<open>catch\<close> of \<open>Promise.all\<close> and no line for the two
  mails that were sent (in general \<open>sendBatchEmails_masked\<close>); the SMS sender returns
  the failure of the second recipient and the results of the other two (in general
  \<open>sendBatchSMS_isolated\<close>).
\<close>

theorem one_rejected_send_of_three:
  "fst (sendBatchEmails envRejecting worldExample ''acme@example.com'' ''Welcome'' ''Dear {}''
          [\<lparr>address = ''ann@example.com'', parameters = [''Ann'']\<rparr>,
           \<lparr>address = ''bob@example.com'', parameters = [''Bob'']\<rparr>,
           \<lparr>address = ''cy@example.com'', parameters = [''Cy'']\<rparr>] False)
     = [''Error sending email: MessageRejected'']
   \<and> fst (sendBatchSMS envRejecting worldExample ''Hello {}''
          [\<lparr>address = ''+27 82 123 4567'', parameters = [''Ann'']\<rparr>,
           \<lparr>address = ''+27821234567'', parameters = [''Bob'']\<rparr>,
           \<lparr>address = ''+44 20 7946 0018'', parameters = [''Dee'']\<rparr>]
          [''+27115550100''] ''acme@example.com'' False)
     = [''Failed to send SMS to +27821234567: InvalidParameter'',
        ''SMS sent to +27 82 123 4567. MessageId: sns-+27 82 123 4567'',
        ''SMS sent to +44 20 7946 0018. MessageId: sns-+44 20 7946 0018'']"
  by code_simp

text \<open>
  Claim C3 at a WhatsApp batch of two recipients for a client with 10 tokens, a
  WhatsApp message costing 3 tokens and an email 1: the quota check is made with the
  WhatsApp cost (6), and the ledger is written once, with 10 less the email cost of the
  batch (2). The email and the SMS batch of three recipients deduct 3 and 6. The
  amounts in general are those of \<open>processEmails_ledger\<close>, \<open>processSms_ledger\<close> and
  \<open>processWhatsapp_ledger\<close>.
\<close>

theorem whatsapp_batch_deducts_email_cost:
  "tokenPatches (calls (snd (processWhatsapp envExample worldExample whatsappSheetExample False)))
     = [(''auth0|1'', 8)]
   \<and> map_sum id (length \<circ> whatsappParameterMaps) (extractWhatsapp whatsappSheetExample) = Inr 2
   \<and> calculateBatchCost envExample 2 ''whatsapp'' = Some 6
   \<and> calculateBatchCost envExample 2 ''email'' = Some 2
   \<and> tokenPatches (calls (snd (processEmails envExample worldExample emailSheetExample False)))
     = [(''auth0|1'', 7)]
   \<and> tokenPatches (calls (snd (processSms envExample worldExample smsSheetExample False)))
     = [(''auth0|1'', 4)]"
  by code_simp

text \<open>
  Claim C5 at an SMS sheet in which two rows hold the same number, written with and
  without spaces: both rows are recipients, each with its own parameters, because the
  \<open>Map\<close> is keyed on the cell as written (\<open>uniqueValues_first\<close>).
\<close>

theorem same_number_two_spellings:
  "formatNumber ''+27 82 123 4567'' = formatNumber ''+27821234567''
   \<and> map_sum id mobileParameterMaps (extractMobile smsSheetExample)
     = Inr [\<lparr>address = ''+27 82 123 4567'', parameters = [''Ann'']\<rparr>,
            \<lparr>address = ''+27821234567'', parameters = [''Bob'']\<rparr>,
            \<lparr>address = ''+44 20 7946 0018'', parameters = [''Dee'']\<rparr>]"
  by code_simp

text \<open>
  Claim C7 at two users who are both verified, active and with tokens: one invocation
  makes the report of the first and returns (in general \<open>reportLoop_first_only\<close>).
\<close>

theorem second_eligible_client_not_reported:
  "reportedUsers (calls (snd (processMonthlyReports envExample worldExample)))
     = [''acme@example.com'']
   \<and> map email (filter (\<lambda>u. email_verified u \<and> is_active u \<and> 0 < tokens u)
                        (users worldExample))
     = [''acme@example.com'', ''zenith@example.com'']"
  by code_simp

end
